theory Spec2Isabelle
  imports Complex_Main "HOL-Library.Word"
begin

section \<open>Names, symbols and locations\<close>

text \<open>
  A source location (\<open>core::Loc\<close>) is reduced to what the desugarer reads of it: whether
  it exists, and the lines of its two ends (\<open>loc.position(ctx)\<close>, read by the
  \<open>LineLiteral\<close> clause only).
\<close>

datatype Loc = NoLoc | Loc nat nat

definition Loc_exists :: "Loc \<Rightarrow> bool" where
  "Loc_exists l = (case l of NoLoc \<Rightarrow> False | Loc _ _ \<Rightarrow> True)"

definition Loc_position :: "Loc \<Rightarrow> nat \<times> nat" where
  "Loc_position l = (case l of NoLoc \<Rightarrow> (0, 0) | Loc b e \<Rightarrow> (b, e))"

type_synonym u2 = "16 word"
type_synonym u4 = "32 word"

datatype UniqueNameKind = Desugar

text \<open>
  Modelled from the spec: \<open>core::NameRef\<close> and the interner (\<open>GlobalState\<close>) are not under
  \<open>src/\<close>. A name is the value it was interned from: \<open>enterNameUTF8\<close> is "stable across
  calls", and \<open>freshNameUnique\<close> "with distinct (category, baseName, counter) triples
  must produce distinct NameRefs", so a unique name is its triple. The counter is the
  source's \<open>u2\<close>, a 16-bit word.
\<close>

datatype NameRef = NoName | UTF8 string | CONSTANT NameRef | UNIQUE UniqueNameKind NameRef u2

definition NameRef_exists :: "NameRef \<Rightarrow> bool" where
  "NameRef_exists n = (case n of NoName \<Rightarrow> False | _ \<Rightarrow> True)"

definition enterNameUTF8 :: "string \<Rightarrow> NameRef" where
  "enterNameUTF8 s = UTF8 s"

text \<open>\<open>NameRef::addEq\<close>: the setter name \<open>m=\<close> of a method name \<open>m\<close>.\<close>

definition addEq :: "NameRef \<Rightarrow> NameRef" where
  "addEq n = (case n of UTF8 s \<Rightarrow> UTF8 (s @ ''='') | _ \<Rightarrow> n)"

text \<open>The well-known names the desugarer uses, with the strings of \<open>generate_names.cc\<close>.\<close>

abbreviation Names_andAnd :: NameRef where "Names_andAnd \<equiv> UTF8 ''&&''"
abbreviation Names_orOr :: NameRef where "Names_orOr \<equiv> UTF8 ''||''"
abbreviation Names_to_s :: NameRef where "Names_to_s \<equiv> UTF8 ''to_s''"
abbreviation Names_to_a :: NameRef where "Names_to_a \<equiv> UTF8 ''to_a''"
abbreviation Names_to_hash :: NameRef where "Names_to_hash \<equiv> UTF8 ''to_hash''"
abbreviation Names_to_proc :: NameRef where "Names_to_proc \<equiv> UTF8 ''to_proc''"
abbreviation Names_concat :: NameRef where "Names_concat \<equiv> UTF8 ''concat''"
abbreviation Names_intern :: NameRef where "Names_intern \<equiv> UTF8 ''intern''"
abbreviation Names_call :: NameRef where "Names_call \<equiv> UTF8 ''call''"
abbreviation Names_bang :: NameRef where "Names_bang \<equiv> UTF8 ''!''"
abbreviation Names_squareBrackets :: NameRef where "Names_squareBrackets \<equiv> UTF8 ''[]''"
abbreviation Names_tripleEq :: NameRef where "Names_tripleEq \<equiv> UTF8 ''===''"
abbreviation Names_orOp :: NameRef where "Names_orOp \<equiv> UTF8 ''|''"
abbreviation Names_backtick :: NameRef where "Names_backtick \<equiv> UTF8 [CHR 0x60]"
abbreviation Names_slice :: NameRef where "Names_slice \<equiv> UTF8 ''slice''"
abbreviation Names_defined_p :: NameRef where "Names_defined_p \<equiv> UTF8 ''defined?''"
abbreviation Names_each :: NameRef where "Names_each \<equiv> UTF8 ''each''"
abbreviation Names_assignTemp :: NameRef where "Names_assignTemp \<equiv> UTF8 ''<assignTemp>''"
abbreviation Names_rescueTemp :: NameRef where "Names_rescueTemp \<equiv> UTF8 ''<rescueTemp>''"
abbreviation Names_currentFile :: NameRef where "Names_currentFile \<equiv> UTF8 ''__FILE__''"
abbreviation Names_merge :: NameRef where "Names_merge \<equiv> UTF8 ''merge''"
abbreviation Names_aliasMethod :: NameRef where "Names_aliasMethod \<equiv> UTF8 ''alias_method''"
abbreviation Names_singleton :: NameRef where "Names_singleton \<equiv> UTF8 ''<singleton class>''"
abbreviation Names_blockPassTemp :: NameRef where "Names_blockPassTemp \<equiv> UTF8 ''<block-pass>''"
abbreviation Names_forTemp :: NameRef where "Names_forTemp \<equiv> UTF8 ''forTemp''"
abbreviation Names_new :: NameRef where "Names_new \<equiv> UTF8 ''new''"
abbreviation Names_destructureArg :: NameRef where "Names_destructureArg \<equiv> UTF8 ''<destructure>''"
abbreviation Names_nil_p :: NameRef where "Names_nil_p \<equiv> UTF8 ''nil?''"
abbreviation Names_super :: NameRef where "Names_super \<equiv> UTF8 ''super''"
abbreviation Names_empty :: NameRef where "Names_empty \<equiv> UTF8 []"
abbreviation Names_splat :: NameRef where "Names_splat \<equiv> UTF8 ''<splat>''"
abbreviation Names_expandSplat :: NameRef where "Names_expandSplat \<equiv> UTF8 ''<expand-splat>''"
abbreviation Names_callWithSplat :: NameRef where "Names_callWithSplat \<equiv> UTF8 ''<call-with-splat>''"

text \<open>The well-known symbols (\<open>core::Symbols\<close>) the desugarer refers to.\<close>

datatype SymbolRef =
    Symbols_root | Symbols_todo | Symbols_Magic | Symbols_Kernel | Symbols_Complex
  | Symbols_Rational | Symbols_Range | Symbols_Regexp | Symbols_Symbol

text \<open>
  Modelled from the spec: the symbol table is not under \<open>src/\<close>; \<open>sym.data(ctx)->name\<close> of
  the three symbols whose name the desugarer reads is the constant name spelled like the symbol.
\<close>

definition Symbol_name :: "SymbolRef \<Rightarrow> NameRef" where
  "Symbol_name s = (case s of
      Symbols_Complex \<Rightarrow> CONSTANT (UTF8 ''Complex'')
    | Symbols_Rational \<Rightarrow> CONSTANT (UTF8 ''Rational'')
    | Symbols_Range \<Rightarrow> CONSTANT (UTF8 ''Range'')
    | _ \<Rightarrow> NoName)"

section \<open>Parse nodes\<close>

text \<open>
  The parse tree (\<open>parser::Node\<close> and its subclasses), with the fields \<open>Desugar.cc\<close> reads,
  in the order the source names them. A \<open>unique_ptr<parser::Node>\<close> may be null, so a child
  is a \<open>Node option\<close> and a \<open>NodeVec\<close> a list of them. \<open>parser_Other\<close> stands for every
  node class the dispatch has no clause of its own for (its string is \<open>nodeName()\<close>).
\<close>

datatype (plugins only: size) Node =
    parser_Send Loc "Node option" NameRef "Node option list"
  | parser_Const Loc "Node option" NameRef
  | parser_String Loc NameRef
  | parser_Symbol Loc NameRef
  | parser_LVar Loc NameRef
  | parser_DString Loc "Node option list"
  | parser_Begin Loc "Node option list"
  | parser_And Loc "Node option" "Node option"
  | parser_Or Loc "Node option" "Node option"
  | parser_AndAsgn Loc "Node option" "Node option"
  | parser_OrAsgn Loc "Node option" "Node option"
  | parser_OpAsgn Loc "Node option" NameRef "Node option"
  | parser_CSend Loc "Node option" NameRef "Node option list"
  | parser_Self Loc
  | parser_DSymbol Loc "Node option list"
  | parser_FileLiteral Loc
  | parser_ConstLhs Loc "Node option" NameRef
  | parser_Cbase Loc
  | parser_Kwbegin Loc "Node option list"
  | parser_Module Loc Loc "Node option" "Node option"
  | parser_Class Loc Loc "Node option" "Node option" "Node option"
  | parser_Arg Loc NameRef
  | parser_Restarg Loc NameRef
  | parser_Kwrestarg Loc NameRef
  | parser_Kwarg Loc NameRef
  | parser_Blockarg Loc NameRef
  | parser_Kwoptarg Loc NameRef "Node option"
  | parser_Optarg Loc NameRef "Node option"
  | parser_Shadowarg Loc NameRef
  | parser_DefMethod Loc Loc NameRef "Node option" "Node option"
  | parser_DefS Loc Loc "Node option" NameRef "Node option" "Node option"
  | parser_SClass Loc Loc "Node option" "Node option"
  | parser_Block Loc "Node option" "Node option" "Node option"
  | parser_While Loc "Node option" "Node option"
  | parser_WhilePost Loc "Node option" "Node option"
  | parser_Until Loc "Node option" "Node option"
  | parser_UntilPost Loc "Node option" "Node option"
  | parser_Nil Loc
  | parser_IVar Loc NameRef
  | parser_GVar Loc NameRef
  | parser_CVar Loc NameRef
  | parser_LVarLhs Loc NameRef
  | parser_GVarLhs Loc NameRef
  | parser_CVarLhs Loc NameRef
  | parser_IVarLhs Loc NameRef
  | parser_NthRef Loc int
  | parser_Assign Loc "Node option" "Node option"
  | parser_Super Loc "Node option list"
  | parser_ZSuper Loc
  | parser_For Loc "Node option" "Node option" "Node option"
  | parser_Integer Loc string
  | parser_Float Loc string
  | parser_Complex Loc string
  | parser_Rational Loc string
  | parser_Array Loc "Node option list"
  | parser_Hash Loc "Node option list"
  | parser_Pair Loc "Node option" "Node option"
  | parser_Kwsplat Loc "Node option"
  | parser_IRange Loc "Node option" "Node option"
  | parser_ERange Loc "Node option" "Node option"
  | parser_Regexp Loc "Node option list" "Node option"
  | parser_Regopt Loc string
  | parser_Return Loc "Node option list"
  | parser_Break Loc "Node option list"
  | parser_Next Loc "Node option list"
  | parser_Retry Loc
  | parser_Yield Loc "Node option list"
  | parser_Rescue Loc "Node option" "Node option list" "Node option"
  | parser_Resbody Loc "Node option" "Node option" "Node option"
  | parser_Ensure Loc "Node option" "Node option"
  | parser_If Loc "Node option" "Node option" "Node option"
  | parser_Masgn Loc "Node option" "Node option"
  | parser_Mlhs Loc "Node option list"
  | parser_SplatLhs Loc "Node option"
  | parser_True Loc
  | parser_False Loc
  | parser_Case Loc "Node option" "Node option list" "Node option"
  | parser_When Loc "Node option list" "Node option"
  | parser_Splat Loc "Node option"
  | parser_Alias Loc "Node option" "Node option"
  | parser_Defined Loc "Node option"
  | parser_LineLiteral Loc
  | parser_XString Loc "Node option list"
  | parser_Preexe Loc
  | parser_Postexe Loc
  | parser_Undef Loc
  | parser_Backref Loc
  | parser_EFlipflop Loc
  | parser_IFlipflop Loc
  | parser_MatchCurLine Loc
  | parser_Redo Loc
  | parser_BlockPass Loc "Node option"
  | parser_Args Loc "Node option list"
  | parser_Other Loc string

text \<open>\<open>what->loc\<close>.\<close>

primrec nodeLoc :: "Node \<Rightarrow> Loc" where
  "nodeLoc (parser_Send loc x1 x2 x3) = loc"
| "nodeLoc (parser_Const loc x1 x2) = loc"
| "nodeLoc (parser_String loc x1) = loc"
| "nodeLoc (parser_Symbol loc x1) = loc"
| "nodeLoc (parser_LVar loc x1) = loc"
| "nodeLoc (parser_DString loc x1) = loc"
| "nodeLoc (parser_Begin loc x1) = loc"
| "nodeLoc (parser_And loc x1 x2) = loc"
| "nodeLoc (parser_Or loc x1 x2) = loc"
| "nodeLoc (parser_AndAsgn loc x1 x2) = loc"
| "nodeLoc (parser_OrAsgn loc x1 x2) = loc"
| "nodeLoc (parser_OpAsgn loc x1 x2 x3) = loc"
| "nodeLoc (parser_CSend loc x1 x2 x3) = loc"
| "nodeLoc (parser_Self loc) = loc"
| "nodeLoc (parser_DSymbol loc x1) = loc"
| "nodeLoc (parser_FileLiteral loc) = loc"
| "nodeLoc (parser_ConstLhs loc x1 x2) = loc"
| "nodeLoc (parser_Cbase loc) = loc"
| "nodeLoc (parser_Kwbegin loc x1) = loc"
| "nodeLoc (parser_Module loc x1 x2 x3) = loc"
| "nodeLoc (parser_Class loc x1 x2 x3 x4) = loc"
| "nodeLoc (parser_Arg loc x1) = loc"
| "nodeLoc (parser_Restarg loc x1) = loc"
| "nodeLoc (parser_Kwrestarg loc x1) = loc"
| "nodeLoc (parser_Kwarg loc x1) = loc"
| "nodeLoc (parser_Blockarg loc x1) = loc"
| "nodeLoc (parser_Kwoptarg loc x1 x2) = loc"
| "nodeLoc (parser_Optarg loc x1 x2) = loc"
| "nodeLoc (parser_Shadowarg loc x1) = loc"
| "nodeLoc (parser_DefMethod loc x1 x2 x3 x4) = loc"
| "nodeLoc (parser_DefS loc x1 x2 x3 x4 x5) = loc"
| "nodeLoc (parser_SClass loc x1 x2 x3) = loc"
| "nodeLoc (parser_Block loc x1 x2 x3) = loc"
| "nodeLoc (parser_While loc x1 x2) = loc"
| "nodeLoc (parser_WhilePost loc x1 x2) = loc"
| "nodeLoc (parser_Until loc x1 x2) = loc"
| "nodeLoc (parser_UntilPost loc x1 x2) = loc"
| "nodeLoc (parser_Nil loc) = loc"
| "nodeLoc (parser_IVar loc x1) = loc"
| "nodeLoc (parser_GVar loc x1) = loc"
| "nodeLoc (parser_CVar loc x1) = loc"
| "nodeLoc (parser_LVarLhs loc x1) = loc"
| "nodeLoc (parser_GVarLhs loc x1) = loc"
| "nodeLoc (parser_CVarLhs loc x1) = loc"
| "nodeLoc (parser_IVarLhs loc x1) = loc"
| "nodeLoc (parser_NthRef loc x1) = loc"
| "nodeLoc (parser_Assign loc x1 x2) = loc"
| "nodeLoc (parser_Super loc x1) = loc"
| "nodeLoc (parser_ZSuper loc) = loc"
| "nodeLoc (parser_For loc x1 x2 x3) = loc"
| "nodeLoc (parser_Integer loc x1) = loc"
| "nodeLoc (parser_Float loc x1) = loc"
| "nodeLoc (parser_Complex loc x1) = loc"
| "nodeLoc (parser_Rational loc x1) = loc"
| "nodeLoc (parser_Array loc x1) = loc"
| "nodeLoc (parser_Hash loc x1) = loc"
| "nodeLoc (parser_Pair loc x1 x2) = loc"
| "nodeLoc (parser_Kwsplat loc x1) = loc"
| "nodeLoc (parser_IRange loc x1 x2) = loc"
| "nodeLoc (parser_ERange loc x1 x2) = loc"
| "nodeLoc (parser_Regexp loc x1 x2) = loc"
| "nodeLoc (parser_Regopt loc x1) = loc"
| "nodeLoc (parser_Return loc x1) = loc"
| "nodeLoc (parser_Break loc x1) = loc"
| "nodeLoc (parser_Next loc x1) = loc"
| "nodeLoc (parser_Retry loc) = loc"
| "nodeLoc (parser_Yield loc x1) = loc"
| "nodeLoc (parser_Rescue loc x1 x2 x3) = loc"
| "nodeLoc (parser_Resbody loc x1 x2 x3) = loc"
| "nodeLoc (parser_Ensure loc x1 x2) = loc"
| "nodeLoc (parser_If loc x1 x2 x3) = loc"
| "nodeLoc (parser_Masgn loc x1 x2) = loc"
| "nodeLoc (parser_Mlhs loc x1) = loc"
| "nodeLoc (parser_SplatLhs loc x1) = loc"
| "nodeLoc (parser_True loc) = loc"
| "nodeLoc (parser_False loc) = loc"
| "nodeLoc (parser_Case loc x1 x2 x3) = loc"
| "nodeLoc (parser_When loc x1 x2) = loc"
| "nodeLoc (parser_Splat loc x1) = loc"
| "nodeLoc (parser_Alias loc x1 x2) = loc"
| "nodeLoc (parser_Defined loc x1) = loc"
| "nodeLoc (parser_LineLiteral loc) = loc"
| "nodeLoc (parser_XString loc x1) = loc"
| "nodeLoc (parser_Preexe loc) = loc"
| "nodeLoc (parser_Postexe loc) = loc"
| "nodeLoc (parser_Undef loc) = loc"
| "nodeLoc (parser_Backref loc) = loc"
| "nodeLoc (parser_EFlipflop loc) = loc"
| "nodeLoc (parser_IFlipflop loc) = loc"
| "nodeLoc (parser_MatchCurLine loc) = loc"
| "nodeLoc (parser_Redo loc) = loc"
| "nodeLoc (parser_BlockPass loc x1) = loc"
| "nodeLoc (parser_Args loc x1) = loc"
| "nodeLoc (parser_Other loc x1) = loc"

section \<open>The typed AST\<close>

datatype IdentKind =
  UnresolvedIdent_Local | UnresolvedIdent_Instance | UnresolvedIdent_Class | UnresolvedIdent_Global

datatype ClassDefKind = ClassDefKind_Module | ClassDefKind_Class

text \<open>
  A \<open>double\<close> literal keeps the exact decimal value of its text; rounding to binary
  floating point is not modelled.
\<close>

datatype Double = DoubleValue rat | DoubleInf | DoubleNaN

datatype LiteralValue =
    LitInteger int | LitFloat Double | LitString NameRef | LitSymbol NameRef
  | LitTrue | LitFalse | LitNil

text \<open>
  The output tree (\<open>ast::Expression\<close> and its subclasses). Every child the desugarer
  stores comes from \<open>node2TreeImpl\<close> (which enforces a non-null result) or from a builder,
  so a child is an \<open>Expression\<close>; the one slot the source fills with \<open>nullptr\<close> on purpose,
  the block of a \<open>Send\<close>, is an option. \<open>ast_If\<close> is \<open>ast::If\<close> (\<open>If\<close> is taken by HOL).
  Field order follows the constructors of the source: \<open>Send loc recv fn args flags block\<close>,
  \<open>ClassDef loc declLoc symbol name ancestors rhs kind\<close>,
  \<open>MethodDef loc declLoc symbol name args rhs flags\<close>,
  \<open>Rescue loc body rescueCases else ensure\<close>, \<open>RescueCase loc exceptions var body\<close>.
\<close>

datatype Expression =
    EmptyTree
  | Literal Loc LiteralValue
  | UnresolvedIdent Loc IdentKind NameRef
  | UnresolvedConstantLit Loc Expression NameRef
  | Constant Loc SymbolRef
  | Self Loc
  | Assign Loc Expression Expression
  | InsSeq Loc "Expression list" Expression
  | ast_If Loc Expression Expression Expression
  | While Loc Expression Expression
  | Send Loc Expression NameRef "Expression list" u4 "Expression option"
  | Block Loc "Expression list" Expression
  | Array Loc "Expression list"
  | Hash Loc "Expression list" "Expression list"
  | Return Loc Expression
  | Break Loc Expression
  | Next Loc Expression
  | Yield Loc "Expression list"
  | Retry Loc
  | ClassDef Loc Loc SymbolRef Expression "Expression list" "Expression list" ClassDefKind
  | MethodDef Loc Loc SymbolRef NameRef "Expression list" Expression u4
  | Rescue Loc Expression "Expression list" Expression Expression
  | RescueCase Loc "Expression list" Expression Expression
  | RestArg Loc Expression
  | KeywordArg Loc Expression
  | OptionalArg Loc Expression Expression
  | BlockArg Loc Expression
  | ShadowArg Loc Expression
  | ZSuperArgs Loc

text \<open>\<open>expr->loc\<close>; the empty tree has no location.\<close>

definition loc_of :: "Expression \<Rightarrow> Loc" where
  "loc_of e = (case e of
      EmptyTree \<Rightarrow> NoLoc
    | Literal l _ \<Rightarrow> l
    | UnresolvedIdent l _ _ \<Rightarrow> l
    | UnresolvedConstantLit l _ _ \<Rightarrow> l
    | Constant l _ \<Rightarrow> l
    | Self l \<Rightarrow> l
    | Assign l _ _ \<Rightarrow> l
    | InsSeq l _ _ \<Rightarrow> l
    | ast_If l _ _ _ \<Rightarrow> l
    | While l _ _ \<Rightarrow> l
    | Send l _ _ _ _ _ \<Rightarrow> l
    | Block l _ _ \<Rightarrow> l
    | Array l _ \<Rightarrow> l
    | Hash l _ _ \<Rightarrow> l
    | Return l _ \<Rightarrow> l
    | Break l _ \<Rightarrow> l
    | Next l _ \<Rightarrow> l
    | Yield l _ \<Rightarrow> l
    | Retry l \<Rightarrow> l
    | ClassDef l _ _ _ _ _ _ \<Rightarrow> l
    | MethodDef l _ _ _ _ _ _ \<Rightarrow> l
    | Rescue l _ _ _ _ \<Rightarrow> l
    | RescueCase l _ _ _ \<Rightarrow> l
    | RestArg l _ \<Rightarrow> l
    | KeywordArg l _ \<Rightarrow> l
    | OptionalArg l _ _ \<Rightarrow> l
    | BlockArg l _ \<Rightarrow> l
    | ShadowArg l _ \<Rightarrow> l
    | ZSuperArgs l \<Rightarrow> l)"

text \<open>
  Modelled from the spec: the flag constants are declared in \<open>ast/Trees.h\<close>, which is not
  under \<open>src/\<close>; each is one bit of the node's flag word.
\<close>

definition PRIVATE_OK :: u4 where "PRIVATE_OK = 1"
definition SelfMethod :: u4 where "SelfMethod = 1"

subsection \<open>Builders\<close>

text \<open>
  Modelled from the spec: the \<open>MK\<close> builders live in \<open>ast/Helpers.h\<close>, which is not under
  \<open>src/\<close>. The spec gives them as "thin builders that accept a location and child nodes
  and return an owned node of the requested kind. No logic". \<open>MK::Local\<close> builds the
  identifier of kind local, the node the \<open>Resbody\<close> clause tests for with
  \<open>id->kind == UnresolvedIdent::Local\<close>. The spec says of a lowered splat only that it is
  a send of the method \<open>splat\<close>; its receiver and argument are taken as \<open>Magic\<close> and the
  \<open>to_a\<close> of the operand.
\<close>

definition MK_EmptyTree :: Expression where "MK_EmptyTree = EmptyTree"
definition MK_Self :: "Loc \<Rightarrow> Expression" where "MK_Self loc = Self loc"
definition MK_Local :: "Loc \<Rightarrow> NameRef \<Rightarrow> Expression" where
  "MK_Local loc name = UnresolvedIdent loc UnresolvedIdent_Local name"
definition MK_Assign :: "Loc \<Rightarrow> Expression \<Rightarrow> Expression \<Rightarrow> Expression" where
  "MK_Assign loc lhs rhs = Assign loc lhs rhs"
definition MK_AssignName :: "Loc \<Rightarrow> NameRef \<Rightarrow> Expression \<Rightarrow> Expression" where
  "MK_AssignName loc name rhs = MK_Assign loc (MK_Local loc name) rhs"
definition MK_Send ::
  "Loc \<Rightarrow> Expression \<Rightarrow> NameRef \<Rightarrow> Expression list \<Rightarrow> u4 \<Rightarrow> Expression option \<Rightarrow> Expression" where
  "MK_Send loc recv fn args flags blk = Send loc recv fn args flags blk"
definition MK_Send0 :: "Loc \<Rightarrow> Expression \<Rightarrow> NameRef \<Rightarrow> Expression" where
  "MK_Send0 loc recv fn = MK_Send loc recv fn [] 0 None"
definition MK_Send1 :: "Loc \<Rightarrow> Expression \<Rightarrow> NameRef \<Rightarrow> Expression \<Rightarrow> Expression" where
  "MK_Send1 loc recv fn arg1 = MK_Send loc recv fn [arg1] 0 None"
definition MK_Send2 ::
  "Loc \<Rightarrow> Expression \<Rightarrow> NameRef \<Rightarrow> Expression \<Rightarrow> Expression \<Rightarrow> Expression" where
  "MK_Send2 loc recv fn arg1 arg2 = MK_Send loc recv fn [arg1, arg2] 0 None"
definition MK_Send3 ::
  "Loc \<Rightarrow> Expression \<Rightarrow> NameRef \<Rightarrow> Expression \<Rightarrow> Expression \<Rightarrow> Expression \<Rightarrow> Expression" where
  "MK_Send3 loc recv fn arg1 arg2 arg3 = MK_Send loc recv fn [arg1, arg2, arg3] 0 None"
definition MK_If :: "Loc \<Rightarrow> Expression \<Rightarrow> Expression \<Rightarrow> Expression \<Rightarrow> Expression" where
  "MK_If loc cond thenp elsep = ast_If loc cond thenp elsep"
definition MK_InsSeq :: "Loc \<Rightarrow> Expression list \<Rightarrow> Expression \<Rightarrow> Expression" where
  "MK_InsSeq loc stats expr = InsSeq loc stats expr"
definition MK_InsSeq1 :: "Loc \<Rightarrow> Expression \<Rightarrow> Expression \<Rightarrow> Expression" where
  "MK_InsSeq1 loc stat expr = MK_InsSeq loc [stat] expr"
definition MK_Literal :: "Loc \<Rightarrow> LiteralValue \<Rightarrow> Expression" where
  "MK_Literal loc v = Literal loc v"
definition MK_Int :: "Loc \<Rightarrow> int \<Rightarrow> Expression" where "MK_Int loc v = Literal loc (LitInteger v)"
definition MK_Float :: "Loc \<Rightarrow> Double \<Rightarrow> Expression" where "MK_Float loc v = Literal loc (LitFloat v)"
definition MK_String :: "Loc \<Rightarrow> NameRef \<Rightarrow> Expression" where
  "MK_String loc v = Literal loc (LitString v)"
definition MK_Symbol :: "Loc \<Rightarrow> NameRef \<Rightarrow> Expression" where
  "MK_Symbol loc v = Literal loc (LitSymbol v)"
definition MK_True :: "Loc \<Rightarrow> Expression" where "MK_True loc = Literal loc LitTrue"
definition MK_False :: "Loc \<Rightarrow> Expression" where "MK_False loc = Literal loc LitFalse"
definition MK_Nil :: "Loc \<Rightarrow> Expression" where "MK_Nil loc = Literal loc LitNil"
definition MK_Constant :: "Loc \<Rightarrow> SymbolRef \<Rightarrow> Expression" where
  "MK_Constant loc symbol = Constant loc symbol"
definition MK_UnresolvedConstant :: "Loc \<Rightarrow> Expression \<Rightarrow> NameRef \<Rightarrow> Expression" where
  "MK_UnresolvedConstant loc scope name = UnresolvedConstantLit loc scope name"
definition MK_Break :: "Loc \<Rightarrow> Expression \<Rightarrow> Expression" where "MK_Break loc e = Break loc e"
definition MK_Splat :: "Loc \<Rightarrow> Expression \<Rightarrow> Expression" where
  "MK_Splat loc arg =
     MK_Send1 loc (MK_Constant loc Symbols_Magic) Names_splat (MK_Send0 loc arg Names_to_a)"
definition MK_Method ::
  "Loc \<Rightarrow> Loc \<Rightarrow> NameRef \<Rightarrow> Expression list \<Rightarrow> Expression \<Rightarrow> Expression" where
  "MK_Method loc declLoc name args body = MethodDef loc declLoc Symbols_todo name args body 0"

lemmas MK_defs =
  MK_EmptyTree_def MK_Self_def MK_Local_def MK_Assign_def MK_AssignName_def MK_Send_def
  MK_Send0_def MK_Send1_def MK_Send2_def MK_Send3_def MK_If_def MK_InsSeq_def MK_InsSeq1_def
  MK_Literal_def MK_Int_def MK_Float_def MK_String_def MK_Symbol_def MK_True_def MK_False_def
  MK_Nil_def MK_Constant_def MK_UnresolvedConstant_def MK_Break_def MK_Splat_def MK_Method_def

subsection \<open>Casts\<close>

text \<open>
  \<open>isa_tree<T>\<close> and \<open>cast_tree<T>\<close> on the output tree. A cast that succeeds gives the
  fields the caller goes on to read. \<open>isa_Reference\<close> is \<open>cast_tree<Reference>\<close>:
  modelled from the spec (the class hierarchy is in \<open>ast/Trees.h\<close>), which calls the
  operand "a bare reference" and lists "local/ivar/gvar/cvar", the identifier nodes;
  \<open>MK_cpRef\<close> copies one.
\<close>

definition isa_EmptyTree :: "Expression \<Rightarrow> bool" where
  "isa_EmptyTree e = (case e of EmptyTree \<Rightarrow> True | _ \<Rightarrow> False)"
definition isa_ClassDef :: "Expression \<Rightarrow> bool" where
  "isa_ClassDef e = (case e of ClassDef _ _ _ _ _ _ _ \<Rightarrow> True | _ \<Rightarrow> False)"
definition isa_Reference :: "Expression \<Rightarrow> bool" where
  "isa_Reference e = (case e of UnresolvedIdent _ _ _ \<Rightarrow> True | _ \<Rightarrow> False)"
definition MK_cpRef :: "Expression \<Rightarrow> Expression" where
  "MK_cpRef e = e"
definition isa_UnresolvedConstantLit :: "Expression \<Rightarrow> bool" where
  "isa_UnresolvedConstantLit e = (case e of UnresolvedConstantLit _ _ _ \<Rightarrow> True | _ \<Rightarrow> False)"
definition isa_RescueCase :: "Expression \<Rightarrow> bool" where
  "isa_RescueCase e = (case e of RescueCase _ _ _ _ \<Rightarrow> True | _ \<Rightarrow> False)"
definition isa_Send :: "Expression \<Rightarrow> bool" where
  "isa_Send e = (case e of Send _ _ _ _ _ _ \<Rightarrow> True | _ \<Rightarrow> False)"
definition cast_Array :: "Expression \<Rightarrow> Expression list option" where
  "cast_Array e = (case e of Array _ elems \<Rightarrow> Some elems | _ \<Rightarrow> None)"
definition cast_InsSeq :: "Expression \<Rightarrow> (Loc \<times> Expression list \<times> Expression) option" where
  "cast_InsSeq e = (case e of InsSeq l stats expr \<Rightarrow> Some (l, stats, expr) | _ \<Rightarrow> None)"

text \<open>\<open>Literal::isString\<close>, \<open>Literal::isSymbol\<close>, and the name a symbol literal holds.\<close>

definition Literal_isString :: "Expression \<Rightarrow> bool" where
  "Literal_isString e = (case e of Literal _ (LitString _) \<Rightarrow> True | _ \<Rightarrow> False)"
definition Literal_isSymbol :: "Expression \<Rightarrow> bool" where
  "Literal_isSymbol e = (case e of Literal _ (LitSymbol _) \<Rightarrow> True | _ \<Rightarrow> False)"
definition Literal_name :: "Expression \<Rightarrow> NameRef" where
  "Literal_name e = (case e of Literal _ (LitSymbol n) \<Rightarrow> n | Literal _ (LitString n) \<Rightarrow> n | _ \<Rightarrow> NoName)"

text \<open>
  \<open>isStringLit\<close> takes the \<open>unique_ptr<Expression>\<close> by reference; \<open>None\<close> is a pointer that
  is null (a moved-from pointer is), for which the cast fails.
\<close>

definition isStringLit :: "Expression option \<Rightarrow> bool" where
  "isStringLit expr = (case expr of None \<Rightarrow> False | Some e \<Rightarrow> Literal_isString e)"

section \<open>State, failures and results\<close>

datatype ErrorClass =
    UnsupportedNode | NoConstantReassignment | InvalidSingletonDef
  | IntegerOutOfRange | FloatOutOfRange | InternalError

text \<open>
  What the desugarer mutates through \<open>ctx\<close>: the unique names \<open>freshNameUnique\<close> has
  returned, one entry per call and in call order, and the diagnostics \<open>beginError\<close> has
  started (location and error class; the header text is not kept). The file-scope flag
  \<open>locReported\<close> is carried in the same record.
\<close>

record MutableContext =
  freshNames :: "NameRef list"
  errors :: "(Loc \<times> ErrorClass) list"
  locReported :: bool

definition freshNameUnique ::
  "MutableContext \<Rightarrow> UniqueNameKind \<Rightarrow> NameRef \<Rightarrow> u2 \<Rightarrow> NameRef \<times> MutableContext" where
  "freshNameUnique ctx kind original num =
     (UNIQUE kind original num, ctx\<lparr>freshNames := freshNames ctx @ [UNIQUE kind original num]\<rparr>)"

definition beginError :: "MutableContext \<Rightarrow> Loc \<Rightarrow> ErrorClass \<Rightarrow> MutableContext" where
  "beginError ctx loc what = ctx\<lparr>errors := errors ctx @ [(loc, what)]\<rparr>"

text \<open>
  A \<open>SorbetException\<close> is what \<open>Exception::raise\<close>, \<open>Exception::notImplemented\<close> and a
  failed \<open>ENFORCE\<close> throw (modelled from the spec, the macro being outside \<open>src/\<close>: "all
  internal invariants are asserted; an assertion failure ... re-raises").
  \<open>NullPointer\<close> marks the places where the source would dereference or store a null
  pointer; the model stops there.
\<close>

datatype Failure = SorbetException string | NullPointer

text \<open>
  A call either fails, leaving the context it reached, or returns a value with the new
  context and the new value of the counter it was handed by reference.
\<close>

type_synonym 'a result = "(Failure \<times> MutableContext) + ('a \<times> MutableContext \<times> u2)"

definition ret :: "'a \<Rightarrow> MutableContext \<Rightarrow> u2 \<Rightarrow> 'a result" where
  "ret x ctx uniqueCounter = Inr (x, ctx, uniqueCounter)"

definition raise :: "string \<Rightarrow> MutableContext \<Rightarrow> 'a result" where
  "raise msg ctx = Inl (SorbetException msg, ctx)"

definition nullPointer :: "MutableContext \<Rightarrow> 'a result" where
  "nullPointer ctx = Inl (NullPointer, ctx)"

definition bind ::
  "'a result \<Rightarrow> ('a \<Rightarrow> MutableContext \<Rightarrow> u2 \<Rightarrow> 'b result) \<Rightarrow> 'b result" where
  "bind r f = (case r of Inl e \<Rightarrow> Inl e | Inr (x, ctx, uniqueCounter) \<Rightarrow> f x ctx uniqueCounter)"

text \<open>A loop over a vector that threads the context and the counter: \<open>for (auto &x : xs)\<close>.\<close>

fun foldM ::
  "('s \<Rightarrow> 'a \<Rightarrow> MutableContext \<Rightarrow> u2 \<Rightarrow> 's result) \<Rightarrow> 'a list \<Rightarrow> 's \<Rightarrow> MutableContext \<Rightarrow> u2 \<Rightarrow> 's result"
where
  "foldM f [] s ctx uniqueCounter = ret s ctx uniqueCounter"
| "foldM f (x # xs) s ctx uniqueCounter =
     bind (f s x ctx uniqueCounter) (\<lambda>s' ctx' uniqueCounter'. foldM f xs s' ctx' uniqueCounter')"

text \<open>The loop that appends each result: \<open>out.emplace_back(f(x))\<close>.\<close>

definition mapM ::
  "('a \<Rightarrow> MutableContext \<Rightarrow> u2 \<Rightarrow> 'b result) \<Rightarrow> 'a list \<Rightarrow> MutableContext \<Rightarrow> u2 \<Rightarrow> 'b list result"
where
  "mapM f xs ctx uniqueCounter =
     foldM (\<lambda>out x ctx uniqueCounter.
              bind (f x ctx uniqueCounter) (\<lambda>y ctx uniqueCounter. ret (out @ [y]) ctx uniqueCounter))
           xs [] ctx uniqueCounter"

text \<open>
  \<open>ctx.state.freshNameUnique(core::UniqueNameKind::Desugar, original, ++uniqueCounter)\<close>:
  the counter is incremented first (a \<open>u2\<close> wraps at \<open>2^16\<close>), then handed over.
\<close>

definition freshName :: "MutableContext \<Rightarrow> NameRef \<Rightarrow> u2 \<Rightarrow> NameRef result" where
  "freshName ctx original uniqueCounter =
     (let uniqueCounter = uniqueCounter + 1;
          r = freshNameUnique ctx Desugar original uniqueCounter
      in ret (fst r) (snd r) uniqueCounter)"

text \<open>
  The handler of \<open>node2TreeImpl\<close>: \<open>catch (SorbetException &)\<close> reports "Failed to process
  tree" at \<open>what->loc\<close> unless \<open>locReported\<close> is set, sets it, and rethrows.
\<close>

definition catchSorbetException :: "Loc \<Rightarrow> 'a result \<Rightarrow> 'a result" where
  "catchSorbetException loc r =
     (case r of
        Inl (SorbetException msg, ctx) \<Rightarrow>
          Inl (SorbetException msg,
               if locReported ctx then ctx
               else beginError (ctx\<lparr>locReported := True\<rparr>) loc InternalError)
      | Inl (NullPointer, ctx) \<Rightarrow> Inl (NullPointer, ctx)
      | Inr v \<Rightarrow> Inr v)"

lemma bind_cong [fundef_cong]:
  "r = r' \<Longrightarrow> (\<And>x ctx c. r' = Inr (x, ctx, c) \<Longrightarrow> f x ctx c = f' x ctx c) \<Longrightarrow> bind r f = bind r' f'"
  by (auto simp: bind_def split: sum.splits)

lemma foldM_cong [fundef_cong]:
  "xs = ys \<Longrightarrow> s = s' \<Longrightarrow> ctx = ctx' \<Longrightarrow> c = c' \<Longrightarrow>
   (\<And>a x ctx c. x \<in> set ys \<Longrightarrow> f a x ctx c = g a x ctx c) \<Longrightarrow>
   foldM f xs s ctx c = foldM g ys s' ctx' c'"
proof (induction ys arbitrary: xs s s' ctx ctx' c c')
  case Nil
  then show ?case by simp
next
  case (Cons y ys)
  then show ?case by (auto intro!: bind_cong)
qed

lemma mapM_cong [fundef_cong]:
  "xs = ys \<Longrightarrow> ctx = ctx' \<Longrightarrow> c = c' \<Longrightarrow>
   (\<And>x ctx c. x \<in> set ys \<Longrightarrow> f x ctx c = g x ctx c) \<Longrightarrow>
   mapM f xs ctx c = mapM g ys ctx' c'"
  unfolding mapM_def by (rule foldM_cong) auto

section \<open>Library functions the clauses call\<close>

text \<open>
  \<open>std::stol\<close>: leading white space, an optional sign, then decimal digits up to the first
  character that is none; \<open>invalid_argument\<close> when there is no digit, \<open>out_of_range\<close> when
  the value does not fit a 64-bit \<open>long\<close>.
\<close>

definition isspace :: "char \<Rightarrow> bool" where
  "isspace ch = (ch \<in> set [CHR 0x20, CHR 0x09, CHR 0x0A, CHR 0x0B, CHR 0x0C, CHR 0x0D])"

definition isdigit :: "char \<Rightarrow> bool" where
  "isdigit ch = (ch \<in> set ''0123456789'')"

definition digitVal :: "char \<Rightarrow> int" where
  "digitVal ch = int (of_char ch) - 48"

definition decimalValue :: "string \<Rightarrow> int" where
  "decimalValue ds = foldl (\<lambda>a d. 10 * a + digitVal d) 0 ds"

definition isSign :: "char \<Rightarrow> bool" where
  "isSign ch = (ch = CHR ''-'' \<or> ch = CHR ''+'')"

definition stripSign :: "string \<Rightarrow> bool \<times> string" where
  "stripSign s = (case s of [] \<Rightarrow> (False, [])
                  | ch # rest \<Rightarrow> if isSign ch then (ch = CHR ''-'', rest) else (False, s))"

datatype StolResult = StolValue int | StolOutOfRange | StolInvalidArgument

definition stol :: "string \<Rightarrow> StolResult" where
  "stol s =
     (let signed = stripSign (dropWhile isspace s);
          ds = takeWhile isdigit (snd signed);
          v = (if fst signed then - decimalValue ds else decimalValue ds)
      in if ds = [] then StolInvalidArgument
         else if v < - (2 ^ 63) \<or> 2 ^ 63 - 1 < v then StolOutOfRange
         else StolValue v)"

text \<open>
  \<open>std::stod\<close>, for decimal literals \<open>digits[.digits][e[sign]digits]\<close> after white space and
  a sign. It throws \<open>invalid_argument\<close> when there is no digit and \<open>out_of_range\<close> when
  \<open>strtod\<close> reports a range error: the value overflows, that is, it rounds to infinity
  (from \<open>2^1024 - 2^970\<close>, halfway between the largest \<open>double\<close> and \<open>2^1024\<close>), or it
  underflows, that is, it is not zero and lies below the smallest normalised \<open>double\<close>
  \<open>2^-1022\<close>. Otherwise the result is the \<open>double\<close> nearest to the value, ties to the even
  mantissa: \<open>roundDouble\<close> keeps 53 significant bits. A \<open>Double\<close> holds the rational a
  finite \<open>double\<close> stands for, so the sign of a zero is not kept.
\<close>

datatype StodResult = StodValue Double | StodOutOfRange | StodInvalidArgument

definition pow10 :: "int \<Rightarrow> rat" where
  "pow10 e = (if 0 \<le> e then 10 ^ nat e else 1 / 10 ^ nat (- e))"

definition pow2 :: "int \<Rightarrow> rat" where
  "pow2 e = (if 0 \<le> e then 2 ^ nat e else 1 / 2 ^ nat (- e))"

function bitLength :: "int \<Rightarrow> nat" where
  "bitLength n = (if n \<le> 0 then 0 else Suc (bitLength (n div 2)))"
  by pat_completeness auto

termination
  by (relation "measure nat") auto

declare bitLength.simps [simp del]

text \<open>The exponent \<open>e\<close> with \<open>2^e \<le> v < 2^(e+1)\<close>, for a positive \<open>v\<close>.\<close>

definition floorLog2 :: "rat \<Rightarrow> int" where
  "floorLog2 v =
     (let pq = quotient_of v;
          e = int (bitLength (fst pq)) - int (bitLength (snd pq))
      in if pow2 e \<le> v then e else e - 1)"

definition roundHalfEven :: "rat \<Rightarrow> int" where
  "roundHalfEven q =
     (let f = \<lfloor>q\<rfloor>;
          d = q - of_int f
      in if d < 1 / 2 then f
         else if 1 / 2 < d then f + 1
         else if even f then f else f + 1)"

definition roundDouble :: "rat \<Rightarrow> rat" where
  "roundDouble v =
     (if v = 0 then 0
      else
        (let ulp = pow2 (floorLog2 \<bar>v\<bar> - 52);
             n = roundHalfEven (\<bar>v\<bar> / ulp)
         in sgn v * of_int n * ulp))"

definition stod :: "string \<Rightarrow> StodResult" where
  "stod s =
     (let signed = stripSign (dropWhile isspace s);
          ip = takeWhile isdigit (snd signed);
          r1 = dropWhile isdigit (snd signed);
          hasDot = (r1 \<noteq> [] \<and> hd r1 = CHR ''.'');
          fp = (if hasDot then takeWhile isdigit (tl r1) else []);
          r2 = (if hasDot then dropWhile isdigit (tl r1) else r1);
          hasExp = (r2 \<noteq> [] \<and> (hd r2 = CHR ''e'' \<or> hd r2 = CHR ''E''));
          esigned = stripSign (if hasExp then tl r2 else []);
          eds = takeWhile isdigit (snd esigned);
          e = (if fst esigned then - decimalValue eds else decimalValue eds);
          m = of_int (decimalValue (ip @ fp)) * pow10 (e - int (length fp));
          v = (if fst signed then - m else m)
      in if ip = [] \<and> fp = [] then StodInvalidArgument
         else if pow2 1024 - pow2 970 \<le> \<bar>v\<bar> \<or> (v \<noteq> 0 \<and> \<bar>v\<bar> < pow2 (- 1022)) then StodOutOfRange
         else StodValue (DoubleValue (roundDouble v)))"

definition isinf :: "Double \<Rightarrow> bool" where
  "isinf d = (case d of DoubleInf \<Rightarrow> True | _ \<Rightarrow> False)"

text \<open>\<open>std::to_string\<close> of an \<open>int\<close>.\<close>

fun natToString :: "nat \<Rightarrow> string" where
  "natToString n =
     (if n < 10 then [''0123456789'' ! n]
      else natToString (n div 10) @ [''0123456789'' ! (n mod 10)])"

declare natToString.simps [simp del]

definition to_string :: "int \<Rightarrow> string" where
  "to_string i = (if i < 0 then CHR ''-'' # natToString (nat (- i)) else natToString (nat i))"

section \<open>Casts on parse nodes and the size of a parse tree\<close>

text \<open>
  \<open>parser::isa_node<T>\<close> and \<open>parser::cast_node<T>\<close> on a possibly null pointer. A cast that
  succeeds gives the fields the caller goes on to read.
\<close>

definition cast_Splat :: "Node option \<Rightarrow> Node option option" where
  "cast_Splat x = (case x of Some (parser_Splat _ var) \<Rightarrow> Some var | _ \<Rightarrow> None)"
definition isa_Splat :: "Node option \<Rightarrow> bool" where
  "isa_Splat x = (case cast_Splat x of Some _ \<Rightarrow> True | None \<Rightarrow> False)"
definition cast_BlockPass :: "Node option \<Rightarrow> Node option option" where
  "cast_BlockPass x = (case x of Some (parser_BlockPass _ block) \<Rightarrow> Some block | _ \<Rightarrow> None)"
definition cast_SplatLhs :: "Node option \<Rightarrow> Node option option" where
  "cast_SplatLhs x = (case x of Some (parser_SplatLhs _ var) \<Rightarrow> Some var | _ \<Rightarrow> None)"
definition cast_Mlhs :: "Node option \<Rightarrow> (Loc \<times> Node option list) option" where
  "cast_Mlhs x = (case x of Some (parser_Mlhs loc exprs) \<Rightarrow> Some (loc, exprs) | _ \<Rightarrow> None)"
definition isa_Mlhs :: "Node option \<Rightarrow> bool" where
  "isa_Mlhs x = (case cast_Mlhs x of Some _ \<Rightarrow> True | None \<Rightarrow> False)"
definition cast_Args :: "Node option \<Rightarrow> Node option list option" where
  "cast_Args x = (case x of Some (parser_Args _ args) \<Rightarrow> Some args | _ \<Rightarrow> None)"
definition cast_Begin :: "Node option \<Rightarrow> Node option list option" where
  "cast_Begin x = (case x of Some (parser_Begin _ stmts) \<Rightarrow> Some stmts | _ \<Rightarrow> None)"
definition cast_Pair :: "Node option \<Rightarrow> (Node option \<times> Node option) option" where
  "cast_Pair x = (case x of Some (parser_Pair _ key val) \<Rightarrow> Some (key, val) | _ \<Rightarrow> None)"
definition cast_Kwsplat :: "Node option \<Rightarrow> Node option option" where
  "cast_Kwsplat x = (case x of Some (parser_Kwsplat _ expr) \<Rightarrow> Some expr | _ \<Rightarrow> None)"
definition cast_When :: "Node option \<Rightarrow> (Loc \<times> Node option list \<times> Node option) option" where
  "cast_When x = (case x of Some (parser_When loc patterns body) \<Rightarrow> Some (loc, patterns, body) | _ \<Rightarrow> None)"
definition isa_Self :: "Node option \<Rightarrow> bool" where
  "isa_Self x = (case x of Some (parser_Self _) \<Rightarrow> True | _ \<Rightarrow> False)"
definition isa_Kwbegin :: "Node option \<Rightarrow> bool" where
  "isa_Kwbegin x = (case x of Some (parser_Kwbegin _ _) \<Rightarrow> True | _ \<Rightarrow> False)"

text \<open>
  The \<open>Send\<close> clause, with a splat among the arguments: \<open>c_find_if\<close> finds the first
  \<open>BlockPass\<close>, its block is taken and the argument erased.
\<close>

fun extractBlockPass :: "Node option list \<Rightarrow> Node option \<times> Node option list" where
  "extractBlockPass [] = (None, [])"
| "extractBlockPass (x # xs) =
     (case cast_BlockPass x of
        Some block \<Rightarrow> (block, xs)
      | None \<Rightarrow> (fst (extractBlockPass xs), x # snd (extractBlockPass xs)))"

text \<open>
  The measure of the recursion. A clause that builds a parse node and lowers it (\<open>CSend\<close>,
  \<open>Super\<close>, \<open>For\<close>, a \<open>Send\<close> with a splat, a destructuring formal) weighs more than the
  node it builds.
\<close>

definition osz :: "nat option \<Rightarrow> nat" where
  "osz x = (case x of None \<Rightarrow> 0 | Some n \<Rightarrow> n)"

definition lsz :: "nat option list \<Rightarrow> nat" where
  "lsz xs = sum_list (map osz xs)"

primrec nsize :: "Node \<Rightarrow> nat" where
  "nsize (parser_Send loc x1 x2 x3) = 20 + osz (map_option nsize x1) + lsz (map (map_option nsize) x3)"
| "nsize (parser_Const loc x1 x2) = 10 + osz (map_option nsize x1)"
| "nsize (parser_String loc x1) = 10"
| "nsize (parser_Symbol loc x1) = 10"
| "nsize (parser_LVar loc x1) = 10"
| "nsize (parser_DString loc x1) = 10 + lsz (map (map_option nsize) x1)"
| "nsize (parser_Begin loc x1) = 10 + lsz (map (map_option nsize) x1)"
| "nsize (parser_And loc x1 x2) = 10 + osz (map_option nsize x1) + osz (map_option nsize x2)"
| "nsize (parser_Or loc x1 x2) = 10 + osz (map_option nsize x1) + osz (map_option nsize x2)"
| "nsize (parser_AndAsgn loc x1 x2) = 10 + osz (map_option nsize x1) + osz (map_option nsize x2)"
| "nsize (parser_OrAsgn loc x1 x2) = 10 + osz (map_option nsize x1) + osz (map_option nsize x2)"
| "nsize (parser_OpAsgn loc x1 x2 x3) = 10 + osz (map_option nsize x1) + osz (map_option nsize x3)"
| "nsize (parser_CSend loc x1 x2 x3) = 40 + osz (map_option nsize x1) + lsz (map (map_option nsize) x3)"
| "nsize (parser_Self loc) = 10"
| "nsize (parser_DSymbol loc x1) = 10 + lsz (map (map_option nsize) x1)"
| "nsize (parser_FileLiteral loc) = 10"
| "nsize (parser_ConstLhs loc x1 x2) = 10 + osz (map_option nsize x1)"
| "nsize (parser_Cbase loc) = 10"
| "nsize (parser_Kwbegin loc x1) = 10 + lsz (map (map_option nsize) x1)"
| "nsize (parser_Module loc x1 x2 x3) = 10 + osz (map_option nsize x2) + osz (map_option nsize x3)"
| "nsize (parser_Class loc x1 x2 x3 x4) = 10 + osz (map_option nsize x2) + osz (map_option nsize x3) + osz (map_option nsize x4)"
| "nsize (parser_Arg loc x1) = 10"
| "nsize (parser_Restarg loc x1) = 10"
| "nsize (parser_Kwrestarg loc x1) = 10"
| "nsize (parser_Kwarg loc x1) = 10"
| "nsize (parser_Blockarg loc x1) = 10"
| "nsize (parser_Kwoptarg loc x1 x2) = 10 + osz (map_option nsize x2)"
| "nsize (parser_Optarg loc x1 x2) = 10 + osz (map_option nsize x2)"
| "nsize (parser_Shadowarg loc x1) = 10"
| "nsize (parser_DefMethod loc x1 x2 x3 x4) = 10 + osz (map_option nsize x3) + osz (map_option nsize x4)"
| "nsize (parser_DefS loc x1 x2 x3 x4 x5) = 10 + osz (map_option nsize x2) + osz (map_option nsize x4) + osz (map_option nsize x5)"
| "nsize (parser_SClass loc x1 x2 x3) = 10 + osz (map_option nsize x2) + osz (map_option nsize x3)"
| "nsize (parser_Block loc x1 x2 x3) = 10 + osz (map_option nsize x1) + osz (map_option nsize x2) + osz (map_option nsize x3)"
| "nsize (parser_While loc x1 x2) = 10 + osz (map_option nsize x1) + osz (map_option nsize x2)"
| "nsize (parser_WhilePost loc x1 x2) = 10 + osz (map_option nsize x1) + osz (map_option nsize x2)"
| "nsize (parser_Until loc x1 x2) = 10 + osz (map_option nsize x1) + osz (map_option nsize x2)"
| "nsize (parser_UntilPost loc x1 x2) = 10 + osz (map_option nsize x1) + osz (map_option nsize x2)"
| "nsize (parser_Nil loc) = 10"
| "nsize (parser_IVar loc x1) = 10"
| "nsize (parser_GVar loc x1) = 10"
| "nsize (parser_CVar loc x1) = 10"
| "nsize (parser_LVarLhs loc x1) = 10"
| "nsize (parser_GVarLhs loc x1) = 10"
| "nsize (parser_CVarLhs loc x1) = 10"
| "nsize (parser_IVarLhs loc x1) = 10"
| "nsize (parser_NthRef loc x1) = 10"
| "nsize (parser_Assign loc x1 x2) = 10 + osz (map_option nsize x1) + osz (map_option nsize x2)"
| "nsize (parser_Super loc x1) = 30 + lsz (map (map_option nsize) x1)"
| "nsize (parser_ZSuper loc) = 10"
| "nsize (parser_For loc x1 x2 x3) = 50 + osz (map_option nsize x1) + osz (map_option nsize x2) + osz (map_option nsize x3)"
| "nsize (parser_Integer loc x1) = 10"
| "nsize (parser_Float loc x1) = 10"
| "nsize (parser_Complex loc x1) = 10"
| "nsize (parser_Rational loc x1) = 10"
| "nsize (parser_Array loc x1) = 10 + lsz (map (map_option nsize) x1)"
| "nsize (parser_Hash loc x1) = 10 + lsz (map (map_option nsize) x1)"
| "nsize (parser_Pair loc x1 x2) = 10 + osz (map_option nsize x1) + osz (map_option nsize x2)"
| "nsize (parser_Kwsplat loc x1) = 10 + osz (map_option nsize x1)"
| "nsize (parser_IRange loc x1 x2) = 10 + osz (map_option nsize x1) + osz (map_option nsize x2)"
| "nsize (parser_ERange loc x1 x2) = 10 + osz (map_option nsize x1) + osz (map_option nsize x2)"
| "nsize (parser_Regexp loc x1 x2) = 10 + lsz (map (map_option nsize) x1) + osz (map_option nsize x2)"
| "nsize (parser_Regopt loc x1) = 10"
| "nsize (parser_Return loc x1) = 10 + lsz (map (map_option nsize) x1)"
| "nsize (parser_Break loc x1) = 10 + lsz (map (map_option nsize) x1)"
| "nsize (parser_Next loc x1) = 10 + lsz (map (map_option nsize) x1)"
| "nsize (parser_Retry loc) = 10"
| "nsize (parser_Yield loc x1) = 10 + lsz (map (map_option nsize) x1)"
| "nsize (parser_Rescue loc x1 x2 x3) = 10 + osz (map_option nsize x1) + lsz (map (map_option nsize) x2) + osz (map_option nsize x3)"
| "nsize (parser_Resbody loc x1 x2 x3) = 10 + osz (map_option nsize x1) + osz (map_option nsize x2) + osz (map_option nsize x3)"
| "nsize (parser_Ensure loc x1 x2) = 10 + osz (map_option nsize x1) + osz (map_option nsize x2)"
| "nsize (parser_If loc x1 x2 x3) = 10 + osz (map_option nsize x1) + osz (map_option nsize x2) + osz (map_option nsize x3)"
| "nsize (parser_Masgn loc x1 x2) = 10 + osz (map_option nsize x1) + osz (map_option nsize x2)"
| "nsize (parser_Mlhs loc x1) = 10 + lsz (map (map_option nsize) x1)"
| "nsize (parser_SplatLhs loc x1) = 10 + osz (map_option nsize x1)"
| "nsize (parser_True loc) = 10"
| "nsize (parser_False loc) = 10"
| "nsize (parser_Case loc x1 x2 x3) = 10 + osz (map_option nsize x1) + lsz (map (map_option nsize) x2) + osz (map_option nsize x3)"
| "nsize (parser_When loc x1 x2) = 10 + lsz (map (map_option nsize) x1) + osz (map_option nsize x2)"
| "nsize (parser_Splat loc x1) = 10 + osz (map_option nsize x1)"
| "nsize (parser_Alias loc x1 x2) = 10 + osz (map_option nsize x1) + osz (map_option nsize x2)"
| "nsize (parser_Defined loc x1) = 10 + osz (map_option nsize x1)"
| "nsize (parser_LineLiteral loc) = 10"
| "nsize (parser_XString loc x1) = 10 + lsz (map (map_option nsize) x1)"
| "nsize (parser_Preexe loc) = 10"
| "nsize (parser_Postexe loc) = 10"
| "nsize (parser_Undef loc) = 10"
| "nsize (parser_Backref loc) = 10"
| "nsize (parser_EFlipflop loc) = 10"
| "nsize (parser_IFlipflop loc) = 10"
| "nsize (parser_MatchCurLine loc) = 10"
| "nsize (parser_Redo loc) = 10"
| "nsize (parser_BlockPass loc x1) = 10 + osz (map_option nsize x1)"
| "nsize (parser_Args loc x1) = 40 + lsz (map (map_option nsize) x1)"
| "nsize (parser_Other loc x1) = 10"

definition osize :: "Node option \<Rightarrow> nat" where
  "osize x = osz (map_option nsize x)"

definition vsize :: "Node option list \<Rightarrow> nat" where
  "vsize xs = lsz (map (map_option nsize) xs)"

lemma osz_simps [simp]: "osz None = 0" "osz (Some n) = n"
  by (simp_all add: osz_def)

lemma lsz_simps [simp]: "lsz [] = 0" "lsz (x # xs) = osz x + lsz xs"
  by (simp_all add: lsz_def)

lemma osize_simps [simp]: "osize None = 0" "osize (Some n) = nsize n"
  by (simp_all add: osize_def)

lemma vsize_simps [simp]: "vsize [] = 0" "vsize (x # xs) = osize x + vsize xs"
  by (simp_all add: vsize_def osize_def)

lemma nsize_fold [simp]:
  "osz (map_option nsize x) = osize x" "lsz (map (map_option nsize) xs) = vsize xs"
  by (simp_all add: osize_def vsize_def)

lemma vsize_append [simp]: "vsize (xs @ ys) = vsize xs + vsize ys"
  by (induction xs) simp_all

lemma vsize_rev [simp]: "vsize (rev xs) = vsize xs"
  by (induction xs) simp_all

lemma osize_le_vsize: "x \<in> set xs \<Longrightarrow> osize x \<le> vsize xs"
  by (induction xs) auto

lemma nsize_pos: "10 \<le> nsize n"
  by (cases n) simp_all

lemma cast_Splat_size: "cast_Splat x = Some var \<Longrightarrow> osize var < osize x"
  by (cases x; simp add: cast_Splat_def split: Node.splits)

lemma cast_BlockPass_size: "cast_BlockPass x = Some block \<Longrightarrow> osize block < osize x"
  by (cases x; simp add: cast_BlockPass_def split: Node.splits)

lemma cast_SplatLhs_size: "cast_SplatLhs x = Some var \<Longrightarrow> osize var < osize x"
  by (cases x; simp add: cast_SplatLhs_def split: Node.splits)

lemma cast_Mlhs_size: "cast_Mlhs x = Some (loc, exprs) \<Longrightarrow> vsize exprs < osize x"
  by (cases x; simp add: cast_Mlhs_def split: Node.splits)

lemma cast_Mlhs_loc: "cast_Mlhs x = Some (loc, exprs) \<Longrightarrow> x = Some (parser_Mlhs loc exprs)"
  by (cases x; simp add: cast_Mlhs_def split: Node.splits)

lemma cast_Args_size: "cast_Args x = Some args \<Longrightarrow> vsize args + 40 \<le> osize x"
  by (cases x; simp add: cast_Args_def split: Node.splits)

lemma cast_Begin_size: "cast_Begin x = Some stmts \<Longrightarrow> vsize stmts < osize x"
  by (cases x; simp add: cast_Begin_def split: Node.splits)

lemma cast_Pair_size: "cast_Pair x = Some (key, val) \<Longrightarrow> osize key + osize val < osize x"
  by (cases x; simp add: cast_Pair_def split: Node.splits)

lemma cast_Kwsplat_size: "cast_Kwsplat x = Some expr \<Longrightarrow> osize expr < osize x"
  by (cases x; simp add: cast_Kwsplat_def split: Node.splits)

lemma cast_When_size:
  "cast_When x = Some (loc, patterns, body) \<Longrightarrow> vsize patterns + osize body < osize x"
  by (cases x; simp add: cast_When_def split: Node.splits)

lemma extractBlockPass_size:
  "osize (fst (extractBlockPass xs)) \<le> vsize xs" "vsize (snd (extractBlockPass xs)) \<le> vsize xs"
proof (induction xs)
  case Nil
  {
    case 1 show ?case by simp
  next
    case 2 show ?case by simp
  }
next
  case (Cons x xs)
  {
    case 1
    from Cons.IH(1) show ?case
      by (auto split: option.splits dest: cast_BlockPass_size)
  next
    case 2
    from Cons.IH(2) show ?case
      by (auto split: option.splits)
  }
qed

lemma cast_size_projections:
  "cast_Mlhs x = Some m \<Longrightarrow> vsize (snd m) < osize x"
  "cast_Pair x = Some p \<Longrightarrow> osize (fst p) + osize (snd p) < osize x"
  "cast_When x = Some w \<Longrightarrow> vsize (fst (snd w)) + osize (snd (snd w)) < osize x"
proof -
  show "cast_Mlhs x = Some m \<Longrightarrow> vsize (snd m) < osize x"
    by (cases m) (simp add: cast_Mlhs_size)
  show "cast_Pair x = Some p \<Longrightarrow> osize (fst p) + osize (snd p) < osize x"
    by (cases p) (simp add: cast_Pair_size)
  show "cast_When x = Some w \<Longrightarrow> vsize (fst (snd w)) + osize (snd (snd w)) < osize x"
    by (cases w) (simp add: cast_When_size)
qed

lemma extractBlockPass_sizes:
  "list_ex isa_Splat xs \<Longrightarrow>
     osize (fst (extractBlockPass xs)) \<le> vsize xs \<and> vsize (snd (extractBlockPass xs)) \<le> vsize xs"
  by (simp add: extractBlockPass_size)

lemma hd_size: "length xs = Suc 0 \<Longrightarrow> osize (hd xs) \<le> vsize xs"
  by (cases xs) simp_all

lemma last_size: "xs \<noteq> [] \<Longrightarrow> osize (last xs) \<le> vsize xs"
  by (induction xs) auto

lemma butlast_size: "x \<in> set (butlast xs) \<Longrightarrow> osize x \<le> vsize xs"
  by (auto dest: in_set_butlastD osize_le_vsize)

text \<open>A property of the loop state that every step keeps holds of the final state.\<close>

lemma foldM_invariant:
  assumes "foldM f xs s ctx c = Inr (s', ctx', c')" and "I s"
    and "\<And>s x ctx c s' ctx' c'. x \<in> set xs \<Longrightarrow> I s \<Longrightarrow> f s x ctx c = Inr (s', ctx', c') \<Longrightarrow> I s'"
  shows "I s'"
  using assms
proof (induction xs arbitrary: s ctx c)
  case Nil
  then show ?case by (simp add: ret_def)
next
  case (Cons x xs)
  from Cons.prems(1) obtain s1 ctx1 c1 where
    step: "f s x ctx c = Inr (s1, ctx1, c1)" and rest: "foldM f xs s1 ctx1 c1 = Inr (s', ctx', c')"
    by (auto simp: bind_def split: sum.splits)
  have s1: "I s1" using Cons.prems(3)[OF _ Cons.prems(2) step] by simp
  have later: "\<And>s x' ctx c s' ctx' c'. x' \<in> set xs \<Longrightarrow> I s \<Longrightarrow> f s x' ctx c = Inr (s', ctx', c') \<Longrightarrow> I s'"
    using Cons.prems(3) by (meson list.set_intros(2))
  show ?case by (rule Cons.IH[OF rest s1 later])
qed

text \<open>
  The block the \<open>Send\<close> clause hands to \<open>node2Proc\<close> is the child of a \<open>BlockPass\<close> among the
  arguments, whatever lowers the other arguments.
\<close>

lemma send_args_block_size:
  assumes "foldM (\<lambda>acc stat ctx uniqueCounter.
                   case cast_BlockPass stat of
                     Some bp_block \<Rightarrow>
                       (case snd acc of
                          Some b \<Rightarrow> raise msg ctx
                        | None \<Rightarrow> ret (fst acc, bp_block) ctx uniqueCounter)
                   | None \<Rightarrow>
                       bind (lower ctx stat uniqueCounter) (\<lambda>a ctx uniqueCounter.
                       ret (fst acc @ [a], snd acc) ctx uniqueCounter))
                args ([], None) ctx c = Inr (acc, ctx', c')"
  shows "osize (snd acc) \<le> vsize args"
  using assms
  by (rule foldM_invariant [where I = "\<lambda>acc. osize (snd acc) \<le> vsize args"])
     (auto simp: bind_def ret_def raise_def split: option.splits sum.splits
           dest!: cast_BlockPass_size osize_le_vsize)

section \<open>The parts of the clauses that do not recurse\<close>

text \<open>
  \<open>cast_tree<Send>\<close>, with the fields the compound-assignment clauses read; they drop the
  block of the send they take apart.
\<close>

definition cast_Send ::
  "Expression \<Rightarrow> (Loc \<times> Expression \<times> NameRef \<times> Expression list \<times> u4) option" where
  "cast_Send e = (case e of Send l recv fn args flags _ \<Rightarrow> Some (l, recv, fn, args, flags) | _ \<Rightarrow> None)"

text \<open>
  The loop of the three compound-assignment clauses over \<open>s->args\<close>: each argument is bound
  to a fresh temporary named after the method; the result is the assignments and the
  locals that read them back (\<open>readArgs\<close> and \<open>assgnArgs\<close> get the same locals).
\<close>

definition bindArgs ::
  "MutableContext \<Rightarrow> NameRef \<Rightarrow> Expression list \<Rightarrow> u2 \<Rightarrow> (Expression list \<times> Expression list) result"
where
  "bindArgs ctx s_fun s_args uniqueCounter =
     foldM (\<lambda>acc arg ctx uniqueCounter.
              let argLoc = loc_of arg in
              bind (freshName ctx s_fun uniqueCounter) (\<lambda>name ctx uniqueCounter.
              ret (fst acc @ [MK_AssignName argLoc name arg], snd acc @ [MK_Local argLoc name])
                  ctx uniqueCounter))
           s_args ([], []) ctx uniqueCounter"

text \<open>The \<open>AndAsgn\<close> clause, once both operands are lowered.\<close>

definition andAsgn :: "MutableContext \<Rightarrow> Loc \<Rightarrow> Expression \<Rightarrow> Expression \<Rightarrow> u2 \<Rightarrow> Expression result" where
  "andAsgn ctx loc recv arg uniqueCounter =
     (case cast_Send recv of
        Some s \<Rightarrow>
          (case s of (sendLoc, s_recv, s_fun, s_args, s_flags) \<Rightarrow>
             bind (freshName ctx s_fun uniqueCounter) (\<lambda>tempRecv ctx uniqueCounter.
             bind (bindArgs ctx s_fun s_args uniqueCounter) (\<lambda>temps ctx uniqueCounter.
             let stats = MK_AssignName sendLoc tempRecv s_recv # fst temps;
                 readArgs = snd temps;
                 assgnArgs = snd temps @ [arg];
                 cond = MK_Send sendLoc (MK_Local sendLoc tempRecv) s_fun readArgs s_flags None in
             bind (freshName ctx s_fun uniqueCounter) (\<lambda>tempResult ctx uniqueCounter.
             let stats = stats @ [MK_AssignName sendLoc tempResult cond];
                 body = MK_Send sendLoc (MK_Local sendLoc tempRecv) (addEq s_fun) assgnArgs s_flags None;
                 elsep = MK_Local sendLoc tempResult;
                 iff = MK_If sendLoc (MK_Local sendLoc tempResult) body elsep in
             ret (MK_InsSeq loc stats iff) ctx uniqueCounter))))
      | None \<Rightarrow>
          if isa_Reference recv then
            (let cond = MK_cpRef recv;
                 body = MK_Assign loc recv arg;
                 elsep = MK_cpRef recv in
             ret (MK_If loc cond body elsep) ctx uniqueCounter)
          else if isa_UnresolvedConstantLit recv then
            ret MK_EmptyTree (beginError ctx loc NoConstantReassignment) uniqueCounter
          else raise ''not implemented'' ctx)"

text \<open>The \<open>OrAsgn\<close> clause, once both operands are lowered.\<close>

definition orAsgn :: "MutableContext \<Rightarrow> Loc \<Rightarrow> Expression \<Rightarrow> Expression \<Rightarrow> u2 \<Rightarrow> Expression result" where
  "orAsgn ctx loc recv arg uniqueCounter =
     (case cast_Send recv of
        Some s \<Rightarrow>
          (case s of (sendLoc, s_recv, s_fun, s_args, s_flags) \<Rightarrow>
             bind (freshName ctx s_fun uniqueCounter) (\<lambda>tempRecv ctx uniqueCounter.
             bind (bindArgs ctx s_fun s_args uniqueCounter) (\<lambda>temps ctx uniqueCounter.
             let stats = MK_AssignName sendLoc tempRecv s_recv # fst temps;
                 readArgs = snd temps;
                 assgnArgs = snd temps @ [arg];
                 cond = MK_Send sendLoc (MK_Local sendLoc tempRecv) s_fun readArgs s_flags None in
             bind (freshName ctx s_fun uniqueCounter) (\<lambda>tempResult ctx uniqueCounter.
             let stats = stats @ [MK_AssignName sendLoc tempResult cond];
                 elsep = MK_Send sendLoc (MK_Local sendLoc tempRecv) (addEq s_fun) assgnArgs s_flags None;
                 body = MK_Local sendLoc tempResult;
                 iff = MK_If sendLoc (MK_Local sendLoc tempResult) body elsep in
             ret (MK_InsSeq loc stats iff) ctx uniqueCounter))))
      | None \<Rightarrow>
          if isa_Reference recv then
            (let cond = MK_cpRef recv;
                 body = MK_Assign loc recv arg;
                 elsep = MK_cpRef recv in
             ret (MK_If loc cond elsep body) ctx uniqueCounter)
          else if isa_UnresolvedConstantLit recv then
            ret MK_EmptyTree (beginError ctx loc NoConstantReassignment) uniqueCounter
          else raise ''not implemented'' ctx)"

text \<open>The \<open>OpAsgn\<close> clause, once both operands are lowered.\<close>

definition opAsgn ::
  "MutableContext \<Rightarrow> Loc \<Rightarrow> NameRef \<Rightarrow> Expression \<Rightarrow> Expression \<Rightarrow> u2 \<Rightarrow> Expression result" where
  "opAsgn ctx loc op recv rhs uniqueCounter =
     (case cast_Send recv of
        Some s \<Rightarrow>
          (case s of (sendLoc, s_recv, s_fun, s_args, s_flags) \<Rightarrow>
             bind (freshName ctx s_fun uniqueCounter) (\<lambda>tempRecv ctx uniqueCounter.
             bind (bindArgs ctx s_fun s_args uniqueCounter) (\<lambda>temps ctx uniqueCounter.
             let stats = MK_AssignName loc tempRecv s_recv # fst temps;
                 readArgs = snd temps;
                 prevValue = MK_Send sendLoc (MK_Local sendLoc tempRecv) s_fun readArgs s_flags None;
                 newValue = MK_Send1 sendLoc prevValue op rhs;
                 assgnArgs = snd temps @ [newValue];
                 res = MK_Send sendLoc (MK_Local sendLoc tempRecv) (addEq s_fun) assgnArgs s_flags None in
             ret (MK_InsSeq loc stats res) ctx uniqueCounter)))
      | None \<Rightarrow>
          if isa_Reference recv then
            (let lhs = MK_cpRef recv;
                 send = MK_Send1 loc recv op rhs in
             ret (MK_Assign loc lhs send) ctx uniqueCounter)
          else if isa_UnresolvedConstantLit recv then
            ret MK_EmptyTree (beginError ctx loc NoConstantReassignment) uniqueCounter
          else raise ''not implemented'' ctx)"

text \<open>
  The \<open>Array\<close> clause: the state of its loop is \<open>elems\<close> and \<open>lastMerge\<close> (null at first).
  \<open>arraySplat\<close> is the step for a splat element, already wrapped in \<open>to_a\<close>;
  \<open>arrayResult\<close> is what follows the loop.
\<close>

definition arraySplat ::
  "Loc \<Rightarrow> Expression list \<times> Expression option \<Rightarrow> Expression \<Rightarrow> Expression list \<times> Expression option" where
  "arraySplat loc acc var =
     (let elems = fst acc; lastMerge = snd acc in
      if elems = [] then
        (case lastMerge of
           Some m \<Rightarrow> ([], Some (MK_Send1 loc m Names_concat var))
         | None \<Rightarrow> ([], Some var))
      else
        (let current = Array loc elems;
             lastMerge = (case lastMerge of
                            Some m \<Rightarrow> MK_Send1 loc m Names_concat current
                          | None \<Rightarrow> current) in
         ([], Some (MK_Send1 loc lastMerge Names_concat var))))"

definition arrayResult :: "Loc \<Rightarrow> Expression list \<times> Expression option \<Rightarrow> Expression" where
  "arrayResult loc acc =
     (let elems = fst acc; lastMerge = snd acc in
      if elems = [] then
        (case lastMerge of Some m \<Rightarrow> m | None \<Rightarrow> Array loc elems)
      else
        (case lastMerge of
           Some m \<Rightarrow> MK_Send1 loc m Names_concat (Array loc elems)
         | None \<Rightarrow> Array loc elems))"

text \<open>The \<open>Hash\<close> clause: the state of its loop is \<open>keys\<close>, \<open>values\<close> and \<open>lastMerge\<close>.\<close>

definition hashSplat ::
  "Loc \<Rightarrow> Expression list \<times> Expression list \<times> Expression option \<Rightarrow> Expression
   \<Rightarrow> Expression list \<times> Expression list \<times> Expression option" where
  "hashSplat loc acc expr =
     (case acc of (keys, values, lastMerge) \<Rightarrow>
      if keys = [] then
        (case lastMerge of
           Some m \<Rightarrow> (keys, values, Some (MK_Send1 loc m Names_merge expr))
         | None \<Rightarrow> (keys, values, Some expr))
      else
        (let current = Hash loc keys values;
             lastMerge = (case lastMerge of
                            Some m \<Rightarrow> MK_Send1 loc m Names_merge current
                          | None \<Rightarrow> current) in
         ([], [], Some (MK_Send1 loc lastMerge Names_merge expr))))"

definition hashResult ::
  "Loc \<Rightarrow> Expression list \<times> Expression list \<times> Expression option \<Rightarrow> Expression" where
  "hashResult loc acc =
     (case acc of (keys, values, lastMerge) \<Rightarrow>
      if keys = [] then
        (case lastMerge of Some m \<Rightarrow> m | None \<Rightarrow> Hash loc keys values)
      else
        (case lastMerge of
           Some m \<Rightarrow> MK_Send1 loc m Names_merge (Hash loc keys values)
         | None \<Rightarrow> Hash loc keys values))"

text \<open>The \<open>Regopt\<close> clause: one \<open>|\<close> per flag character that has a bit.\<close>

definition regoptFlag :: "char \<Rightarrow> int" where
  "regoptFlag chr =
     (if chr = CHR ''i'' then 1
      else if chr = CHR ''x'' then 2
      else if chr = CHR ''m'' then 4
      else 0)"

definition regopt :: "Loc \<Rightarrow> string \<Rightarrow> Expression" where
  "regopt loc opts =
     foldl (\<lambda>acc chr. let flag = regoptFlag chr in
                        if flag \<noteq> 0 then MK_Send1 loc acc Names_orOp (MK_Int loc flag) else acc)
           (MK_Int loc 0) opts"

text \<open>
  The \<open>Resbody\<close> clause: the exception list of a lowered \<open>resbody->exception\<close>, and the
  clause once its three children are lowered.
\<close>

definition resbodyExceptions :: "Expression \<Rightarrow> MutableContext \<Rightarrow> u2 \<Rightarrow> Expression list result" where
  "resbodyExceptions exceptionsExpr ctx uniqueCounter =
     (if isa_EmptyTree exceptionsExpr then ret [] ctx uniqueCounter
      else case cast_Array exceptionsExpr of
        Some elems \<Rightarrow> ret elems ctx uniqueCounter
      | None \<Rightarrow>
          (case cast_Send exceptionsExpr of
             Some s \<Rightarrow>
               (case s of (sendLoc, s_recv, s_fun, s_args, s_flags) \<Rightarrow>
                  if s_fun = Names_splat \<or> s_fun = Names_to_a \<or> s_fun = Names_concat
                  then ret [exceptionsExpr] ctx uniqueCounter
                  else raise ''Unknown exceptionSend function'' ctx)
           | None \<Rightarrow> raise ''Bad inner node type'' ctx))"

definition resbody ::
  "MutableContext \<Rightarrow> Loc \<Rightarrow> Expression list \<Rightarrow> Expression \<Rightarrow> Expression \<Rightarrow> u2 \<Rightarrow> Expression result" where
  "resbody ctx loc exceptions varExpr0 body uniqueCounter =
     (let varLoc = loc_of varExpr0;
          isLocal = (case varExpr0 of UnresolvedIdent _ UnresolvedIdent_Local _ \<Rightarrow> True | _ \<Rightarrow> False);
          var = (case varExpr0 of UnresolvedIdent _ UnresolvedIdent_Local name \<Rightarrow> name | _ \<Rightarrow> NoName);
          varExpr = (if isLocal then None else Some varExpr0) in
      bind (if \<not> NameRef_exists var then freshName ctx Names_rescueTemp uniqueCounter
            else ret var ctx uniqueCounter) (\<lambda>var ctx uniqueCounter.
      let isEmpty = (case varExpr of Some e \<Rightarrow> isa_EmptyTree e | None \<Rightarrow> False);
          varLoc = (if isEmpty then loc else varLoc);
          body = (if isEmpty then body
                  else case varExpr of
                         Some e \<Rightarrow> MK_InsSeq1 varLoc (MK_Assign varLoc e (MK_Local varLoc var)) body
                       | None \<Rightarrow> body) in
      ret (RescueCase loc exceptions (MK_Local varLoc var) body) ctx uniqueCounter))"

text \<open>The \<open>Ensure\<close> clause, once both children are lowered.\<close>

definition ensure :: "Loc \<Rightarrow> Expression \<Rightarrow> Expression \<Rightarrow> Expression" where
  "ensure loc bodyExpr ensureExpr =
     (case bodyExpr of
        Rescue l body cases else_ _ \<Rightarrow> Rescue l body cases else_ ensureExpr
      | _ \<Rightarrow> Rescue loc bodyExpr [] MK_EmptyTree ensureExpr)"

text \<open>
  The \<open>Block\<close> clause: the lowered send is a \<open>Send\<close>, or the \<open>InsSeq\<close> of a safe navigation
  whose expression is an \<open>If\<close> with the \<open>Send\<close> in its else branch (three \<open>ENFORCE\<close>s);
  \<open>setBlock\<close> is \<open>send->block = ...\<close> on that send.
\<close>

definition findBlockSend :: "Expression \<Rightarrow> MutableContext \<Rightarrow> u2 \<Rightarrow> unit result" where
  "findBlockSend recv ctx uniqueCounter =
     (if isa_Send recv then ret () ctx uniqueCounter
      else case cast_InsSeq recv of
        None \<Rightarrow> raise ''DesugarBlock: failed to find InsSeq'' ctx
      | Some iseq \<Rightarrow>
          (case snd (snd iseq) of
             ast_If _ _ _ elsep \<Rightarrow>
               if isa_Send elsep then ret () ctx uniqueCounter
               else raise ''DesugarBlock: failed to find Send'' ctx
           | _ \<Rightarrow> raise ''DesugarBlock: failed to find If'' ctx))"

definition setSendBlock :: "Expression \<Rightarrow> Expression \<Rightarrow> Expression" where
  "setSendBlock send blk =
     (case send of Send l recv fn args flags _ \<Rightarrow> Send l recv fn args flags (Some blk) | _ \<Rightarrow> send)"

definition setBlock :: "Expression \<Rightarrow> Expression \<Rightarrow> Expression" where
  "setBlock res blk =
     (case res of
        Send _ _ _ _ _ _ \<Rightarrow> setSendBlock res blk
      | InsSeq l stats (ast_If l' cond thenp elsep) \<Rightarrow>
          InsSeq l stats (ast_If l' cond thenp (setSendBlock elsep blk))
      | _ \<Rightarrow> res)"

text \<open>\<open>meth->flags |= MethodDef::SelfMethod\<close>.\<close>

definition setSelfMethod :: "Expression \<Rightarrow> Expression" where
  "setSelfMethod meth =
     (case meth of
        MethodDef l d s name args body flags \<Rightarrow> MethodDef l d s name args body (or flags SelfMethod)
      | _ \<Rightarrow> meth)"

text \<open>The \<open>Node*\<close> fall-through of the dispatch and \<open>unsupportedNode\<close>.\<close>

definition unsupportedNode :: "MutableContext \<Rightarrow> Node \<Rightarrow> u2 \<Rightarrow> Expression result" where
  "unsupportedNode ctx node uniqueCounter =
     ret MK_EmptyTree (beginError ctx (nodeLoc node) UnsupportedNode) uniqueCounter"

definition unimplementedNode :: "MutableContext \<Rightarrow> Expression result" where
  "unimplementedNode ctx = raise ''Unimplemented Parser Node'' ctx"

text \<open>
  The splat branch of \<open>desugarMlhs\<close>, once the splat target \<open>lh\<close> is lowered: the statement
  it emits (none for an empty target) and the new value of \<open>i\<close>. \<open>left\<close> is \<open>i\<close>, the
  number of targets before the splat, and \<open>n\<close> is \<open>lhs->exprs.size()\<close>.
\<close>

definition mlhsSplat ::
  "Loc \<Rightarrow> NameRef \<Rightarrow> int \<Rightarrow> int \<Rightarrow> Expression \<Rightarrow> Expression list \<times> int" where
  "mlhsSplat loc tempName i n lh =
     (let left = i;
          right = n - left - 1 in
      if \<not> isa_EmptyTree lh then
        (let exclusive = (if right = 0 then MK_False (loc_of lh) else MK_True (loc_of lh));
             right = (if right = 0 then 1 else right);
             lhloc = loc_of lh;
             index = MK_Send3 lhloc (MK_Constant lhloc Symbols_Range) Names_new
                       (MK_Int lhloc left) (MK_Int lhloc (- right)) exclusive in
         ([MK_Assign lhloc lh (MK_Send1 loc (MK_Local loc tempName) Names_slice index)], - right))
      else ([], - right))"

section \<open>The desugarer\<close>

text \<open>
  \<open>Desugar.cc\<close>: \<open>node2TreeImpl\<close> and the helpers it is mutually recursive with, clause by
  clause and in the order of the source. \<open>ctx\<close> and \<open>uniqueCounter\<close> are rebound after each
  call that may change them, as the source mutates them through its references. Where
  the source evaluates two calls as arguments of one call (the \<open>Alias\<close> and \<open>Rescue\<close>
  clauses), they run left to right. \<open>desugarMlhs\<close> is handed the \<open>exprs\<close> of its \<open>Mlhs\<close>.
\<close>

function node2TreeImpl :: "MutableContext \<Rightarrow> Node option \<Rightarrow> u2 \<Rightarrow> Expression result"
  and desugarArgsAndBody ::
    "MutableContext \<Rightarrow> Loc \<Rightarrow> Node option \<Rightarrow> Node option \<Rightarrow> u2 \<Rightarrow> (Expression list \<times> Expression) result"
  and desugarDString :: "MutableContext \<Rightarrow> Loc \<Rightarrow> Node option list \<Rightarrow> u2 \<Rightarrow> Expression result"
  and buildMethod ::
    "MutableContext \<Rightarrow> Loc \<Rightarrow> Loc \<Rightarrow> NameRef \<Rightarrow> Node option \<Rightarrow> Node option \<Rightarrow> u2 \<Rightarrow> Expression result"
  and node2Proc :: "MutableContext \<Rightarrow> Node option \<Rightarrow> u2 \<Rightarrow> Expression option result"
  and desugarMlhs ::
    "MutableContext \<Rightarrow> Loc \<Rightarrow> Node option list \<Rightarrow> Expression \<Rightarrow> u2 \<Rightarrow> Expression result"
  and scopeNodeToBody :: "MutableContext \<Rightarrow> Node option \<Rightarrow> Expression list result"
where
  "desugarArgsAndBody ctx loc argnode bodynode uniqueCounter =
     bind (case cast_Args argnode of
             Some oargs \<Rightarrow>
               foldM (\<lambda>acc arg ctx uniqueCounter.
                        case cast_Mlhs arg of
                          Some lhs \<Rightarrow>
                            bind (freshName ctx Names_destructureArg uniqueCounter) (\<lambda>temporary ctx uniqueCounter.
                            let lvarNode = Some (parser_LVar (fst lhs) temporary);
                                destructure = Some (parser_Masgn (fst lhs) arg lvarNode) in
                            bind (node2TreeImpl ctx destructure uniqueCounter) (\<lambda>d ctx uniqueCounter.
                            ret (fst acc @ [MK_Local (fst lhs) temporary], snd acc @ [d]) ctx uniqueCounter))
                        | None \<Rightarrow>
                            bind (node2TreeImpl ctx arg uniqueCounter) (\<lambda>a ctx uniqueCounter.
                            ret (fst acc @ [a], snd acc) ctx uniqueCounter))
                     oargs ([], []) ctx uniqueCounter
           | None \<Rightarrow>
               (case argnode of
                  None \<Rightarrow> ret ([], []) ctx uniqueCounter
                | Some node \<Rightarrow> raise ''not implemented: '' ctx)) (\<lambda>acc ctx uniqueCounter.
     let args = fst acc; destructures = snd acc in
     bind (node2TreeImpl ctx bodynode uniqueCounter) (\<lambda>body ctx uniqueCounter.
     let body = (if destructures \<noteq> [] then MK_InsSeq loc destructures body else body) in
     ret (args, body) ctx uniqueCounter))"

| "desugarDString ctx loc nodes uniqueCounter =
     (case nodes of
        [] \<Rightarrow> ret (MK_String loc Names_empty) ctx uniqueCounter
      | it # rest \<Rightarrow>
          bind (node2TreeImpl ctx it uniqueCounter) (\<lambda>first ctx uniqueCounter.
          let res = (if isStringLit (Some first) then first
                     else MK_Send0 (loc_of first) first Names_to_s);
              first = None in
          foldM (\<lambda>res stat ctx uniqueCounter.
                   bind (node2TreeImpl ctx stat uniqueCounter) (\<lambda>narg ctx uniqueCounter.
                   let narg = (if \<not> isStringLit first then MK_Send0 (loc_of narg) narg Names_to_s
                               else narg) in
                   ret (MK_Send1 loc res Names_concat narg) ctx uniqueCounter))
                rest res ctx uniqueCounter))"

| "buildMethod ctx loc declLoc name argnode body uniqueCounter =
     bind (desugarArgsAndBody ctx loc argnode body uniqueCounter) (\<lambda>argsAndBody ctx uniqueCounter.
     ret (MK_Method loc declLoc name (fst argsAndBody) (snd argsAndBody)) ctx uniqueCounter)"

| "node2Proc ctx node uniqueCounter =
     (case node of
        None \<Rightarrow> ret None ctx uniqueCounter
      | Some n \<Rightarrow>
          bind (node2TreeImpl ctx node uniqueCounter) (\<lambda>expr ctx uniqueCounter.
          let loc = loc_of expr in
          bind (freshName ctx Names_blockPassTemp uniqueCounter) (\<lambda>temp ctx uniqueCounter.
          if Literal_isSymbol expr then
            (let name = Literal_name expr;
                 args = [MK_Local loc temp];
                 recv = MK_Local loc temp;
                 body = MK_Send0 loc recv name in
             ret (Some (Block loc args body)) ctx uniqueCounter)
          else
            (let proc = MK_Send0 loc expr Names_to_proc;
                 rest = RestArg loc (MK_Local loc temp);
                 args = [rest];
                 magic = MK_Constant loc Symbols_Magic;
                 callLiteral = MK_Literal loc (LitSymbol Names_call);
                 body = MK_Send3 loc magic Names_callWithSplat proc callLiteral (MK_Local loc temp) in
             ret (Some (Block loc args body)) ctx uniqueCounter))))"

| "desugarMlhs ctx loc exprs rhs uniqueCounter =
     bind (freshName ctx Names_assignTemp uniqueCounter) (\<lambda>tempName ctx uniqueCounter.
     bind (foldM (\<lambda>st c ctx uniqueCounter.
                    case st of (i, before, after, didSplat, stats) \<Rightarrow>
                    (case cast_SplatLhs c of
                       Some var \<Rightarrow>
                         if didSplat then raise ''did splat already'' ctx
                         else
                           bind (node2TreeImpl ctx var uniqueCounter) (\<lambda>lh ctx uniqueCounter.
                           let r = mlhsSplat loc tempName i (int (length exprs)) lh in
                           ret (snd r, before, after, True, stats @ fst r) ctx uniqueCounter)
                     | None \<Rightarrow>
                         (let after = (if didSplat then after + 1 else after);
                              before = (if didSplat then before else before + 1);
                              val = MK_Send1 loc (MK_Local loc tempName) Names_squareBrackets (MK_Int loc i) in
                          case cast_Mlhs c of
                            Some mlhs \<Rightarrow>
                              bind (desugarMlhs ctx (fst mlhs) (snd mlhs) val uniqueCounter) (\<lambda>d ctx uniqueCounter.
                              ret (i + 1, before, after, didSplat, stats @ [d]) ctx uniqueCounter)
                          | None \<Rightarrow>
                              bind (node2TreeImpl ctx c uniqueCounter) (\<lambda>lh ctx uniqueCounter.
                              let lhloc = loc_of lh in
                              ret (i + 1, before, after, didSplat, stats @ [MK_Assign lhloc lh val])
                                  ctx uniqueCounter))))
                 exprs (0, 0, 0, False, []) ctx uniqueCounter) (\<lambda>st ctx uniqueCounter.
     case st of (i, before, after, didSplat, stats) \<Rightarrow>
     let expanded = MK_Send3 loc (MK_Constant loc Symbols_Magic) Names_expandSplat rhs
                      (MK_Int loc before) (MK_Int loc after);
         stats = MK_AssignName loc tempName expanded # stats in
     ret (MK_InsSeq loc stats (MK_Local loc tempName)) ctx uniqueCounter))"

| "scopeNodeToBody ctx node =
     (let uniqueCounter = 1 in
      case cast_Begin node of
        Some stmts \<Rightarrow>
          mapM (\<lambda>stat ctx uniqueCounter. node2TreeImpl ctx stat uniqueCounter) stmts ctx uniqueCounter
      | None \<Rightarrow>
          bind (node2TreeImpl ctx node uniqueCounter) (\<lambda>body ctx uniqueCounter.
          ret [body] ctx uniqueCounter))"

| "node2TreeImpl ctx what uniqueCounter =
     (case what of
        None \<Rightarrow> ret MK_EmptyTree ctx uniqueCounter
      | Some node \<Rightarrow>
          catchSorbetException (nodeLoc node)
           (if \<not> Loc_exists (nodeLoc node) then raise ''parse-tree node has no location'' ctx
            else case node of
                parser_Send loc receiver method args \<Rightarrow>
                  bind (node2TreeImpl ctx receiver uniqueCounter) (\<lambda>rec ctx uniqueCounter.
                  let flags = (if isa_EmptyTree rec then or 0 PRIVATE_OK else 0);
                      rec = (if isa_EmptyTree rec then MK_Self loc else rec) in
                  if list_ex isa_Splat args then
                    (let block = fst (extractBlockPass args);
                         argnodes = snd (extractBlockPass args);
                         array = Some (parser_Array loc argnodes) in
                     bind (node2TreeImpl ctx array uniqueCounter) (\<lambda>args ctx uniqueCounter.
                     let method = MK_Literal loc (LitSymbol method);
                         sendargs = [rec, method, args] in
                     bind (node2Proc ctx block uniqueCounter) (\<lambda>blk ctx uniqueCounter.
                     ret (MK_Send loc (MK_Constant loc Symbols_Magic) Names_callWithSplat sendargs 0 blk)
                         ctx uniqueCounter)))
                  else
                    bind (foldM (\<lambda>acc stat ctx uniqueCounter.
                                   case cast_BlockPass stat of
                                     Some bp_block \<Rightarrow>
                                       (case snd acc of
                                          Some b \<Rightarrow> raise ''passing a block where there is no block'' ctx
                                        | None \<Rightarrow> ret (fst acc, bp_block) ctx uniqueCounter)
                                   | None \<Rightarrow>
                                       bind (node2TreeImpl ctx stat uniqueCounter) (\<lambda>a ctx uniqueCounter.
                                       ret (fst acc @ [a], snd acc) ctx uniqueCounter))
                                args ([], None) ctx uniqueCounter) (\<lambda>acc ctx uniqueCounter.
                    bind (node2Proc ctx (snd acc) uniqueCounter) (\<lambda>blk ctx uniqueCounter.
                    ret (MK_Send loc rec method (fst acc) flags blk) ctx uniqueCounter)))
              | parser_Const loc scope name \<Rightarrow>
                  bind (node2TreeImpl ctx scope uniqueCounter) (\<lambda>scope ctx uniqueCounter.
                  ret (MK_UnresolvedConstant loc scope name) ctx uniqueCounter)
              | parser_String loc val \<Rightarrow>
                  ret (MK_String loc val) ctx uniqueCounter
              | parser_Symbol loc val \<Rightarrow>
                  ret (MK_Symbol loc val) ctx uniqueCounter
              | parser_LVar loc name \<Rightarrow>
                  ret (MK_Local loc name) ctx uniqueCounter
              | parser_DString loc nodes \<Rightarrow>
                  desugarDString ctx loc nodes uniqueCounter
              | parser_Begin loc stmts \<Rightarrow>
                  if stmts \<noteq> [] then
                    bind (mapM (\<lambda>stat ctx uniqueCounter. node2TreeImpl ctx stat uniqueCounter)
                               (butlast stmts) ctx uniqueCounter) (\<lambda>stats ctx uniqueCounter.
                    bind (node2TreeImpl ctx (last stmts) uniqueCounter) (\<lambda>expr ctx uniqueCounter.
                    ret (MK_InsSeq loc stats expr) ctx uniqueCounter))
                  else ret MK_EmptyTree ctx uniqueCounter
              | parser_And loc left right \<Rightarrow>
                  bind (node2TreeImpl ctx left uniqueCounter) (\<lambda>lhs ctx uniqueCounter.
                  if isa_Reference lhs then
                    (let cond = MK_cpRef lhs in
                     bind (node2TreeImpl ctx right uniqueCounter) (\<lambda>rhs ctx uniqueCounter.
                     ret (MK_If loc cond rhs lhs) ctx uniqueCounter))
                  else
                    bind (freshName ctx Names_andAnd uniqueCounter) (\<lambda>tempName ctx uniqueCounter.
                    let temp = MK_AssignName loc tempName lhs in
                    bind (node2TreeImpl ctx right uniqueCounter) (\<lambda>rhs ctx uniqueCounter.
                    let iff = MK_If loc (MK_Local loc tempName) rhs (MK_Local loc tempName) in
                    ret (MK_InsSeq1 loc temp iff) ctx uniqueCounter)))
              | parser_Or loc left right \<Rightarrow>
                  bind (node2TreeImpl ctx left uniqueCounter) (\<lambda>lhs ctx uniqueCounter.
                  if isa_Reference lhs then
                    (let cond = MK_cpRef lhs in
                     bind (node2TreeImpl ctx right uniqueCounter) (\<lambda>rhs ctx uniqueCounter.
                     ret (MK_If loc cond lhs rhs) ctx uniqueCounter))
                  else
                    bind (freshName ctx Names_orOr uniqueCounter) (\<lambda>tempName ctx uniqueCounter.
                    let temp = MK_AssignName loc tempName lhs in
                    bind (node2TreeImpl ctx right uniqueCounter) (\<lambda>rhs ctx uniqueCounter.
                    let iff = MK_If loc (MK_Local loc tempName) (MK_Local loc tempName) rhs in
                    ret (MK_InsSeq1 loc temp iff) ctx uniqueCounter)))
              | parser_AndAsgn loc left right \<Rightarrow>
                  bind (node2TreeImpl ctx left uniqueCounter) (\<lambda>recv ctx uniqueCounter.
                  bind (node2TreeImpl ctx right uniqueCounter) (\<lambda>arg ctx uniqueCounter.
                  andAsgn ctx loc recv arg uniqueCounter))
              | parser_OrAsgn loc left right \<Rightarrow>
                  bind (node2TreeImpl ctx left uniqueCounter) (\<lambda>recv ctx uniqueCounter.
                  bind (node2TreeImpl ctx right uniqueCounter) (\<lambda>arg ctx uniqueCounter.
                  orAsgn ctx loc recv arg uniqueCounter))
              | parser_OpAsgn loc left op right \<Rightarrow>
                  bind (node2TreeImpl ctx left uniqueCounter) (\<lambda>recv ctx uniqueCounter.
                  bind (node2TreeImpl ctx right uniqueCounter) (\<lambda>rhs ctx uniqueCounter.
                  opAsgn ctx loc op recv rhs uniqueCounter))
              | parser_CSend loc receiver method args \<Rightarrow>
                  bind (freshName ctx Names_assignTemp uniqueCounter) (\<lambda>tempRecv ctx uniqueCounter.
                  case receiver of
                    None \<Rightarrow> nullPointer ctx
                  | Some r \<Rightarrow>
                      (let recvLoc = nodeLoc r in
                       bind (node2TreeImpl ctx receiver uniqueCounter) (\<lambda>recv ctx uniqueCounter.
                       let assgn = MK_AssignName recvLoc tempRecv recv;
                           cond = MK_Send0 loc (MK_Local recvLoc tempRecv) Names_nil_p;
                           sendNode = Some (parser_Send loc (Some (parser_LVar recvLoc tempRecv)) method args) in
                       bind (node2TreeImpl ctx sendNode uniqueCounter) (\<lambda>send ctx uniqueCounter.
                       let nil = MK_Nil loc;
                           iff = MK_If loc cond nil send in
                       ret (MK_InsSeq1 loc assgn iff) ctx uniqueCounter))))
              | parser_Self loc \<Rightarrow>
                  ret (MK_Self loc) ctx uniqueCounter
              | parser_DSymbol loc nodes \<Rightarrow>
                  (case nodes of
                     [] \<Rightarrow> ret (MK_Symbol loc Names_empty) ctx uniqueCounter
                   | it # rest \<Rightarrow>
                       bind (node2TreeImpl ctx it uniqueCounter) (\<lambda>first ctx uniqueCounter.
                       let res = (if isStringLit (Some first) then first else MK_Send0 loc first Names_to_s) in
                       bind (foldM (\<lambda>res stat ctx uniqueCounter.
                                      bind (node2TreeImpl ctx stat uniqueCounter) (\<lambda>narg ctx uniqueCounter.
                                      let narg = (if \<not> isStringLit (Some narg) then MK_Send0 loc narg Names_to_s
                                                  else narg) in
                                      ret (MK_Send1 loc res Names_concat narg) ctx uniqueCounter))
                                   rest res ctx uniqueCounter) (\<lambda>res ctx uniqueCounter.
                       ret (MK_Send0 loc res Names_intern) ctx uniqueCounter)))
              | parser_FileLiteral loc \<Rightarrow>
                  ret (MK_String loc Names_currentFile) ctx uniqueCounter
              | parser_ConstLhs loc scope name \<Rightarrow>
                  bind (node2TreeImpl ctx scope uniqueCounter) (\<lambda>scope ctx uniqueCounter.
                  ret (MK_UnresolvedConstant loc scope name) ctx uniqueCounter)
              | parser_Cbase loc \<Rightarrow>
                  ret (MK_Constant loc Symbols_root) ctx uniqueCounter
              | parser_Kwbegin loc stmts \<Rightarrow>
                  if stmts \<noteq> [] then
                    bind (mapM (\<lambda>stat ctx uniqueCounter. node2TreeImpl ctx stat uniqueCounter)
                               (butlast stmts) ctx uniqueCounter) (\<lambda>stats ctx uniqueCounter.
                    bind (node2TreeImpl ctx (last stmts) uniqueCounter) (\<lambda>expr ctx uniqueCounter.
                    ret (MK_InsSeq loc stats expr) ctx uniqueCounter))
                  else ret MK_EmptyTree ctx uniqueCounter
              | parser_Module loc declLoc name body \<Rightarrow>
                  bind (scopeNodeToBody ctx body) (\<lambda>body ctx scopeCounter.
                  let ancestors = [] in
                  bind (node2TreeImpl ctx name uniqueCounter) (\<lambda>name ctx uniqueCounter.
                  ret (ClassDef loc declLoc Symbols_todo name ancestors body ClassDefKind_Module) ctx uniqueCounter))
              | parser_Class loc declLoc name superclass body \<Rightarrow>
                  bind (scopeNodeToBody ctx body) (\<lambda>body ctx scopeCounter.
                  bind (case superclass of
                          None \<Rightarrow> ret [MK_Constant loc Symbols_todo] ctx uniqueCounter
                        | Some s \<Rightarrow>
                            bind (node2TreeImpl ctx superclass uniqueCounter) (\<lambda>a ctx uniqueCounter.
                            ret [a] ctx uniqueCounter)) (\<lambda>ancestors ctx uniqueCounter.
                  bind (node2TreeImpl ctx name uniqueCounter) (\<lambda>name ctx uniqueCounter.
                  ret (ClassDef loc declLoc Symbols_todo name ancestors body ClassDefKind_Class) ctx uniqueCounter)))
              | parser_Arg loc name \<Rightarrow>
                  ret (MK_Local loc name) ctx uniqueCounter
              | parser_Restarg loc name \<Rightarrow>
                  ret (RestArg loc (MK_Local loc name)) ctx uniqueCounter
              | parser_Kwrestarg loc name \<Rightarrow>
                  ret (RestArg loc (KeywordArg loc (MK_Local loc name))) ctx uniqueCounter
              | parser_Kwarg loc name \<Rightarrow>
                  ret (KeywordArg loc (MK_Local loc name)) ctx uniqueCounter
              | parser_Blockarg loc name \<Rightarrow>
                  ret (BlockArg loc (MK_Local loc name)) ctx uniqueCounter
              | parser_Kwoptarg loc name default' \<Rightarrow>
                  bind (node2TreeImpl ctx default' uniqueCounter) (\<lambda>d ctx uniqueCounter.
                  ret (OptionalArg loc (KeywordArg loc (MK_Local loc name)) d) ctx uniqueCounter)
              | parser_Optarg loc name default' \<Rightarrow>
                  bind (node2TreeImpl ctx default' uniqueCounter) (\<lambda>d ctx uniqueCounter.
                  ret (OptionalArg loc (MK_Local loc name) d) ctx uniqueCounter)
              | parser_Shadowarg loc name \<Rightarrow>
                  ret (ShadowArg loc (MK_Local loc name)) ctx uniqueCounter
              | parser_DefMethod loc declLoc name args body \<Rightarrow>
                  (let uniqueCounter1 = 1 in
                   bind (buildMethod ctx loc declLoc name args body uniqueCounter1) (\<lambda>res ctx uniqueCounter1.
                   ret res ctx uniqueCounter))
              | parser_DefS loc declLoc singleton name args body \<Rightarrow>
                  if \<not> isa_Self singleton then
                    (case singleton of
                       None \<Rightarrow> nullPointer ctx
                     | Some s \<Rightarrow> ret MK_EmptyTree (beginError ctx (nodeLoc s) InvalidSingletonDef) uniqueCounter)
                  else
                    (let uniqueCounter1 = 1 in
                     bind (buildMethod ctx loc declLoc name args body uniqueCounter1) (\<lambda>meth ctx uniqueCounter1.
                     ret (setSelfMethod meth) ctx uniqueCounter))
              | parser_SClass loc declLoc expr body \<Rightarrow>
                  (case expr of
                     None \<Rightarrow> nullPointer ctx
                   | Some e \<Rightarrow>
                       if \<not> isa_Self expr then
                         ret MK_EmptyTree (beginError ctx (nodeLoc e) InvalidSingletonDef) uniqueCounter
                       else
                         bind (scopeNodeToBody ctx body) (\<lambda>body ctx scopeCounter.
                         let emptyAncestors = [] in
                         ret (ClassDef loc declLoc Symbols_todo
                                (UnresolvedIdent (nodeLoc e) UnresolvedIdent_Class Names_singleton)
                                emptyAncestors body ClassDefKind_Class) ctx uniqueCounter))
              | parser_Block loc send args body \<Rightarrow>
                  bind (node2TreeImpl ctx send uniqueCounter) (\<lambda>recv ctx uniqueCounter.
                  bind (findBlockSend recv ctx uniqueCounter) (\<lambda>found ctx uniqueCounter.
                  bind (desugarArgsAndBody ctx loc args body uniqueCounter) (\<lambda>argsAndBody ctx uniqueCounter.
                  ret (setBlock recv (Block loc (fst argsAndBody) (snd argsAndBody))) ctx uniqueCounter)))
              | parser_While loc cond body \<Rightarrow>
                  bind (node2TreeImpl ctx cond uniqueCounter) (\<lambda>cond ctx uniqueCounter.
                  bind (node2TreeImpl ctx body uniqueCounter) (\<lambda>body ctx uniqueCounter.
                  ret (While loc cond body) ctx uniqueCounter))
              | parser_WhilePost loc cond body \<Rightarrow>
                  (let isDoWhile = isa_Kwbegin body in
                   bind (node2TreeImpl ctx body uniqueCounter) (\<lambda>body ctx uniqueCounter.
                   if isDoWhile then
                     bind (node2TreeImpl ctx cond uniqueCounter) (\<lambda>c ctx uniqueCounter.
                     let cond = MK_Send0 loc c Names_bang in
                     bind (freshName ctx Names_forTemp uniqueCounter) (\<lambda>temp ctx uniqueCounter.
                     let withResult = MK_AssignName loc temp body;
                         breaker = MK_If loc cond (MK_Break loc (MK_Local loc temp)) MK_EmptyTree;
                         breakWithResult = MK_InsSeq1 loc withResult breaker in
                     ret (While loc (MK_True loc) breakWithResult) ctx uniqueCounter))
                   else
                     bind (node2TreeImpl ctx cond uniqueCounter) (\<lambda>cond ctx uniqueCounter.
                     ret (While loc cond body) ctx uniqueCounter)))
              | parser_Until loc cond body \<Rightarrow>
                  bind (node2TreeImpl ctx cond uniqueCounter) (\<lambda>c ctx uniqueCounter.
                  let cond = MK_Send0 loc c Names_bang in
                  bind (node2TreeImpl ctx body uniqueCounter) (\<lambda>body ctx uniqueCounter.
                  ret (While loc cond body) ctx uniqueCounter))
              | parser_UntilPost loc cond body \<Rightarrow>
                  (let isDoUntil = isa_Kwbegin body in
                   bind (node2TreeImpl ctx body uniqueCounter) (\<lambda>body ctx uniqueCounter.
                   if isDoUntil then
                     bind (node2TreeImpl ctx cond uniqueCounter) (\<lambda>cond ctx uniqueCounter.
                     bind (freshName ctx Names_forTemp uniqueCounter) (\<lambda>temp ctx uniqueCounter.
                     let withResult = MK_AssignName loc temp body;
                         breaker = MK_If loc cond (MK_Break loc (MK_Local loc temp)) MK_EmptyTree;
                         breakWithResult = MK_InsSeq1 loc withResult breaker in
                     ret (While loc (MK_True loc) breakWithResult) ctx uniqueCounter))
                   else
                     bind (node2TreeImpl ctx cond uniqueCounter) (\<lambda>c ctx uniqueCounter.
                     let cond = MK_Send0 loc c Names_bang in
                     ret (While loc cond body) ctx uniqueCounter)))
              | parser_Nil loc \<Rightarrow>
                  ret (MK_Nil loc) ctx uniqueCounter
              | parser_IVar loc name \<Rightarrow>
                  ret (UnresolvedIdent loc UnresolvedIdent_Instance name) ctx uniqueCounter
              | parser_GVar loc name \<Rightarrow>
                  ret (UnresolvedIdent loc UnresolvedIdent_Global name) ctx uniqueCounter
              | parser_CVar loc name \<Rightarrow>
                  ret (UnresolvedIdent loc UnresolvedIdent_Class name) ctx uniqueCounter
              | parser_LVarLhs loc name \<Rightarrow>
                  ret (MK_Local loc name) ctx uniqueCounter
              | parser_GVarLhs loc name \<Rightarrow>
                  ret (UnresolvedIdent loc UnresolvedIdent_Global name) ctx uniqueCounter
              | parser_CVarLhs loc name \<Rightarrow>
                  ret (UnresolvedIdent loc UnresolvedIdent_Class name) ctx uniqueCounter
              | parser_IVarLhs loc name \<Rightarrow>
                  ret (UnresolvedIdent loc UnresolvedIdent_Instance name) ctx uniqueCounter
              | parser_NthRef loc ref \<Rightarrow>
                  ret (UnresolvedIdent loc UnresolvedIdent_Global (enterNameUTF8 (to_string ref))) ctx uniqueCounter
              | parser_Assign loc lhs rhs \<Rightarrow>
                  bind (node2TreeImpl ctx lhs uniqueCounter) (\<lambda>lhs ctx uniqueCounter.
                  bind (node2TreeImpl ctx rhs uniqueCounter) (\<lambda>rhs ctx uniqueCounter.
                  ret (MK_Assign loc lhs rhs) ctx uniqueCounter))
              | parser_Super loc args \<Rightarrow>
                  (let method = Names_super;
                       send = Some (parser_Send loc None method args) in
                   node2TreeImpl ctx send uniqueCounter)
              | parser_ZSuper loc \<Rightarrow>
                  ret (MK_Send1 loc (MK_Self loc) Names_super (ZSuperArgs loc)) ctx uniqueCounter
              | parser_For loc vars expr body \<Rightarrow>
                  bind (freshName ctx Names_forTemp uniqueCounter) (\<lambda>temp ctx uniqueCounter.
                  let mlhsNode = (if \<not> isa_Mlhs vars then Some (parser_Mlhs loc [vars]) else vars);
                      masgn = Some (parser_Masgn loc mlhsNode (Some (parser_LVar loc temp))) in
                  bind (node2TreeImpl ctx masgn uniqueCounter) (\<lambda>m ctx uniqueCounter.
                  let stats = [m] in
                  bind (node2TreeImpl ctx body uniqueCounter) (\<lambda>b ctx uniqueCounter.
                  let body = InsSeq loc stats b;
                      blockArgs = [RestArg loc (MK_Local loc temp)];
                      block = Block loc blockArgs body in
                  bind (node2TreeImpl ctx expr uniqueCounter) (\<lambda>e ctx uniqueCounter.
                  ret (MK_Send loc e Names_each [] 0 (Some block)) ctx uniqueCounter))))
              | parser_Integer loc val \<Rightarrow>
                  (case stol val of
                     StolValue v \<Rightarrow> ret (MK_Int loc v) ctx uniqueCounter
                   | StolOutOfRange \<Rightarrow> ret (MK_Int loc 0) (beginError ctx loc IntegerOutOfRange) uniqueCounter
                   | StolInvalidArgument \<Rightarrow> ret (MK_Int loc 0) (beginError ctx loc IntegerOutOfRange) uniqueCounter)
              | parser_Float loc val \<Rightarrow>
                  (case stod val of
                     StodValue v \<Rightarrow>
                       if isinf v then ret (MK_Float loc DoubleNaN) (beginError ctx loc FloatOutOfRange) uniqueCounter
                       else ret (MK_Float loc v) ctx uniqueCounter
                   | StodOutOfRange \<Rightarrow> ret (MK_Float loc DoubleNaN) (beginError ctx loc FloatOutOfRange) uniqueCounter
                   | StodInvalidArgument \<Rightarrow> ret (MK_Float loc DoubleNaN) (beginError ctx loc FloatOutOfRange) uniqueCounter)
              | parser_Complex loc val \<Rightarrow>
                  (let kernel = MK_Constant loc Symbols_Kernel;
                       complex_name = Symbol_name Symbols_Complex;
                       v = enterNameUTF8 val in
                   ret (MK_Send1 loc kernel complex_name (MK_String loc v)) ctx uniqueCounter)
              | parser_Rational loc val \<Rightarrow>
                  (let kernel = MK_Constant loc Symbols_Kernel;
                       complex_name = Symbol_name Symbols_Rational;
                       v = enterNameUTF8 val in
                   ret (MK_Send1 loc kernel complex_name (MK_String loc v)) ctx uniqueCounter)
              | parser_Array loc elts \<Rightarrow>
                  bind (foldM (\<lambda>acc stat ctx uniqueCounter.
                                 case cast_Splat stat of
                                   Some splat_var \<Rightarrow>
                                     bind (node2TreeImpl ctx splat_var uniqueCounter) (\<lambda>v ctx uniqueCounter.
                                     let var = MK_Send0 loc v Names_to_a in
                                     ret (arraySplat loc acc var) ctx uniqueCounter)
                                 | None \<Rightarrow>
                                     bind (node2TreeImpl ctx stat uniqueCounter) (\<lambda>e ctx uniqueCounter.
                                     ret (fst acc @ [e], snd acc) ctx uniqueCounter))
                              elts ([], None) ctx uniqueCounter) (\<lambda>acc ctx uniqueCounter.
                  ret (arrayResult loc acc) ctx uniqueCounter)
              | parser_Hash loc pairs \<Rightarrow>
                  bind (foldM (\<lambda>acc pairAsExpression ctx uniqueCounter.
                                 case cast_Pair pairAsExpression of
                                   Some pair \<Rightarrow>
                                     bind (node2TreeImpl ctx (fst pair) uniqueCounter) (\<lambda>key ctx uniqueCounter.
                                     bind (node2TreeImpl ctx (snd pair) uniqueCounter) (\<lambda>val ctx uniqueCounter.
                                     ret (fst acc @ [key], fst (snd acc) @ [val], snd (snd acc)) ctx uniqueCounter))
                                 | None \<Rightarrow>
                                     (case cast_Kwsplat pairAsExpression of
                                        None \<Rightarrow> raise ''kwsplat cast failed'' ctx
                                      | Some splat_expr \<Rightarrow>
                                          bind (node2TreeImpl ctx splat_expr uniqueCounter) (\<lambda>e ctx uniqueCounter.
                                          let expr = MK_Send0 loc e Names_to_hash in
                                          ret (hashSplat loc acc expr) ctx uniqueCounter)))
                              pairs ([], [], None) ctx uniqueCounter) (\<lambda>acc ctx uniqueCounter.
                  ret (hashResult loc acc) ctx uniqueCounter)
              | parser_Pair loc key val \<Rightarrow>
                  unimplementedNode ctx
              | parser_Kwsplat loc expr \<Rightarrow>
                  unimplementedNode ctx
              | parser_IRange loc from to \<Rightarrow>
                  (let range_name = Symbol_name Symbols_Range;
                       rangeConst = MK_UnresolvedConstant loc MK_EmptyTree range_name in
                   bind (node2TreeImpl ctx from uniqueCounter) (\<lambda>from ctx uniqueCounter.
                   bind (node2TreeImpl ctx to uniqueCounter) (\<lambda>to ctx uniqueCounter.
                   ret (MK_Send2 loc rangeConst Names_new from to) ctx uniqueCounter)))
              | parser_ERange loc from to \<Rightarrow>
                  (let rangeConst = MK_Constant loc Symbols_Range in
                   bind (node2TreeImpl ctx from uniqueCounter) (\<lambda>from ctx uniqueCounter.
                   bind (node2TreeImpl ctx to uniqueCounter) (\<lambda>to ctx uniqueCounter.
                   let true' = MK_True loc in
                   ret (MK_Send3 loc rangeConst Names_new from to true') ctx uniqueCounter)))
              | parser_Regexp loc regex opts \<Rightarrow>
                  (let regexp = MK_Constant loc Symbols_Regexp in
                   bind (desugarDString ctx loc regex uniqueCounter) (\<lambda>regex ctx uniqueCounter.
                   bind (node2TreeImpl ctx opts uniqueCounter) (\<lambda>opts ctx uniqueCounter.
                   ret (MK_Send2 loc regexp Names_new regex opts) ctx uniqueCounter)))
              | parser_Regopt loc opts \<Rightarrow>
                  ret (regopt loc opts) ctx uniqueCounter
              | parser_Return loc exprs \<Rightarrow>
                  if 1 < length exprs then
                    bind (mapM (\<lambda>stat ctx uniqueCounter. node2TreeImpl ctx stat uniqueCounter)
                               exprs ctx uniqueCounter) (\<lambda>elems ctx uniqueCounter.
                    let arr = Array loc elems in
                    ret (Return loc arr) ctx uniqueCounter)
                  else if length exprs = 1 then
                    bind (node2TreeImpl ctx (hd exprs) uniqueCounter) (\<lambda>e ctx uniqueCounter.
                    ret (Return loc e) ctx uniqueCounter)
                  else ret (Return loc MK_EmptyTree) ctx uniqueCounter
              | parser_Break loc exprs \<Rightarrow>
                  if 1 < length exprs then
                    bind (mapM (\<lambda>stat ctx uniqueCounter. node2TreeImpl ctx stat uniqueCounter)
                               exprs ctx uniqueCounter) (\<lambda>elems ctx uniqueCounter.
                    let arr = Array loc elems in
                    ret (Break loc arr) ctx uniqueCounter)
                  else if length exprs = 1 then
                    bind (node2TreeImpl ctx (hd exprs) uniqueCounter) (\<lambda>e ctx uniqueCounter.
                    ret (Break loc e) ctx uniqueCounter)
                  else ret (Break loc MK_EmptyTree) ctx uniqueCounter
              | parser_Next loc exprs \<Rightarrow>
                  if 1 < length exprs then
                    bind (mapM (\<lambda>stat ctx uniqueCounter. node2TreeImpl ctx stat uniqueCounter)
                               exprs ctx uniqueCounter) (\<lambda>elems ctx uniqueCounter.
                    let arr = Array loc elems in
                    ret (Next loc arr) ctx uniqueCounter)
                  else if length exprs = 1 then
                    bind (node2TreeImpl ctx (hd exprs) uniqueCounter) (\<lambda>e ctx uniqueCounter.
                    ret (Next loc e) ctx uniqueCounter)
                  else ret (Next loc MK_EmptyTree) ctx uniqueCounter
              | parser_Retry loc \<Rightarrow>
                  ret (Retry loc) ctx uniqueCounter
              | parser_Yield loc exprs \<Rightarrow>
                  bind (mapM (\<lambda>stat ctx uniqueCounter. node2TreeImpl ctx stat uniqueCounter)
                             exprs ctx uniqueCounter) (\<lambda>elems ctx uniqueCounter.
                  ret (Yield loc elems) ctx uniqueCounter)
              | parser_Rescue loc body rescue else' \<Rightarrow>
                  bind (foldM (\<lambda>cases node ctx uniqueCounter.
                                 bind (node2TreeImpl ctx node uniqueCounter) (\<lambda>rescueCaseExpr ctx uniqueCounter.
                                 if \<not> isa_RescueCase rescueCaseExpr then raise ''rescue case cast failed'' ctx
                                 else ret (cases @ [rescueCaseExpr]) ctx uniqueCounter))
                              rescue [] ctx uniqueCounter) (\<lambda>cases ctx uniqueCounter.
                  bind (node2TreeImpl ctx body uniqueCounter) (\<lambda>body ctx uniqueCounter.
                  bind (node2TreeImpl ctx else' uniqueCounter) (\<lambda>else' ctx uniqueCounter.
                  ret (Rescue loc body cases else' MK_EmptyTree) ctx uniqueCounter)))
              | parser_Resbody loc exception var body \<Rightarrow>
                  bind (node2TreeImpl ctx exception uniqueCounter) (\<lambda>exceptionsExpr ctx uniqueCounter.
                  bind (resbodyExceptions exceptionsExpr ctx uniqueCounter) (\<lambda>exceptions ctx uniqueCounter.
                  bind (node2TreeImpl ctx var uniqueCounter) (\<lambda>varExpr ctx uniqueCounter.
                  bind (node2TreeImpl ctx body uniqueCounter) (\<lambda>body ctx uniqueCounter.
                  resbody ctx loc exceptions varExpr body uniqueCounter))))
              | parser_Ensure loc body ensure' \<Rightarrow>
                  bind (node2TreeImpl ctx body uniqueCounter) (\<lambda>bodyExpr ctx uniqueCounter.
                  bind (node2TreeImpl ctx ensure' uniqueCounter) (\<lambda>ensureExpr ctx uniqueCounter.
                  ret (ensure loc bodyExpr ensureExpr) ctx uniqueCounter))
              | parser_If loc condition then' else' \<Rightarrow>
                  bind (node2TreeImpl ctx condition uniqueCounter) (\<lambda>cond ctx uniqueCounter.
                  bind (node2TreeImpl ctx then' uniqueCounter) (\<lambda>thenp ctx uniqueCounter.
                  bind (node2TreeImpl ctx else' uniqueCounter) (\<lambda>elsep ctx uniqueCounter.
                  ret (MK_If loc cond thenp elsep) ctx uniqueCounter)))
              | parser_Masgn loc lhs rhs \<Rightarrow>
                  (case cast_Mlhs lhs of
                     None \<Rightarrow> raise ''Failed to get lhs of Masgn'' ctx
                   | Some mlhs \<Rightarrow>
                       bind (node2TreeImpl ctx rhs uniqueCounter) (\<lambda>rhs ctx uniqueCounter.
                       desugarMlhs ctx loc (snd mlhs) rhs uniqueCounter))
              | parser_Mlhs loc exprs \<Rightarrow>
                  unimplementedNode ctx
              | parser_SplatLhs loc var \<Rightarrow>
                  unimplementedNode ctx
              | parser_True loc \<Rightarrow>
                  ret (MK_True loc) ctx uniqueCounter
              | parser_False loc \<Rightarrow>
                  ret (MK_False loc) ctx uniqueCounter
              | parser_Case loc condition whens else' \<Rightarrow>
                  bind (case condition of
                          None \<Rightarrow> ret (None, NoName, NoLoc) ctx uniqueCounter
                        | Some cnd \<Rightarrow>
                            (let cloc = nodeLoc cnd in
                             bind (freshName ctx Names_assignTemp uniqueCounter) (\<lambda>temp ctx uniqueCounter.
                             bind (node2TreeImpl ctx condition uniqueCounter) (\<lambda>c ctx uniqueCounter.
                             ret (Some (MK_AssignName cloc temp c), temp, cloc) ctx uniqueCounter)))) (\<lambda>head ctx uniqueCounter.
                  case head of (assign, temp, cloc) \<Rightarrow>
                  bind (node2TreeImpl ctx else' uniqueCounter) (\<lambda>res ctx uniqueCounter.
                  bind (foldM (\<lambda>res it ctx uniqueCounter.
                                 case cast_When it of
                                   None \<Rightarrow> raise ''case without a when?'' ctx
                                 | Some when \<Rightarrow>
                                     (case when of (when_loc, patterns, when_body) \<Rightarrow>
                                      bind (foldM (\<lambda>cond cnode ctx uniqueCounter.
                                                     bind (node2TreeImpl ctx cnode uniqueCounter) (\<lambda>ctree ctx uniqueCounter.
                                                     let test = (if NameRef_exists temp
                                                                 then MK_Send1 (loc_of ctree) ctree Names_tripleEq
                                                                        (MK_Local cloc temp)
                                                                 else ctree) in
                                                     ret (case cond of
                                                            None \<Rightarrow> Some test
                                                          | Some cnd \<Rightarrow>
                                                              Some (MK_If (loc_of test) test (MK_True (loc_of test)) cnd))
                                                         ctx uniqueCounter))
                                                  patterns None ctx uniqueCounter) (\<lambda>cond ctx uniqueCounter.
                                      bind (node2TreeImpl ctx when_body uniqueCounter) (\<lambda>b ctx uniqueCounter.
                                      case cond of
                                        None \<Rightarrow> nullPointer ctx
                                      | Some cnd \<Rightarrow> ret (MK_If when_loc cnd b res) ctx uniqueCounter))))
                              (rev whens) res ctx uniqueCounter) (\<lambda>res ctx uniqueCounter.
                  ret (case assign of Some a \<Rightarrow> MK_InsSeq1 loc a res | None \<Rightarrow> res) ctx uniqueCounter)))
              | parser_When loc patterns body \<Rightarrow>
                  unimplementedNode ctx
              | parser_Splat loc var \<Rightarrow>
                  bind (node2TreeImpl ctx var uniqueCounter) (\<lambda>v ctx uniqueCounter.
                  ret (MK_Splat loc v) ctx uniqueCounter)
              | parser_Alias loc from to \<Rightarrow>
                  bind (node2TreeImpl ctx from uniqueCounter) (\<lambda>from ctx uniqueCounter.
                  bind (node2TreeImpl ctx to uniqueCounter) (\<lambda>to ctx uniqueCounter.
                  ret (MK_Send2 loc (MK_Self loc) Names_aliasMethod from to) ctx uniqueCounter))
              | parser_Defined loc val \<Rightarrow>
                  bind (node2TreeImpl ctx val uniqueCounter) (\<lambda>v ctx uniqueCounter.
                  ret (MK_Send1 loc (MK_Constant loc Symbols_Magic) Names_defined_p v) ctx uniqueCounter)
              | parser_LineLiteral loc \<Rightarrow>
                  (let pos = Loc_position loc in
                   if fst pos \<noteq> snd pos then raise ''position corrupted'' ctx
                   else ret (MK_Int loc (int (fst pos))) ctx uniqueCounter)
              | parser_XString loc nodes \<Rightarrow>
                  bind (desugarDString ctx loc nodes uniqueCounter) (\<lambda>d ctx uniqueCounter.
                  ret (MK_Send1 loc (MK_Self loc) Names_backtick d) ctx uniqueCounter)
              | parser_Preexe loc \<Rightarrow>
                  unsupportedNode ctx node uniqueCounter
              | parser_Postexe loc \<Rightarrow>
                  unsupportedNode ctx node uniqueCounter
              | parser_Undef loc \<Rightarrow>
                  unsupportedNode ctx node uniqueCounter
              | parser_Backref loc \<Rightarrow>
                  unsupportedNode ctx node uniqueCounter
              | parser_EFlipflop loc \<Rightarrow>
                  unsupportedNode ctx node uniqueCounter
              | parser_IFlipflop loc \<Rightarrow>
                  unsupportedNode ctx node uniqueCounter
              | parser_MatchCurLine loc \<Rightarrow>
                  unsupportedNode ctx node uniqueCounter
              | parser_Redo loc \<Rightarrow>
                  unsupportedNode ctx node uniqueCounter
              | parser_BlockPass loc block \<Rightarrow>
                  raise ''Send should have already handled the BlockPass'' ctx
              | parser_Args loc args \<Rightarrow>
                  unimplementedNode ctx
              | parser_Other loc nodeName \<Rightarrow>
                  unimplementedNode ctx
            ))"
  by pat_completeness auto

termination
  apply (relation "measure (\<lambda>x. case x of
      Inl (Inl (ctx, what, c)) \<Rightarrow> 3 * osize what
    | Inl (Inr (Inl (ctx, loc, argnode, bodynode, c))) \<Rightarrow> 3 * (osize argnode + osize bodynode) + 1
    | Inl (Inr (Inr (ctx, loc, nodes, c))) \<Rightarrow> 3 * vsize nodes + 1
    | Inr (Inl (Inl (ctx, loc, declLoc, name, argnode, body, c))) \<Rightarrow> 3 * (osize argnode + osize body) + 2
    | Inr (Inl (Inr (ctx, node, c))) \<Rightarrow> 3 * osize node + 1
    | Inr (Inr (Inl (ctx, loc, exprs, rhs, c))) \<Rightarrow> 3 * vsize exprs + 1
    | Inr (Inr (Inr (ctx, node))) \<Rightarrow> 3 * osize node + 1)")
  apply (auto dest!: cast_size_projections cast_Splat_size cast_BlockPass_size cast_SplatLhs_size
      cast_Args_size cast_Begin_size cast_Kwsplat_size osize_le_vsize send_args_block_size
      extractBlockPass_sizes hd_size last_size butlast_size)
  done

declare node2TreeImpl.simps [simp del] desugarArgsAndBody.simps [simp del]
  desugarDString.simps [simp del] buildMethod.simps [simp del] node2Proc.simps [simp del]
  desugarMlhs.simps [simp del] scopeNodeToBody.simps [simp del]

text \<open>
  \<open>liftTopLevel\<close> and the entry point \<open>node2Tree\<close>. Modelled from the spec: the verifier is
  not under \<open>src/\<close>; "verify(tree) \<rightarrow> tree" hands the tree back. The handler of \<open>node2Tree\<close>
  clears \<open>locReported\<close> and rethrows.
\<close>

definition liftTopLevel :: "MutableContext \<Rightarrow> Loc \<Rightarrow> Expression \<Rightarrow> Expression" where
  "liftTopLevel ctx loc what =
     (if isa_ClassDef what then what
      else
        (let rhs = (case cast_InsSeq what of
                      Some insSeq \<Rightarrow> fst (snd insSeq) @ [snd (snd insSeq)]
                    | None \<Rightarrow> [what]) in
         ClassDef loc loc Symbols_root MK_EmptyTree [] rhs ClassDefKind_Class))"

definition Verifier_run :: "MutableContext \<Rightarrow> Expression \<Rightarrow> Expression" where
  "Verifier_run ctx tree = tree"

definition clearLocReported :: "'a result \<Rightarrow> 'a result" where
  "clearLocReported r =
     (case r of
        Inl (SorbetException msg, ctx) \<Rightarrow> Inl (SorbetException msg, ctx\<lparr>locReported := False\<rparr>)
      | Inl (NullPointer, ctx) \<Rightarrow> Inl (NullPointer, ctx)
      | Inr v \<Rightarrow> Inr v)"

definition node2Tree :: "MutableContext \<Rightarrow> Node option \<Rightarrow> Expression result" where
  "node2Tree ctx what =
     (case what of
        None \<Rightarrow> nullPointer ctx
      | Some node \<Rightarrow>
          clearLocReported
           (let uniqueCounter = 1;
                loc = nodeLoc node in
            bind (node2TreeImpl ctx what uniqueCounter) (\<lambda>result ctx uniqueCounter.
            let result = liftTopLevel ctx loc result;
                verifiedResult = Verifier_run ctx result in
            ret verifiedResult ctx uniqueCounter)))"

section \<open>The clauses as equations\<close>

text \<open>
  One unfolding of \<open>node2TreeImpl\<close> at a node of a given class: the guard, the location
  check and the clause of that class.
\<close>

lemma node2TreeImpl_None: "node2TreeImpl ctx None uniqueCounter = ret MK_EmptyTree ctx uniqueCounter"
  by (subst node2TreeImpl.simps) simp

lemma node2TreeImpl_Send:
  "node2TreeImpl ctx (Some (parser_Send loc receiver method args)) uniqueCounter =
     catchSorbetException loc
      (if \<not> Loc_exists loc then raise ''parse-tree node has no location'' ctx
       else
          bind (node2TreeImpl ctx receiver uniqueCounter) (\<lambda>rec ctx uniqueCounter.
          let flags = (if isa_EmptyTree rec then or 0 PRIVATE_OK else 0);
              rec = (if isa_EmptyTree rec then MK_Self loc else rec) in
          if list_ex isa_Splat args then
            (let block = fst (extractBlockPass args);
                 argnodes = snd (extractBlockPass args);
                 array = Some (parser_Array loc argnodes) in
             bind (node2TreeImpl ctx array uniqueCounter) (\<lambda>args ctx uniqueCounter.
             let method = MK_Literal loc (LitSymbol method);
                 sendargs = [rec, method, args] in
             bind (node2Proc ctx block uniqueCounter) (\<lambda>blk ctx uniqueCounter.
             ret (MK_Send loc (MK_Constant loc Symbols_Magic) Names_callWithSplat sendargs 0 blk)
                 ctx uniqueCounter)))
          else
            bind (foldM (\<lambda>acc stat ctx uniqueCounter.
                           case cast_BlockPass stat of
                             Some bp_block \<Rightarrow>
                               (case snd acc of
                                  Some b \<Rightarrow> raise ''passing a block where there is no block'' ctx
                                | None \<Rightarrow> ret (fst acc, bp_block) ctx uniqueCounter)
                           | None \<Rightarrow>
                               bind (node2TreeImpl ctx stat uniqueCounter) (\<lambda>a ctx uniqueCounter.
                               ret (fst acc @ [a], snd acc) ctx uniqueCounter))
                        args ([], None) ctx uniqueCounter) (\<lambda>acc ctx uniqueCounter.
            bind (node2Proc ctx (snd acc) uniqueCounter) (\<lambda>blk ctx uniqueCounter.
            ret (MK_Send loc rec method (fst acc) flags blk) ctx uniqueCounter))))"
  by (subst node2TreeImpl.simps) (simp only: option.case Node.case nodeLoc.simps)

lemma node2TreeImpl_Return:
  "node2TreeImpl ctx (Some (parser_Return loc exprs)) uniqueCounter =
     catchSorbetException loc
      (if \<not> Loc_exists loc then raise ''parse-tree node has no location'' ctx
       else
          if 1 < length exprs then
            bind (mapM (\<lambda>stat ctx uniqueCounter. node2TreeImpl ctx stat uniqueCounter)
                       exprs ctx uniqueCounter) (\<lambda>elems ctx uniqueCounter.
            let arr = Array loc elems in
            ret (Return loc arr) ctx uniqueCounter)
          else if length exprs = 1 then
            bind (node2TreeImpl ctx (hd exprs) uniqueCounter) (\<lambda>e ctx uniqueCounter.
            ret (Return loc e) ctx uniqueCounter)
          else ret (Return loc MK_EmptyTree) ctx uniqueCounter)"
  by (subst node2TreeImpl.simps) (simp only: option.case Node.case nodeLoc.simps)

lemma node2TreeImpl_Break:
  "node2TreeImpl ctx (Some (parser_Break loc exprs)) uniqueCounter =
     catchSorbetException loc
      (if \<not> Loc_exists loc then raise ''parse-tree node has no location'' ctx
       else
          if 1 < length exprs then
            bind (mapM (\<lambda>stat ctx uniqueCounter. node2TreeImpl ctx stat uniqueCounter)
                       exprs ctx uniqueCounter) (\<lambda>elems ctx uniqueCounter.
            let arr = Array loc elems in
            ret (Break loc arr) ctx uniqueCounter)
          else if length exprs = 1 then
            bind (node2TreeImpl ctx (hd exprs) uniqueCounter) (\<lambda>e ctx uniqueCounter.
            ret (Break loc e) ctx uniqueCounter)
          else ret (Break loc MK_EmptyTree) ctx uniqueCounter)"
  by (subst node2TreeImpl.simps) (simp only: option.case Node.case nodeLoc.simps)

lemma node2TreeImpl_Next:
  "node2TreeImpl ctx (Some (parser_Next loc exprs)) uniqueCounter =
     catchSorbetException loc
      (if \<not> Loc_exists loc then raise ''parse-tree node has no location'' ctx
       else
          if 1 < length exprs then
            bind (mapM (\<lambda>stat ctx uniqueCounter. node2TreeImpl ctx stat uniqueCounter)
                       exprs ctx uniqueCounter) (\<lambda>elems ctx uniqueCounter.
            let arr = Array loc elems in
            ret (Next loc arr) ctx uniqueCounter)
          else if length exprs = 1 then
            bind (node2TreeImpl ctx (hd exprs) uniqueCounter) (\<lambda>e ctx uniqueCounter.
            ret (Next loc e) ctx uniqueCounter)
          else ret (Next loc MK_EmptyTree) ctx uniqueCounter)"
  by (subst node2TreeImpl.simps) (simp only: option.case Node.case nodeLoc.simps)

lemma node2TreeImpl_Yield:
  "node2TreeImpl ctx (Some (parser_Yield loc exprs)) uniqueCounter =
     catchSorbetException loc
      (if \<not> Loc_exists loc then raise ''parse-tree node has no location'' ctx
       else
          bind (mapM (\<lambda>stat ctx uniqueCounter. node2TreeImpl ctx stat uniqueCounter)
                     exprs ctx uniqueCounter) (\<lambda>elems ctx uniqueCounter.
          ret (Yield loc elems) ctx uniqueCounter))"
  by (subst node2TreeImpl.simps) (simp only: option.case Node.case nodeLoc.simps)

lemma node2TreeImpl_Nil:
  "node2TreeImpl ctx (Some (parser_Nil loc)) uniqueCounter =
     catchSorbetException loc
      (if \<not> Loc_exists loc then raise ''parse-tree node has no location'' ctx
       else
          ret (MK_Nil loc) ctx uniqueCounter)"
  by (subst node2TreeImpl.simps) (simp only: option.case Node.case nodeLoc.simps)

lemma node2TreeImpl_String:
  "node2TreeImpl ctx (Some (parser_String loc val)) uniqueCounter =
     catchSorbetException loc
      (if \<not> Loc_exists loc then raise ''parse-tree node has no location'' ctx
       else
          ret (MK_String loc val) ctx uniqueCounter)"
  by (subst node2TreeImpl.simps) (simp only: option.case Node.case nodeLoc.simps)

lemma node2TreeImpl_Self:
  "node2TreeImpl ctx (Some (parser_Self loc)) uniqueCounter =
     catchSorbetException loc
      (if \<not> Loc_exists loc then raise ''parse-tree node has no location'' ctx
       else
          ret (MK_Self loc) ctx uniqueCounter)"
  by (subst node2TreeImpl.simps) (simp only: option.case Node.case nodeLoc.simps)

lemma node2TreeImpl_Module:
  "node2TreeImpl ctx (Some (parser_Module loc declLoc name body)) uniqueCounter =
     catchSorbetException loc
      (if \<not> Loc_exists loc then raise ''parse-tree node has no location'' ctx
       else
          bind (scopeNodeToBody ctx body) (\<lambda>body ctx scopeCounter.
          let ancestors = [] in
          bind (node2TreeImpl ctx name uniqueCounter) (\<lambda>name ctx uniqueCounter.
          ret (ClassDef loc declLoc Symbols_todo name ancestors body ClassDefKind_Module) ctx uniqueCounter)))"
  by (subst node2TreeImpl.simps) (simp only: option.case Node.case nodeLoc.simps)

lemma node2TreeImpl_Class:
  "node2TreeImpl ctx (Some (parser_Class loc declLoc name superclass body)) uniqueCounter =
     catchSorbetException loc
      (if \<not> Loc_exists loc then raise ''parse-tree node has no location'' ctx
       else
          bind (scopeNodeToBody ctx body) (\<lambda>body ctx scopeCounter.
          bind (case superclass of
                  None \<Rightarrow> ret [MK_Constant loc Symbols_todo] ctx uniqueCounter
                | Some s \<Rightarrow>
                    bind (node2TreeImpl ctx superclass uniqueCounter) (\<lambda>a ctx uniqueCounter.
                    ret [a] ctx uniqueCounter)) (\<lambda>ancestors ctx uniqueCounter.
          bind (node2TreeImpl ctx name uniqueCounter) (\<lambda>name ctx uniqueCounter.
          ret (ClassDef loc declLoc Symbols_todo name ancestors body ClassDefKind_Class) ctx uniqueCounter))))"
  by (subst node2TreeImpl.simps) (simp only: option.case Node.case nodeLoc.simps)

lemma node2TreeImpl_SClass:
  "node2TreeImpl ctx (Some (parser_SClass loc declLoc expr body)) uniqueCounter =
     catchSorbetException loc
      (if \<not> Loc_exists loc then raise ''parse-tree node has no location'' ctx
       else
          (case expr of
             None \<Rightarrow> nullPointer ctx
           | Some e \<Rightarrow>
               if \<not> isa_Self expr then
                 ret MK_EmptyTree (beginError ctx (nodeLoc e) InvalidSingletonDef) uniqueCounter
               else
                 bind (scopeNodeToBody ctx body) (\<lambda>body ctx scopeCounter.
                 let emptyAncestors = [] in
                 ret (ClassDef loc declLoc Symbols_todo
                        (UnresolvedIdent (nodeLoc e) UnresolvedIdent_Class Names_singleton)
                        emptyAncestors body ClassDefKind_Class) ctx uniqueCounter)))"
  by (subst node2TreeImpl.simps) (simp only: option.case Node.case nodeLoc.simps)

lemma node2TreeImpl_Const:
  "node2TreeImpl ctx (Some (parser_Const loc scope name)) uniqueCounter =
     catchSorbetException loc
      (if \<not> Loc_exists loc then raise ''parse-tree node has no location'' ctx
       else
          bind (node2TreeImpl ctx scope uniqueCounter) (\<lambda>scope ctx uniqueCounter.
          ret (MK_UnresolvedConstant loc scope name) ctx uniqueCounter))"
  by (subst node2TreeImpl.simps) (simp only: option.case Node.case nodeLoc.simps)

lemma node2TreeImpl_DString:
  "node2TreeImpl ctx (Some (parser_DString loc nodes)) uniqueCounter =
     catchSorbetException loc
      (if \<not> Loc_exists loc then raise ''parse-tree node has no location'' ctx
       else
          desugarDString ctx loc nodes uniqueCounter)"
  by (subst node2TreeImpl.simps) (simp only: option.case Node.case nodeLoc.simps)

lemma node2TreeImpl_DSymbol:
  "node2TreeImpl ctx (Some (parser_DSymbol loc nodes)) uniqueCounter =
     catchSorbetException loc
      (if \<not> Loc_exists loc then raise ''parse-tree node has no location'' ctx
       else
          (case nodes of
             [] \<Rightarrow> ret (MK_Symbol loc Names_empty) ctx uniqueCounter
           | it # rest \<Rightarrow>
               bind (node2TreeImpl ctx it uniqueCounter) (\<lambda>first ctx uniqueCounter.
               let res = (if isStringLit (Some first) then first else MK_Send0 loc first Names_to_s) in
               bind (foldM (\<lambda>res stat ctx uniqueCounter.
                              bind (node2TreeImpl ctx stat uniqueCounter) (\<lambda>narg ctx uniqueCounter.
                              let narg = (if \<not> isStringLit (Some narg) then MK_Send0 loc narg Names_to_s
                                          else narg) in
                              ret (MK_Send1 loc res Names_concat narg) ctx uniqueCounter))
                           rest res ctx uniqueCounter) (\<lambda>res ctx uniqueCounter.
               ret (MK_Send0 loc res Names_intern) ctx uniqueCounter))))"
  by (subst node2TreeImpl.simps) (simp only: option.case Node.case nodeLoc.simps)

lemma node2TreeImpl_Case:
  "node2TreeImpl ctx (Some (parser_Case loc condition whens else')) uniqueCounter =
     catchSorbetException loc
      (if \<not> Loc_exists loc then raise ''parse-tree node has no location'' ctx
       else
          bind (case condition of
                  None \<Rightarrow> ret (None, NoName, NoLoc) ctx uniqueCounter
                | Some cnd \<Rightarrow>
                    (let cloc = nodeLoc cnd in
                     bind (freshName ctx Names_assignTemp uniqueCounter) (\<lambda>temp ctx uniqueCounter.
                     bind (node2TreeImpl ctx condition uniqueCounter) (\<lambda>c ctx uniqueCounter.
                     ret (Some (MK_AssignName cloc temp c), temp, cloc) ctx uniqueCounter)))) (\<lambda>head ctx uniqueCounter.
          case head of (assign, temp, cloc) \<Rightarrow>
          bind (node2TreeImpl ctx else' uniqueCounter) (\<lambda>res ctx uniqueCounter.
          bind (foldM (\<lambda>res it ctx uniqueCounter.
                         case cast_When it of
                           None \<Rightarrow> raise ''case without a when?'' ctx
                         | Some when \<Rightarrow>
                             (case when of (when_loc, patterns, when_body) \<Rightarrow>
                              bind (foldM (\<lambda>cond cnode ctx uniqueCounter.
                                             bind (node2TreeImpl ctx cnode uniqueCounter) (\<lambda>ctree ctx uniqueCounter.
                                             let test = (if NameRef_exists temp
                                                         then MK_Send1 (loc_of ctree) ctree Names_tripleEq
                                                                (MK_Local cloc temp)
                                                         else ctree) in
                                             ret (case cond of
                                                    None \<Rightarrow> Some test
                                                  | Some cnd \<Rightarrow>
                                                      Some (MK_If (loc_of test) test (MK_True (loc_of test)) cnd))
                                                 ctx uniqueCounter))
                                          patterns None ctx uniqueCounter) (\<lambda>cond ctx uniqueCounter.
                              bind (node2TreeImpl ctx when_body uniqueCounter) (\<lambda>b ctx uniqueCounter.
                              case cond of
                                None \<Rightarrow> nullPointer ctx
                              | Some cnd \<Rightarrow> ret (MK_If when_loc cnd b res) ctx uniqueCounter))))
                      (rev whens) res ctx uniqueCounter) (\<lambda>res ctx uniqueCounter.
          ret (case assign of Some a \<Rightarrow> MK_InsSeq1 loc a res | None \<Rightarrow> res) ctx uniqueCounter))))"
  by (subst node2TreeImpl.simps) (simp only: option.case Node.case nodeLoc.simps)

lemma node2TreeImpl_LVar:
  "node2TreeImpl ctx (Some (parser_LVar loc name)) uniqueCounter =
     catchSorbetException loc
      (if \<not> Loc_exists loc then raise ''parse-tree node has no location'' ctx
       else
          ret (MK_Local loc name) ctx uniqueCounter)"
  by (subst node2TreeImpl.simps) (simp only: option.case Node.case nodeLoc.simps)

lemma node2TreeImpl_Integer:
  "node2TreeImpl ctx (Some (parser_Integer loc val)) uniqueCounter =
     catchSorbetException loc
      (if \<not> Loc_exists loc then raise ''parse-tree node has no location'' ctx
       else
          (case stol val of
             StolValue v \<Rightarrow> ret (MK_Int loc v) ctx uniqueCounter
           | StolOutOfRange \<Rightarrow> ret (MK_Int loc 0) (beginError ctx loc IntegerOutOfRange) uniqueCounter
           | StolInvalidArgument \<Rightarrow> ret (MK_Int loc 0) (beginError ctx loc IntegerOutOfRange) uniqueCounter))"
  by (subst node2TreeImpl.simps) (simp only: option.case Node.case nodeLoc.simps)

lemma node2TreeImpl_Symbol:
  "node2TreeImpl ctx (Some (parser_Symbol loc val)) uniqueCounter =
     catchSorbetException loc
      (if \<not> Loc_exists loc then raise ''parse-tree node has no location'' ctx
       else
          ret (MK_Symbol loc val) ctx uniqueCounter)"
  by (subst node2TreeImpl.simps) (simp only: option.case Node.case nodeLoc.simps)

lemma node2TreeImpl_Ensure:
  "node2TreeImpl ctx (Some (parser_Ensure loc body ensure')) uniqueCounter =
     catchSorbetException loc
      (if \<not> Loc_exists loc then raise ''parse-tree node has no location'' ctx
       else
          bind (node2TreeImpl ctx body uniqueCounter) (\<lambda>bodyExpr ctx uniqueCounter.
          bind (node2TreeImpl ctx ensure' uniqueCounter) (\<lambda>ensureExpr ctx uniqueCounter.
          ret (ensure loc bodyExpr ensureExpr) ctx uniqueCounter)))"
  by (subst node2TreeImpl.simps) (simp only: option.case Node.case nodeLoc.simps)

lemma node2TreeImpl_Rescue:
  "node2TreeImpl ctx (Some (parser_Rescue loc body rescue else')) uniqueCounter =
     catchSorbetException loc
      (if \<not> Loc_exists loc then raise ''parse-tree node has no location'' ctx
       else
          bind (foldM (\<lambda>cases node ctx uniqueCounter.
                         bind (node2TreeImpl ctx node uniqueCounter) (\<lambda>rescueCaseExpr ctx uniqueCounter.
                         if \<not> isa_RescueCase rescueCaseExpr then raise ''rescue case cast failed'' ctx
                         else ret (cases @ [rescueCaseExpr]) ctx uniqueCounter))
                      rescue [] ctx uniqueCounter) (\<lambda>cases ctx uniqueCounter.
          bind (node2TreeImpl ctx body uniqueCounter) (\<lambda>body ctx uniqueCounter.
          bind (node2TreeImpl ctx else' uniqueCounter) (\<lambda>else' ctx uniqueCounter.
          ret (Rescue loc body cases else' MK_EmptyTree) ctx uniqueCounter))))"
  by (subst node2TreeImpl.simps) (simp only: option.case Node.case nodeLoc.simps)

lemma node2TreeImpl_Resbody:
  "node2TreeImpl ctx (Some (parser_Resbody loc exception var body)) uniqueCounter =
     catchSorbetException loc
      (if \<not> Loc_exists loc then raise ''parse-tree node has no location'' ctx
       else
          bind (node2TreeImpl ctx exception uniqueCounter) (\<lambda>exceptionsExpr ctx uniqueCounter.
          bind (resbodyExceptions exceptionsExpr ctx uniqueCounter) (\<lambda>exceptions ctx uniqueCounter.
          bind (node2TreeImpl ctx var uniqueCounter) (\<lambda>varExpr ctx uniqueCounter.
          bind (node2TreeImpl ctx body uniqueCounter) (\<lambda>body ctx uniqueCounter.
          resbody ctx loc exceptions varExpr body uniqueCounter)))))"
  by (subst node2TreeImpl.simps) (simp only: option.case Node.case nodeLoc.simps)

lemma node2TreeImpl_Array:
  "node2TreeImpl ctx (Some (parser_Array loc elts)) uniqueCounter =
     catchSorbetException loc
      (if \<not> Loc_exists loc then raise ''parse-tree node has no location'' ctx
       else
          bind (foldM (\<lambda>acc stat ctx uniqueCounter.
                         case cast_Splat stat of
                           Some splat_var \<Rightarrow>
                             bind (node2TreeImpl ctx splat_var uniqueCounter) (\<lambda>v ctx uniqueCounter.
                             let var = MK_Send0 loc v Names_to_a in
                             ret (arraySplat loc acc var) ctx uniqueCounter)
                         | None \<Rightarrow>
                             bind (node2TreeImpl ctx stat uniqueCounter) (\<lambda>e ctx uniqueCounter.
                             ret (fst acc @ [e], snd acc) ctx uniqueCounter))
                      elts ([], None) ctx uniqueCounter) (\<lambda>acc ctx uniqueCounter.
          ret (arrayResult loc acc) ctx uniqueCounter))"
  by (subst node2TreeImpl.simps) (simp only: option.case Node.case nodeLoc.simps)

lemma node2TreeImpl_LVarLhs:
  "node2TreeImpl ctx (Some (parser_LVarLhs loc name)) uniqueCounter =
     catchSorbetException loc
      (if \<not> Loc_exists loc then raise ''parse-tree node has no location'' ctx
       else
          ret (MK_Local loc name) ctx uniqueCounter)"
  by (subst node2TreeImpl.simps) (simp only: option.case Node.case nodeLoc.simps)

lemma node2TreeImpl_Masgn:
  "node2TreeImpl ctx (Some (parser_Masgn loc lhs rhs)) uniqueCounter =
     catchSorbetException loc
      (if \<not> Loc_exists loc then raise ''parse-tree node has no location'' ctx
       else
          (case cast_Mlhs lhs of
             None \<Rightarrow> raise ''Failed to get lhs of Masgn'' ctx
           | Some mlhs \<Rightarrow>
               bind (node2TreeImpl ctx rhs uniqueCounter) (\<lambda>rhs ctx uniqueCounter.
               desugarMlhs ctx loc (snd mlhs) rhs uniqueCounter)))"
  by (subst node2TreeImpl.simps) (simp only: option.case Node.case nodeLoc.simps)

lemma node2TreeImpl_And:
  "node2TreeImpl ctx (Some (parser_And loc left right)) uniqueCounter =
     catchSorbetException loc
      (if \<not> Loc_exists loc then raise ''parse-tree node has no location'' ctx
       else
          bind (node2TreeImpl ctx left uniqueCounter) (\<lambda>lhs ctx uniqueCounter.
          if isa_Reference lhs then
            (let cond = MK_cpRef lhs in
             bind (node2TreeImpl ctx right uniqueCounter) (\<lambda>rhs ctx uniqueCounter.
             ret (MK_If loc cond rhs lhs) ctx uniqueCounter))
          else
            bind (freshName ctx Names_andAnd uniqueCounter) (\<lambda>tempName ctx uniqueCounter.
            let temp = MK_AssignName loc tempName lhs in
            bind (node2TreeImpl ctx right uniqueCounter) (\<lambda>rhs ctx uniqueCounter.
            let iff = MK_If loc (MK_Local loc tempName) rhs (MK_Local loc tempName) in
            ret (MK_InsSeq1 loc temp iff) ctx uniqueCounter))))"
  by (subst node2TreeImpl.simps) (simp only: option.case Node.case nodeLoc.simps)

lemma node2TreeImpl_Begin:
  "node2TreeImpl ctx (Some (parser_Begin loc stmts)) uniqueCounter =
     catchSorbetException loc
      (if \<not> Loc_exists loc then raise ''parse-tree node has no location'' ctx
       else
          if stmts \<noteq> [] then
            bind (mapM (\<lambda>stat ctx uniqueCounter. node2TreeImpl ctx stat uniqueCounter)
                       (butlast stmts) ctx uniqueCounter) (\<lambda>stats ctx uniqueCounter.
            bind (node2TreeImpl ctx (last stmts) uniqueCounter) (\<lambda>expr ctx uniqueCounter.
            ret (MK_InsSeq loc stats expr) ctx uniqueCounter))
          else ret MK_EmptyTree ctx uniqueCounter)"
  by (subst node2TreeImpl.simps) (simp only: option.case Node.case nodeLoc.simps)

lemma node2TreeImpl_DefMethod:
  "node2TreeImpl ctx (Some (parser_DefMethod loc declLoc name args body)) uniqueCounter =
     catchSorbetException loc
      (if \<not> Loc_exists loc then raise ''parse-tree node has no location'' ctx
       else
          (let uniqueCounter1 = 1 in
           bind (buildMethod ctx loc declLoc name args body uniqueCounter1) (\<lambda>res ctx uniqueCounter1.
           ret res ctx uniqueCounter)))"
  by (subst node2TreeImpl.simps) (simp only: option.case Node.case nodeLoc.simps)

lemma node2TreeImpl_DefS:
  "node2TreeImpl ctx (Some (parser_DefS loc declLoc singleton name args body)) uniqueCounter =
     catchSorbetException loc
      (if \<not> Loc_exists loc then raise ''parse-tree node has no location'' ctx
       else
          if \<not> isa_Self singleton then
            (case singleton of
               None \<Rightarrow> nullPointer ctx
             | Some s \<Rightarrow> ret MK_EmptyTree (beginError ctx (nodeLoc s) InvalidSingletonDef) uniqueCounter)
          else
            (let uniqueCounter1 = 1 in
             bind (buildMethod ctx loc declLoc name args body uniqueCounter1) (\<lambda>meth ctx uniqueCounter1.
             ret (setSelfMethod meth) ctx uniqueCounter)))"
  by (subst node2TreeImpl.simps) (simp only: option.case Node.case nodeLoc.simps)

section \<open>Evaluating the desugarer\<close>

text \<open>Facts about the result combinators, and an empty context to run examples from.\<close>

definition ctx0 :: MutableContext where
  "ctx0 = \<lparr>freshNames = [], errors = [], locReported = False\<rparr>"

lemmas eval_simps = ret_def raise_def nullPointer_def bind_def catchSorbetException_def mapM_def
  freshName_def freshNameUnique_def beginError_def Loc_exists_def MK_defs Let_def

lemma catch_Inr [simp]: "catchSorbetException loc (Inr v) = Inr v"
  by (simp add: catchSorbetException_def)

lemma bind_Inr [simp]: "bind (Inr (x, ctx, c)) f = f x ctx c"
  by (simp add: bind_def)

lemma bind_Inl [simp]: "bind (Inl e) f = Inl e"
  by (simp add: bind_def)

lemma bind_ret [simp]: "bind (ret x ctx c) f = f x ctx c"
  by (simp add: ret_def)

lemma bind_eq_Inr:
  "bind r f = Inr v \<longleftrightarrow> (\<exists>x ctx c. r = Inr (x, ctx, c) \<and> f x ctx c = Inr v)"
  by (auto simp: bind_def split: sum.splits)

lemma bind_assoc: "bind (bind r f) g = bind r (\<lambda>x ctx c. bind (f x ctx c) g)"
  by (simp add: bind_def split: sum.splits)

lemma catch_eq_Inr: "catchSorbetException loc r = Inr v \<longleftrightarrow> r = Inr v"
  by (auto simp: catchSorbetException_def split: sum.splits prod.splits Failure.splits)

lemma mapM_Nil [simp]: "mapM f [] ctx c = Inr ([], ctx, c)"
  by (simp add: mapM_def ret_def)

lemma foldM_collect:
  "foldM (\<lambda>out x ctx c. bind (f x ctx c) (\<lambda>y ctx c. ret (out @ [y]) ctx c)) xs out ctx c =
   bind (mapM f xs ctx c) (\<lambda>ys ctx c. ret (out @ ys) ctx c)"
proof (induction xs arbitrary: out ctx c)
  case Nil
  show ?case by (simp add: ret_def)
next
  case (Cons x xs)
  show ?case
    by (simp add: mapM_def Cons.IH [of "_ @ [_]"] Cons.IH [of "[_]"] bind_assoc)
qed

lemma mapM_Cons:
  "mapM f (x # xs) ctx c =
     bind (f x ctx c) (\<lambda>y ctx c. bind (mapM f xs ctx c) (\<lambda>ys ctx c. ret (y # ys) ctx c))"
proof -
  let ?step = "\<lambda>out x ctx c. bind (f x ctx c) (\<lambda>y ctx c. ret (out @ [y]) ctx c)"
  have "mapM f (x # xs) ctx c = bind (f x ctx c) (\<lambda>y ctx c. foldM ?step xs [y] ctx c)"
    unfolding mapM_def by (simp add: bind_assoc)
  also have "\<dots> = bind (f x ctx c) (\<lambda>y ctx c. bind (mapM f xs ctx c) (\<lambda>ys ctx c. ret (y # ys) ctx c))"
    by (simp add: foldM_collect)
  finally show ?thesis .
qed

lemma mapM_single: "mapM f [x] ctx c = bind (f x ctx c) (\<lambda>y ctx c. Inr ([y], ctx, c))"
  by (simp add: mapM_Cons ret_def)

lemma mapM_length: "mapM f xs ctx c = Inr (ys, ctx', c') \<Longrightarrow> length ys = length xs"
proof (induction xs arbitrary: ys ctx c)
  case Nil
  then show ?case by simp
next
  case (Cons x xs)
  then show ?case
    by (auto simp: mapM_Cons bind_eq_Inr ret_def)
qed

section \<open>The null guard (C10)\<close>

text \<open>
  C10. Lowering is total on absent subtrees: a null child handed to the recursive dispatch
  (a missing receiver, a missing branch of an \<open>if\<close>, an empty method body, an absent
  default) comes back as \<open>EmptyTree\<close>, without failing and before the node kind is looked
  at; neither the context nor the counter changes.
\<close>

theorem C10_null_node_lowers_to_EmptyTree:
  "node2TreeImpl ctx None uniqueCounter = Inr (EmptyTree, ctx, uniqueCounter)"
  by (subst node2TreeImpl.simps) (simp add: ret_def MK_EmptyTree_def)

section \<open>The top-level lift (C9)\<close>

text \<open>
  C9. The top-level lift leaves a \<open>ClassDef\<close> as it is and is therefore idempotent; any
  other tree is wrapped once in the synthetic root \<open>ClassDef\<close> of kind class, with no
  ancestors, whose body is the statements of the \<open>InsSeq\<close> followed by its expression when
  the tree is an \<open>InsSeq\<close>, and the one-element list of the tree otherwise.
\<close>

theorem C9_liftTopLevel:
  "liftTopLevel ctx loc what =
     (case what of
        ClassDef l d s n a r k \<Rightarrow> what
      | InsSeq l stats expr \<Rightarrow>
          ClassDef loc loc Symbols_root EmptyTree [] (stats @ [expr]) ClassDefKind_Class
      | _ \<Rightarrow> ClassDef loc loc Symbols_root EmptyTree [] [what] ClassDefKind_Class)
   \<and> liftTopLevel ctx loc (liftTopLevel ctx loc what) = liftTopLevel ctx loc what"
  by (cases what) (simp_all add: liftTopLevel_def isa_ClassDef_def cast_InsSeq_def MK_EmptyTree_def)

section \<open>Return, break, next and yield (C7)\<close>

text \<open>
  The value the spec gives a jump: nothing for no argument, the argument itself for one,
  an array of them for more.
\<close>

definition jumpValue :: "Loc \<Rightarrow> Expression list \<Rightarrow> Expression" where
  "jumpValue loc args = (case args of [] \<Rightarrow> EmptyTree | [arg] \<Rightarrow> arg | _ \<Rightarrow> Array loc args)"

text \<open>
  C7, as amended. When the argument expressions lower, in order, to \<open>args\<close>: \<open>Return\<close>,
  \<open>Break\<close> and \<open>Next\<close> wrap the empty tree for no argument, the lowered argument for one,
  and one \<open>Array\<close> of the lowered arguments for two or more; \<open>Yield\<close> holds the list of
  lowered arguments itself, whatever its length, and never an \<open>Array\<close> of them.
\<close>

theorem C7_jumps:
  assumes "Loc_exists loc"
    and "mapM (\<lambda>stat ctx uniqueCounter. node2TreeImpl ctx stat uniqueCounter) exprs ctx c
           = Inr (args, ctx', c')"
  shows "node2TreeImpl ctx (Some (parser_Return loc exprs)) c
           = Inr (Return loc (jumpValue loc args), ctx', c')
       \<and> node2TreeImpl ctx (Some (parser_Break loc exprs)) c
           = Inr (Break loc (jumpValue loc args), ctx', c')
       \<and> node2TreeImpl ctx (Some (parser_Next loc exprs)) c
           = Inr (Next loc (jumpValue loc args), ctx', c')
       \<and> node2TreeImpl ctx (Some (parser_Yield loc exprs)) c = Inr (Yield loc args, ctx', c')
       \<and> length args = length exprs"
proof (cases exprs)
  case Nil
  with assms show ?thesis
    by (simp add: node2TreeImpl_Return node2TreeImpl_Break node2TreeImpl_Next node2TreeImpl_Yield
        jumpValue_def ret_def MK_EmptyTree_def)
next
  case (Cons e rest)
  show ?thesis
  proof (cases rest)
    case Nil
    with Cons assms show ?thesis
      by (auto simp: node2TreeImpl_Return node2TreeImpl_Break node2TreeImpl_Next node2TreeImpl_Yield
          jumpValue_def ret_def mapM_single bind_eq_Inr)
  next
    case (Cons e2 rest2)
    have len: "1 < length exprs" using \<open>exprs = e # rest\<close> Cons by simp
    have eq: "length args = length exprs" using assms(2) by (rule mapM_length)
    with len obtain a1 a2 as where "args = a1 # a2 # as"
      by (cases args; cases "tl args") auto
    with len eq assms show ?thesis
      by (simp add: node2TreeImpl_Return node2TreeImpl_Break node2TreeImpl_Next node2TreeImpl_Yield
          jumpValue_def ret_def)
  qed
qed

theorem C7_jumps_witness:
  "Loc_exists (Loc 1 1)
   \<and> mapM (\<lambda>stat ctx uniqueCounter. node2TreeImpl ctx stat uniqueCounter)
        [Some (parser_Nil (Loc 1 1)), Some (parser_Self (Loc 1 1))] ctx0 1
       = Inr ([Literal (Loc 1 1) LitNil, Self (Loc 1 1)], ctx0, 1)
   \<and> node2TreeImpl ctx0
        (Some (parser_Return (Loc 1 1) [Some (parser_Nil (Loc 1 1)), Some (parser_Self (Loc 1 1))])) 1
       = Inr (Return (Loc 1 1) (Array (Loc 1 1) [Literal (Loc 1 1) LitNil, Self (Loc 1 1)]), ctx0, 1)
   \<and> node2TreeImpl ctx0
        (Some (parser_Yield (Loc 1 1) [Some (parser_Nil (Loc 1 1)), Some (parser_Self (Loc 1 1))])) 1
       = Inr (Yield (Loc 1 1) [Literal (Loc 1 1) LitNil, Self (Loc 1 1)], ctx0, 1)"
proof -
  have h1: "Loc_exists (Loc 1 1)" by (simp add: Loc_exists_def)
  have h2: "mapM (\<lambda>stat ctx uniqueCounter. node2TreeImpl ctx stat uniqueCounter)
        [Some (parser_Nil (Loc 1 1)), Some (parser_Self (Loc 1 1))] ctx0 1
       = Inr ([Literal (Loc 1 1) LitNil, Self (Loc 1 1)], ctx0, 1)"
    by (simp add: mapM_Cons node2TreeImpl_Nil node2TreeImpl_Self eval_simps)
  show ?thesis using h1 h2 C7_jumps [OF h1 h2] by (simp add: jumpValue_def)
qed

text \<open>
  The claim as stated fails for \<open>Yield\<close>: \<open>yield nil, self\<close> holds the two lowered arguments,
  not one array of them.
\<close>

theorem C7_yield_counterexample:
  "node2TreeImpl ctx0
     (Some (parser_Yield (Loc 1 1) [Some (parser_Nil (Loc 1 1)), Some (parser_Self (Loc 1 1))])) 1
     = Inr (Yield (Loc 1 1) [Literal (Loc 1 1) LitNil, Self (Loc 1 1)], ctx0, 1)
   \<and> Yield (Loc 1 1) [Literal (Loc 1 1) LitNil, Self (Loc 1 1)]
     \<noteq> Yield (Loc 1 1) [Array (Loc 1 1) [Literal (Loc 1 1) LitNil, Self (Loc 1 1)]]"
  by (simp add: node2TreeImpl_Yield node2TreeImpl_Nil node2TreeImpl_Self eval_simps)

section \<open>Ancestors of class definitions (C8)\<close>

text \<open>
  C8, as amended. A \<open>ClassDef\<close> lowered from a \<open>Class\<close> node has exactly one ancestor: the
  lowered superclass, or the placeholder constant \<open>todo\<close> when no superclass is written.
  A \<open>ClassDef\<close> lowered from a \<open>Module\<close> or an \<open>SClass\<close> node, and the synthetic root that
  \<open>liftTopLevel\<close> builds, have an empty list of ancestors.
\<close>

theorem C8_ancestors:
  assumes "node2TreeImpl ctx (Some (parser_Class loc declLoc name superclass body)) c = Inr (t, ctx', c')"
    and "node2TreeImpl mctx (Some (parser_Module mloc mdeclLoc mname mbody)) mc = Inr (m, mctx', mc')"
    and "node2TreeImpl sctx (Some (parser_SClass sloc sdeclLoc sexpr sbody)) sc = Inr (s, sctx', sc')"
    and "\<not> isa_ClassDef what"
  shows "(\<exists>name' anc body'.
            t = ClassDef loc declLoc Symbols_todo name' [anc] body' ClassDefKind_Class
            \<and> (case superclass of
                 None \<Rightarrow> anc = Constant loc Symbols_todo
               | Some super \<Rightarrow> \<exists>ctx1 c1 ctx2 c2. node2TreeImpl ctx1 superclass c1 = Inr (anc, ctx2, c2)))
       \<and> (\<exists>name' body'. m = ClassDef mloc mdeclLoc Symbols_todo name' [] body' ClassDefKind_Module)
       \<and> (s = EmptyTree \<or> (\<exists>name' body'. s = ClassDef sloc sdeclLoc Symbols_todo name' [] body' ClassDefKind_Class))
       \<and> (\<exists>rhs. liftTopLevel lctx lloc what
                   = ClassDef lloc lloc Symbols_root EmptyTree [] rhs ClassDefKind_Class)"
proof (intro conjI)
  from assms(1) show "\<exists>name' anc body'.
            t = ClassDef loc declLoc Symbols_todo name' [anc] body' ClassDefKind_Class
            \<and> (case superclass of
                 None \<Rightarrow> anc = Constant loc Symbols_todo
               | Some super \<Rightarrow> \<exists>ctx1 c1 ctx2 c2. node2TreeImpl ctx1 superclass c1 = Inr (anc, ctx2, c2))"
  proof (cases superclass)
    case None
    with assms(1) show ?thesis
      by (auto simp: node2TreeImpl_Class catch_eq_Inr bind_eq_Inr ret_def raise_def MK_Constant_def
            split: if_splits)
  next
    case (Some super)
    with assms(1) obtain name' anc body' ctx1 c1 ctx2 c2 where
      "t = ClassDef loc declLoc Symbols_todo name' [anc] body' ClassDefKind_Class"
      "node2TreeImpl ctx1 superclass c1 = Inr (anc, ctx2, c2)"
      by (auto simp: node2TreeImpl_Class catch_eq_Inr bind_eq_Inr ret_def raise_def
            split: if_splits)
    with Some show ?thesis by auto
  qed
  from assms(2) show "\<exists>name' body'. m = ClassDef mloc mdeclLoc Symbols_todo name' [] body' ClassDefKind_Module"
    by (auto simp: node2TreeImpl_Module catch_eq_Inr bind_eq_Inr ret_def raise_def split: if_splits)
  from assms(3) show "s = EmptyTree \<or> (\<exists>name' body'. s = ClassDef sloc sdeclLoc Symbols_todo name' [] body' ClassDefKind_Class)"
    by (auto simp: node2TreeImpl_SClass catch_eq_Inr bind_eq_Inr ret_def raise_def nullPointer_def
          MK_EmptyTree_def split: if_splits option.splits)
  from assms(4) show "\<exists>rhs. liftTopLevel lctx lloc what
                   = ClassDef lloc lloc Symbols_root EmptyTree [] rhs ClassDefKind_Class"
    by (simp add: liftTopLevel_def MK_EmptyTree_def)
qed

text \<open>
  The four hypotheses hold of \<open>class C; end\<close>, \<open>module M; end\<close>, \<open>class << self; end\<close> and
  the tree \<open>self\<close>.
\<close>

theorem C8_ancestors_witness:
  "node2TreeImpl ctx0
     (Some (parser_Class (Loc 1 1) (Loc 1 1) (Some (parser_Const (Loc 1 1) None (UTF8 ''C''))) None None)) 1
     = Inr (ClassDef (Loc 1 1) (Loc 1 1) Symbols_todo (UnresolvedConstantLit (Loc 1 1) EmptyTree (UTF8 ''C''))
              [Constant (Loc 1 1) Symbols_todo] [EmptyTree] ClassDefKind_Class, ctx0, 1)
   \<and> node2TreeImpl ctx0
     (Some (parser_Module (Loc 1 1) (Loc 1 1) (Some (parser_Const (Loc 1 1) None (UTF8 ''M''))) None)) 1
     = Inr (ClassDef (Loc 1 1) (Loc 1 1) Symbols_todo (UnresolvedConstantLit (Loc 1 1) EmptyTree (UTF8 ''M''))
              [] [EmptyTree] ClassDefKind_Module, ctx0, 1)
   \<and> node2TreeImpl ctx0
     (Some (parser_SClass (Loc 1 1) (Loc 1 1) (Some (parser_Self (Loc 1 1))) None)) 1
     = Inr (ClassDef (Loc 1 1) (Loc 1 1) Symbols_todo
              (UnresolvedIdent (Loc 1 1) UnresolvedIdent_Class Names_singleton)
              [] [EmptyTree] ClassDefKind_Class, ctx0, 1)
   \<and> \<not> isa_ClassDef (Self (Loc 1 1))
   \<and> (\<exists>rhs. liftTopLevel ctx0 (Loc 1 1) (Self (Loc 1 1))
               = ClassDef (Loc 1 1) (Loc 1 1) Symbols_root EmptyTree [] rhs ClassDefKind_Class)"
proof -
  have h1: "node2TreeImpl ctx0
     (Some (parser_Class (Loc 1 1) (Loc 1 1) (Some (parser_Const (Loc 1 1) None (UTF8 ''C''))) None None)) 1
     = Inr (ClassDef (Loc 1 1) (Loc 1 1) Symbols_todo (UnresolvedConstantLit (Loc 1 1) EmptyTree (UTF8 ''C''))
              [Constant (Loc 1 1) Symbols_todo] [EmptyTree] ClassDefKind_Class, ctx0, 1)"
    by (simp add: node2TreeImpl_Class node2TreeImpl_Const node2TreeImpl_None scopeNodeToBody.simps
        cast_Begin_def eval_simps)
  have h2: "node2TreeImpl ctx0
     (Some (parser_Module (Loc 1 1) (Loc 1 1) (Some (parser_Const (Loc 1 1) None (UTF8 ''M''))) None)) 1
     = Inr (ClassDef (Loc 1 1) (Loc 1 1) Symbols_todo (UnresolvedConstantLit (Loc 1 1) EmptyTree (UTF8 ''M''))
              [] [EmptyTree] ClassDefKind_Module, ctx0, 1)"
    by (simp add: node2TreeImpl_Module node2TreeImpl_Const node2TreeImpl_None scopeNodeToBody.simps
        cast_Begin_def eval_simps)
  have h3: "node2TreeImpl ctx0
     (Some (parser_SClass (Loc 1 1) (Loc 1 1) (Some (parser_Self (Loc 1 1))) None)) 1
     = Inr (ClassDef (Loc 1 1) (Loc 1 1) Symbols_todo
              (UnresolvedIdent (Loc 1 1) UnresolvedIdent_Class Names_singleton)
              [] [EmptyTree] ClassDefKind_Class, ctx0, 1)"
    by (simp add: node2TreeImpl_SClass node2TreeImpl_None scopeNodeToBody.simps
        cast_Begin_def isa_Self_def eval_simps)
  have h4: "\<not> isa_ClassDef (Self (Loc 1 1))" by (simp add: isa_ClassDef_def)
  from C8_ancestors [OF h1 h2 h3 h4, of ctx0 "Loc 1 1"] h1 h2 h3 h4 show ?thesis by simp
qed

text \<open>
  The claim as stated fails: the whole pass turns \<open>module M; end\<close> into a \<open>ClassDef\<close> with no
  ancestor.
\<close>

theorem C8_module_counterexample:
  "node2Tree ctx0
     (Some (parser_Module (Loc 1 1) (Loc 1 1) (Some (parser_Const (Loc 1 1) None (UTF8 ''M''))) None))
     = Inr (ClassDef (Loc 1 1) (Loc 1 1) Symbols_todo (UnresolvedConstantLit (Loc 1 1) EmptyTree (UTF8 ''M''))
              [] [EmptyTree] ClassDefKind_Module, ctx0, 1)"
  by (simp add: node2Tree_def clearLocReported_def liftTopLevel_def isa_ClassDef_def Verifier_run_def
      node2TreeImpl_Module node2TreeImpl_Const node2TreeImpl_None scopeNodeToBody.simps
      cast_Begin_def eval_simps)

section \<open>String interpolation (C3)\<close>

text \<open>
  C3. The claim (a later piece is wrapped in \<open>to_s\<close> exactly when it is not a string
  literal) holds of the \<open>DSymbol\<close> clause and fails in \<open>desugarDString\<close>, whose loop tests
  \<open>first\<close>, by then moved from, instead of the piece at hand: for the two string literals
  \<open>"a"\<close> and \<open>"b"\<close> the dynamic string is \<open>"a".concat("b".to_s)\<close>, the dynamic symbol
  \<open>"a".concat("b").intern\<close>.
\<close>

theorem C3_desugarDString_wraps_string_literal:
  "node2TreeImpl ctx0
     (Some (parser_DString (Loc 1 1)
        [Some (parser_String (Loc 1 1) (UTF8 ''a'')), Some (parser_String (Loc 1 2) (UTF8 ''b''))])) 1
     = Inr (Send (Loc 1 1) (Literal (Loc 1 1) (LitString (UTF8 ''a''))) Names_concat
              [Send (Loc 1 2) (Literal (Loc 1 2) (LitString (UTF8 ''b''))) Names_to_s [] 0 None] 0 None,
            ctx0, 1)
   \<and> node2TreeImpl ctx0
     (Some (parser_DSymbol (Loc 1 1)
        [Some (parser_String (Loc 1 1) (UTF8 ''a'')), Some (parser_String (Loc 1 2) (UTF8 ''b''))])) 1
     = Inr (Send (Loc 1 1)
              (Send (Loc 1 1) (Literal (Loc 1 1) (LitString (UTF8 ''a''))) Names_concat
                 [Literal (Loc 1 2) (LitString (UTF8 ''b''))] 0 None)
              Names_intern [] 0 None,
            ctx0, 1)"
  by (simp add: node2TreeImpl_DString node2TreeImpl_DSymbol node2TreeImpl_String desugarDString.simps
      isStringLit_def Literal_isString_def loc_of_def eval_simps)

section \<open>Case and when (C4)\<close>

text \<open>
  C4. The scrutinee is bound once to a fresh temporary, but the patterns of a \<open>when\<close> are
  folded with the last one outermost: \<open>case x; when 1, 2 then :a; else :b; end\<close> lowers to
  \<open>t := x; If(If(2 === t, true, 1 === t), :a, :b)\<close>, which tests \<open>2\<close> first, where the
  claim has \<open>If(1 === t, true, 2 === t)\<close>.
\<close>

theorem C4_case_tests_last_pattern_first:
  "node2TreeImpl ctx0
     (Some (parser_Case (Loc 1 1) (Some (parser_LVar (Loc 1 1) (UTF8 ''x'')))
        [Some (parser_When (Loc 2 2)
           [Some (parser_Integer (Loc 2 2) ''1''), Some (parser_Integer (Loc 2 3) ''2'')]
           (Some (parser_Symbol (Loc 2 2) (UTF8 ''a''))))]
        (Some (parser_Symbol (Loc 3 3) (UTF8 ''b''))))) 1
     = Inr (InsSeq (Loc 1 1)
              [Assign (Loc 1 1)
                 (UnresolvedIdent (Loc 1 1) UnresolvedIdent_Local (UNIQUE Desugar Names_assignTemp 2))
                 (UnresolvedIdent (Loc 1 1) UnresolvedIdent_Local (UTF8 ''x''))]
              (ast_If (Loc 2 2)
                 (ast_If (Loc 2 3)
                    (Send (Loc 2 3) (Literal (Loc 2 3) (LitInteger 2)) Names_tripleEq
                       [UnresolvedIdent (Loc 1 1) UnresolvedIdent_Local (UNIQUE Desugar Names_assignTemp 2)]
                       0 None)
                    (Literal (Loc 2 3) LitTrue)
                    (Send (Loc 2 2) (Literal (Loc 2 2) (LitInteger 1)) Names_tripleEq
                       [UnresolvedIdent (Loc 1 1) UnresolvedIdent_Local (UNIQUE Desugar Names_assignTemp 2)]
                       0 None))
                 (Literal (Loc 2 2) (LitSymbol (UTF8 ''a'')))
                 (Literal (Loc 3 3) (LitSymbol (UTF8 ''b'')))),
            ctx0\<lparr>freshNames := [UNIQUE Desugar Names_assignTemp 2]\<rparr>, 2)"
  by (simp add: node2TreeImpl_Case node2TreeImpl_LVar node2TreeImpl_Integer node2TreeImpl_Symbol
      cast_When_def NameRef_exists_def loc_of_def stol_def stripSign_def isSign_def isspace_def
      isdigit_def decimalValue_def digitVal_def ctx0_def eval_simps)

section \<open>Rescue and ensure (C6)\<close>

text \<open>
  C6. \<open>begin; body; rescue E => e; h; ensure; fin; end\<close>, that is an \<open>Ensure\<close> around a
  \<open>Rescue\<close> with one \<open>Resbody\<close> whose exception list is the array of \<open>E\<close> and whose variable
  is the local \<open>e\<close>, lowers to one \<open>Rescue\<close> node: its body is the lowered \<open>body\<close>, its one
  case is \<open>RescueCase([E], e, h)\<close> with the user's identifier \<open>e\<close> as the bound variable and
  the handler not wrapped, its else slot is the empty tree, and \<open>fin\<close> sits in its ensure
  slot. The pieces lower in the order \<open>E\<close>, \<open>h\<close>, \<open>body\<close>, \<open>fin\<close>.
\<close>

theorem C6_rescue_ensure:
  assumes "Loc_exists ensureLoc" and "Loc_exists rescueLoc" and "Loc_exists resbodyLoc"
    and "Loc_exists arrayLoc" and "Loc_exists varLoc"
    and "NameRef_exists e"
    and "cast_Splat E = None"
    and "node2TreeImpl ctx E c = Inr (E', ctx1, c1)"
    and "node2TreeImpl ctx1 h c1 = Inr (h', ctx2, c2)"
    and "node2TreeImpl ctx2 body c2 = Inr (body', ctx3, c3)"
    and "node2TreeImpl ctx3 fin c3 = Inr (fin', ctx4, c4)"
  shows "node2TreeImpl ctx
           (Some (parser_Ensure ensureLoc
              (Some (parser_Rescue rescueLoc body
                 [Some (parser_Resbody resbodyLoc (Some (parser_Array arrayLoc [E]))
                          (Some (parser_LVarLhs varLoc e)) h)]
                 None))
              fin)) c
         = Inr (Rescue rescueLoc body'
                  [RescueCase resbodyLoc [E'] (UnresolvedIdent varLoc UnresolvedIdent_Local e) h']
                  EmptyTree fin',
                ctx4, c4)"
proof -
  have array: "node2TreeImpl ctx (Some (parser_Array arrayLoc [E])) c = Inr (Array arrayLoc [E'], ctx1, c1)"
    using assms(4,7,8) by (simp add: node2TreeImpl_Array arrayResult_def ret_def)
  have var: "\<And>ctx c. node2TreeImpl ctx (Some (parser_LVarLhs varLoc e)) c
                 = Inr (UnresolvedIdent varLoc UnresolvedIdent_Local e, ctx, c)"
    using assms(5) by (simp add: node2TreeImpl_LVarLhs ret_def MK_Local_def)
  have resbody: "node2TreeImpl ctx
      (Some (parser_Resbody resbodyLoc (Some (parser_Array arrayLoc [E])) (Some (parser_LVarLhs varLoc e)) h)) c
      = Inr (RescueCase resbodyLoc [E'] (UnresolvedIdent varLoc UnresolvedIdent_Local e) h', ctx2, c2)"
    using assms(3,6,9) array var
    by (simp add: node2TreeImpl_Resbody resbodyExceptions_def resbody_def isa_EmptyTree_def
        cast_Array_def loc_of_def ret_def MK_Local_def)
  have rescue: "node2TreeImpl ctx
      (Some (parser_Rescue rescueLoc body
                 [Some (parser_Resbody resbodyLoc (Some (parser_Array arrayLoc [E]))
                          (Some (parser_LVarLhs varLoc e)) h)]
                 None)) c
      = Inr (Rescue rescueLoc body'
               [RescueCase resbodyLoc [E'] (UnresolvedIdent varLoc UnresolvedIdent_Local e) h']
               EmptyTree EmptyTree, ctx3, c3)"
    using assms(2,10) resbody
    by (simp add: node2TreeImpl_Rescue node2TreeImpl_None isa_RescueCase_def ret_def MK_EmptyTree_def)
  show ?thesis
    using assms(1,11) rescue by (simp add: node2TreeImpl_Ensure ensure_def ret_def)
qed

theorem C6_rescue_ensure_witness:
  "node2TreeImpl ctx0
     (Some (parser_Ensure (Loc 1 7)
        (Some (parser_Rescue (Loc 2 5) (Some (parser_LVar (Loc 2 2) (UTF8 ''body'')))
           [Some (parser_Resbody (Loc 3 4)
                    (Some (parser_Array (Loc 3 3) [Some (parser_Const (Loc 3 3) None (UTF8 ''E''))]))
                    (Some (parser_LVarLhs (Loc 3 3) (UTF8 ''e'')))
                    (Some (parser_LVar (Loc 4 4) (UTF8 ''h''))))]
           None))
        (Some (parser_LVar (Loc 6 6) (UTF8 ''fin''))))) 1
   = Inr (Rescue (Loc 2 5) (UnresolvedIdent (Loc 2 2) UnresolvedIdent_Local (UTF8 ''body''))
            [RescueCase (Loc 3 4) [UnresolvedConstantLit (Loc 3 3) EmptyTree (UTF8 ''E'')]
               (UnresolvedIdent (Loc 3 3) UnresolvedIdent_Local (UTF8 ''e''))
               (UnresolvedIdent (Loc 4 4) UnresolvedIdent_Local (UTF8 ''h''))]
            EmptyTree
            (UnresolvedIdent (Loc 6 6) UnresolvedIdent_Local (UTF8 ''fin'')),
          ctx0, 1)"
proof -
  have locs: "Loc_exists (Loc 1 7)" "Loc_exists (Loc 2 5)" "Loc_exists (Loc 3 4)" "Loc_exists (Loc 3 3)"
    by (simp_all add: Loc_exists_def)
  have e: "NameRef_exists (UTF8 ''e'')" by (simp add: NameRef_exists_def)
  have E: "cast_Splat (Some (parser_Const (Loc 3 3) None (UTF8 ''E''))) = None"
    by (simp add: cast_Splat_def)
  have l1: "node2TreeImpl ctx0 (Some (parser_Const (Loc 3 3) None (UTF8 ''E''))) 1
              = Inr (UnresolvedConstantLit (Loc 3 3) EmptyTree (UTF8 ''E''), ctx0, 1)"
    by (simp add: node2TreeImpl_Const node2TreeImpl_None eval_simps)
  have l2: "node2TreeImpl ctx0 (Some (parser_LVar (Loc 4 4) (UTF8 ''h''))) 1
              = Inr (UnresolvedIdent (Loc 4 4) UnresolvedIdent_Local (UTF8 ''h''), ctx0, 1)"
    by (simp add: node2TreeImpl_LVar eval_simps)
  have l3: "node2TreeImpl ctx0 (Some (parser_LVar (Loc 2 2) (UTF8 ''body''))) 1
              = Inr (UnresolvedIdent (Loc 2 2) UnresolvedIdent_Local (UTF8 ''body''), ctx0, 1)"
    by (simp add: node2TreeImpl_LVar eval_simps)
  have l4: "node2TreeImpl ctx0 (Some (parser_LVar (Loc 6 6) (UTF8 ''fin''))) 1
              = Inr (UnresolvedIdent (Loc 6 6) UnresolvedIdent_Local (UTF8 ''fin''), ctx0, 1)"
    by (simp add: node2TreeImpl_LVar eval_simps)
  show ?thesis
    by (rule C6_rescue_ensure [OF locs(1) locs(2) locs(3) locs(4) locs(4) e E l1 l2 l3 l4])
qed

section \<open>Sends without a receiver (C1)\<close>

text \<open>
  C1. What the \<open>Send\<close> clause returns for a \<open>Send\<close> parse node with no receiver. Without a
  splat among the arguments it is a \<open>Send\<close> whose receiver is \<open>Self\<close> and whose flags are
  \<open>PRIVATE_OK\<close>, as the claim says. With a splat it is
  \<open>Magic.callWithSplat(Self, :method, array)\<close>: \<open>Self\<close> stands for the receiver, as the first
  argument, but the flags of the \<open>Send\<close> are \<open>0\<close>. The clause has set \<open>PRIVATE_OK\<close> in its
  local \<open>flags\<close> by then, and the branch without a splat passes \<open>flags\<close> on; the branch
  with a splat passes the literal \<open>0\<close>, so the flag the claim asks for is lost there.
  Whether a receiver is written or not, the \<open>Send\<close> that the clause returns has a receiver
  other than the empty tree. (A receiver slot of the output is never a null pointer: it is
  filled from \<open>node2TreeImpl\<close>, which returns \<open>EmptyTree\<close> for a null node and enforces a
  result that is not null, or from a builder; this is why a receiver is an \<open>Expression\<close>
  here.)
\<close>

theorem C1_bare_send:
  assumes "node2TreeImpl ctx (Some (parser_Send loc None method args)) c = Inr (t, ctx', c')"
    and "node2TreeImpl actx (Some (parser_Send aloc areceiver amethod aargs)) ac = Inr (a, actx', ac')"
  shows "(if list_ex isa_Splat args
          then \<exists>array blk. t = Send loc (Constant loc Symbols_Magic) Names_callWithSplat
                                  [Self loc, Literal loc (LitSymbol method), array] 0 blk
          else \<exists>args' blk. t = Send loc (Self loc) method args' PRIVATE_OK blk)
       \<and> (\<exists>l recv fn as flags blk. a = Send l recv fn as flags blk \<and> recv \<noteq> EmptyTree)"
proof
  from assms(1) show "if list_ex isa_Splat args
          then \<exists>array blk. t = Send loc (Constant loc Symbols_Magic) Names_callWithSplat
                                  [Self loc, Literal loc (LitSymbol method), array] 0 blk
          else \<exists>args' blk. t = Send loc (Self loc) method args' PRIVATE_OK blk"
    by (auto simp: node2TreeImpl_Send node2TreeImpl_None catch_eq_Inr bind_eq_Inr ret_def raise_def
          isa_EmptyTree_def MK_defs Let_def split: if_splits)
  from assms(2) show "\<exists>l recv fn as flags blk. a = Send l recv fn as flags blk \<and> recv \<noteq> EmptyTree"
    by (auto simp: node2TreeImpl_Send catch_eq_Inr bind_eq_Inr ret_def raise_def
          isa_EmptyTree_def MK_defs Let_def split: if_splits Expression.splits)
qed

text \<open>The hypotheses hold of \<open>foo(nil)\<close>, which has no splat.\<close>

theorem C1_bare_send_witness:
  "node2TreeImpl ctx0 (Some (parser_Send (Loc 1 1) None (UTF8 ''foo'') [Some (parser_Nil (Loc 1 1))])) 1
     = Inr (Send (Loc 1 1) (Self (Loc 1 1)) (UTF8 ''foo'') [Literal (Loc 1 1) LitNil] PRIVATE_OK None, ctx0, 1)
   \<and> \<not> list_ex isa_Splat [Some (parser_Nil (Loc 1 1))]
   \<and> (\<exists>args' blk. Send (Loc 1 1) (Self (Loc 1 1)) (UTF8 ''foo'') [Literal (Loc 1 1) LitNil] PRIVATE_OK None
                    = Send (Loc 1 1) (Self (Loc 1 1)) (UTF8 ''foo'') args' PRIVATE_OK blk)"
proof -
  have h: "node2TreeImpl ctx0 (Some (parser_Send (Loc 1 1) None (UTF8 ''foo'') [Some (parser_Nil (Loc 1 1))])) 1
     = Inr (Send (Loc 1 1) (Self (Loc 1 1)) (UTF8 ''foo'') [Literal (Loc 1 1) LitNil] PRIVATE_OK None, ctx0, 1)"
    by (simp add: node2TreeImpl_Send node2TreeImpl_None node2TreeImpl_Nil node2Proc.simps
        isa_Splat_def cast_Splat_def cast_BlockPass_def isa_EmptyTree_def eval_simps)
  have s: "\<not> list_ex isa_Splat [Some (parser_Nil (Loc 1 1))]"
    by (simp add: isa_Splat_def cast_Splat_def)
  from C1_bare_send [OF h h] h s show ?thesis by simp
qed

text \<open>
  The failing input: \<open>foo(*a)\<close> with no receiver lowers to a \<open>Send\<close> to \<open>Magic\<close> with flags
  \<open>0\<close>; \<open>Self\<close> is the first argument, and \<open>PRIVATE_OK\<close> is not set.
\<close>

theorem C1_splat_counterexample:
  "node2TreeImpl ctx0
     (Some (parser_Send (Loc 1 1) None (UTF8 ''foo'')
        [Some (parser_Splat (Loc 1 1) (Some (parser_LVar (Loc 1 1) (UTF8 ''a''))))])) 1
     = Inr (Send (Loc 1 1) (Constant (Loc 1 1) Symbols_Magic) Names_callWithSplat
              [Self (Loc 1 1), Literal (Loc 1 1) (LitSymbol (UTF8 ''foo'')),
               Send (Loc 1 1) (UnresolvedIdent (Loc 1 1) UnresolvedIdent_Local (UTF8 ''a'')) Names_to_a [] 0 None]
              0 None,
            ctx0, 1)
   \<and> and (0 :: u4) PRIVATE_OK = 0 \<and> PRIVATE_OK \<noteq> 0
   \<and> Constant (Loc 1 1) Symbols_Magic \<noteq> Self (Loc 1 1)"
  by (simp add: node2TreeImpl_Send node2TreeImpl_None node2TreeImpl_Array node2TreeImpl_LVar
      node2Proc.simps isa_Splat_def cast_Splat_def cast_BlockPass_def isa_EmptyTree_def
      arraySplat_def arrayResult_def PRIVATE_OK_def eval_simps)

text \<open>
  A receiver can be the empty tree, though. The interpolation of an empty statement list,
  \<open>"#{}"\<close>, lowers its piece to \<open>EmptyTree\<close> and sends it \<open>to_s\<close>.
\<close>

lemma empty_interpolation_receiver:
  "node2TreeImpl ctx0 (Some (parser_DString (Loc 1 1) [Some (parser_Begin (Loc 1 1) [])])) 1
     = Inr (Send NoLoc EmptyTree Names_to_s [] 0 None, ctx0, 1)"
  by (simp add: node2TreeImpl_DString desugarDString.simps node2TreeImpl_Begin isStringLit_def
      Literal_isString_def loc_of_def eval_simps)

section \<open>Multiple assignment with a splat (C5)\<close>

text \<open>The body of the loop of \<open>desugarMlhs\<close>, named, and the function in terms of it.\<close>

definition mlhsStep ::
  "Loc \<Rightarrow> NameRef \<Rightarrow> Node option list \<Rightarrow> int \<times> int \<times> int \<times> bool \<times> Expression list \<Rightarrow> Node option
   \<Rightarrow> MutableContext \<Rightarrow> u2 \<Rightarrow> (int \<times> int \<times> int \<times> bool \<times> Expression list) result" where
  "mlhsStep loc tempName exprs st c ctx uniqueCounter =
     (case st of (i, before, after, didSplat, stats) \<Rightarrow>
      (case cast_SplatLhs c of
         Some var \<Rightarrow>
           if didSplat then raise ''did splat already'' ctx
           else
             bind (node2TreeImpl ctx var uniqueCounter) (\<lambda>lh ctx uniqueCounter.
             let r = mlhsSplat loc tempName i (int (length exprs)) lh in
             ret (snd r, before, after, True, stats @ fst r) ctx uniqueCounter)
       | None \<Rightarrow>
           (let after = (if didSplat then after + 1 else after);
                before = (if didSplat then before else before + 1);
                val = MK_Send1 loc (MK_Local loc tempName) Names_squareBrackets (MK_Int loc i) in
            case cast_Mlhs c of
              Some mlhs \<Rightarrow>
                bind (desugarMlhs ctx (fst mlhs) (snd mlhs) val uniqueCounter) (\<lambda>d ctx uniqueCounter.
                ret (i + 1, before, after, didSplat, stats @ [d]) ctx uniqueCounter)
            | None \<Rightarrow>
                bind (node2TreeImpl ctx c uniqueCounter) (\<lambda>lh ctx uniqueCounter.
                let lhloc = loc_of lh in
                ret (i + 1, before, after, didSplat, stats @ [MK_Assign lhloc lh val])
                    ctx uniqueCounter))))"

lemma desugarMlhs_loop:
  "desugarMlhs ctx loc exprs rhs uniqueCounter =
     bind (freshName ctx Names_assignTemp uniqueCounter) (\<lambda>tempName ctx uniqueCounter.
     bind (foldM (mlhsStep loc tempName exprs) exprs (0, 0, 0, False, []) ctx uniqueCounter)
       (\<lambda>st ctx uniqueCounter.
     case st of (i, before, after, didSplat, stats) \<Rightarrow>
     let expanded = MK_Send3 loc (MK_Constant loc Symbols_Magic) Names_expandSplat rhs
                      (MK_Int loc before) (MK_Int loc after);
         stats = MK_AssignName loc tempName expanded # stats in
     ret (MK_InsSeq loc stats (MK_Local loc tempName)) ctx uniqueCounter))"
  by (subst desugarMlhs.simps) (simp only: mlhsStep_def [abs_def])

lemma foldM_append:
  "foldM f (xs @ ys) s ctx c = bind (foldM f xs s ctx c) (\<lambda>s' ctx c. foldM f ys s' ctx c)"
  by (induction xs arbitrary: s ctx c) (auto simp: ret_def bind_def split: sum.splits)

text \<open>A step that succeeds only appends to the statements.\<close>

lemma mlhsStep_appends:
  assumes "mlhsStep loc tempName exprs (i, before, after, didSplat, stats) x ctx c
             = Inr ((i', before', after', didSplat', stats'), ctx', c')"
  shows "\<exists>extra. stats' = stats @ extra"
  using assms
  by (auto simp: mlhsStep_def bind_eq_Inr ret_def raise_def Let_def
        split: option.splits if_splits)

lemma mlhs_loop_appends:
  assumes "foldM (mlhsStep loc tempName exprs) xs st ctx c = Inr (st', ctx', c')"
  shows "\<exists>extra. snd (snd (snd (snd st'))) = snd (snd (snd (snd st))) @ extra"
  using assms
proof (induction xs arbitrary: st ctx c)
  case Nil
  then show ?case by (simp add: ret_def)
next
  case (Cons x xs)
  from Cons.prems obtain st1 ctx1 c1 where
    step: "mlhsStep loc tempName exprs st x ctx c = Inr (st1, ctx1, c1)"
    and rest: "foldM (mlhsStep loc tempName exprs) xs st1 ctx1 c1 = Inr (st', ctx', c')"
    by (auto simp: bind_eq_Inr)
  from step have "\<exists>extra. snd (snd (snd (snd st1))) = snd (snd (snd (snd st))) @ extra"
    by (cases st, cases st1) (auto dest: mlhsStep_appends)
  with Cons.IH [OF rest] show ?case by auto
qed

text \<open>
  Over targets none of which is a splat, a loop that succeeds advances \<open>i\<close> by one and
  appends one statement per target, and leaves \<open>didSplat\<close> as it was.
\<close>

lemma mlhs_loop_before_splat:
  assumes "foldM (mlhsStep loc tempName exprs) bs (i, before, after, didSplat, stats) ctx c
             = Inr ((i', before', after', didSplat', stats'), ctx', c')"
    and "\<forall>b \<in> set bs. cast_SplatLhs b = None"
  shows "i' = i + int (length bs) \<and> didSplat' = didSplat
         \<and> (\<exists>extra. stats' = stats @ extra \<and> length extra = length bs)"
  using assms
proof (induction bs arbitrary: i before after stats ctx c)
  case Nil
  then show ?case by (simp add: ret_def)
next
  case (Cons b bs)
  from Cons.prems(1) obtain st1 ctx1 c1 where
    step: "mlhsStep loc tempName exprs (i, before, after, didSplat, stats) b ctx c = Inr (st1, ctx1, c1)"
    and rest: "foldM (mlhsStep loc tempName exprs) bs st1 ctx1 c1
                 = Inr ((i', before', after', didSplat', stats'), ctx', c')"
    by (auto simp: bind_eq_Inr)
  from Cons.prems(2) have b: "cast_SplatLhs b = None" by simp
  from step b obtain before1 after1 s where
    st1: "st1 = (i + 1, before1, after1, didSplat, stats @ [s])"
    by (auto simp: mlhsStep_def bind_eq_Inr ret_def Let_def split: option.splits)
  from Cons.prems(2) have bs: "\<forall>b \<in> set bs. cast_SplatLhs b = None" by simp
  from Cons.IH [OF rest [unfolded st1] bs] show ?case by auto
qed

text \<open>
  C5, as amended. When the left-hand side has the targets \<open>bs\<close> (none a splat) before a
  splat target and the targets \<open>as\<close> after it, so that \<open>left\<close> is the length of \<open>bs\<close> and
  \<open>right\<close> that of \<open>as\<close>, and the splat target lowers to a tree \<open>lh\<close> that is not empty, the
  statement emitted for it (the one after the binding of the temporary \<open>t\<close> and the
  \<open>left\<close> statements of \<open>bs\<close>) is \<open>lh = t.slice(Range.new(left, -right, true))\<close> when
  \<open>right\<close> is not \<open>0\<close>, and \<open>lh = t.slice(Range.new(left, -1, false))\<close> when \<open>right\<close> is \<open>0\<close>:
  the exclusive flag is true exactly when \<open>right\<close> is not \<open>0\<close>.
\<close>

theorem C5_mlhs_splat:
  assumes "desugarMlhs ctx loc (bs @ Some (parser_SplatLhs sloc var) # as) rhs c = Inr (t, ctx', c')"
    and "\<forall>b \<in> set bs. cast_SplatLhs b = None"
  shows "\<exists>stats lh ctx1 c1 ctx2 c2.
           t = InsSeq loc stats (UnresolvedIdent loc UnresolvedIdent_Local (UNIQUE Desugar Names_assignTemp (c + 1)))
         \<and> node2TreeImpl ctx1 var c1 = Inr (lh, ctx2, c2)
         \<and> (lh = EmptyTree \<or>
              stats ! Suc (length bs) =
                Assign (loc_of lh) lh
                  (Send loc (UnresolvedIdent loc UnresolvedIdent_Local (UNIQUE Desugar Names_assignTemp (c + 1)))
                     Names_slice
                     [Send (loc_of lh) (Constant (loc_of lh) Symbols_Range) Names_new
                        [Literal (loc_of lh) (LitInteger (int (length bs))),
                         Literal (loc_of lh) (LitInteger (if as = [] then - 1 else - int (length as))),
                         Literal (loc_of lh) (if as = [] then LitFalse else LitTrue)]
                        0 None]
                     0 None))"
proof -
  let ?exprs = "bs @ Some (parser_SplatLhs sloc var) # as"
  let ?tn = "UNIQUE Desugar Names_assignTemp (c + 1)"
  let ?ctxa = "ctx\<lparr>freshNames := freshNames ctx @ [?tn]\<rparr>"
  let ?F = "mlhsStep loc ?tn ?exprs"
  from assms(1) obtain i before after didSplat stats where
    loop: "foldM ?F ?exprs (0, 0, 0, False, []) ?ctxa (c + 1) = Inr ((i, before, after, didSplat, stats), ctx', c')"
    and t: "t = InsSeq loc
                 (MK_AssignName loc ?tn
                    (MK_Send3 loc (MK_Constant loc Symbols_Magic) Names_expandSplat rhs
                       (MK_Int loc before) (MK_Int loc after)) # stats)
                 (UnresolvedIdent loc UnresolvedIdent_Local ?tn)"
    by (auto simp: desugarMlhs_loop freshName_def freshNameUnique_def bind_eq_Inr ret_def Let_def
          MK_InsSeq_def MK_Local_def split: prod.splits)
  from loop obtain st1 ctx1 c1 where
    pre: "foldM ?F bs (0, 0, 0, False, []) ?ctxa (c + 1) = Inr (st1, ctx1, c1)"
    and post: "foldM ?F (Some (parser_SplatLhs sloc var) # as) st1 ctx1 c1
                 = Inr ((i, before, after, didSplat, stats), ctx', c')"
    by (auto simp: foldM_append bind_eq_Inr)
  obtain i1 be1 af1 ds1 stats1 where st1: "st1 = (i1, be1, af1, ds1, stats1)"
    by (cases st1) auto
  from mlhs_loop_before_splat [OF pre [unfolded st1] assms(2)]
  have i1: "i1 = int (length bs)" and ds1: "ds1 = False" and len1: "length stats1 = length bs"
    by auto
  from post obtain st2 ctx2 c2 where
    splat: "?F st1 (Some (parser_SplatLhs sloc var)) ctx1 c1 = Inr (st2, ctx2, c2)"
    and suffix: "foldM ?F as st2 ctx2 c2 = Inr ((i, before, after, didSplat, stats), ctx', c')"
    by (auto simp: bind_eq_Inr)
  from splat obtain lh where
    lh: "node2TreeImpl ctx1 var c1 = Inr (lh, ctx2, c2)"
    and st2: "st2 = (snd (mlhsSplat loc ?tn i1 (int (length ?exprs)) lh), be1, af1, True,
                     stats1 @ fst (mlhsSplat loc ?tn i1 (int (length ?exprs)) lh))"
    by (auto simp: st1 ds1 mlhsStep_def cast_SplatLhs_def bind_eq_Inr ret_def Let_def)
  from mlhs_loop_appends [OF suffix] obtain extra where
    stats: "stats = stats1 @ fst (mlhsSplat loc ?tn i1 (int (length ?exprs)) lh) @ extra"
    by (auto simp: st2)
  have main: "lh = EmptyTree \<or>
        stats ! length bs =
          Assign (loc_of lh) lh
            (Send loc (UnresolvedIdent loc UnresolvedIdent_Local ?tn) Names_slice
               [Send (loc_of lh) (Constant (loc_of lh) Symbols_Range) Names_new
                  [Literal (loc_of lh) (LitInteger (int (length bs))),
                   Literal (loc_of lh) (LitInteger (if as = [] then - 1 else - int (length as))),
                   Literal (loc_of lh) (if as = [] then LitFalse else LitTrue)]
                  0 None]
               0 None)"
  proof (cases "lh = EmptyTree")
    case True
    then show ?thesis by simp
  next
    case False
    then have ne: "\<not> isa_EmptyTree lh" by (cases lh) (simp_all add: isa_EmptyTree_def)
    have "stats ! length bs = hd (fst (mlhsSplat loc ?tn i1 (int (length ?exprs)) lh))"
      using ne by (simp add: stats len1 [symmetric] nth_append mlhsSplat_def Let_def)
    then show ?thesis
      using ne by (simp add: mlhsSplat_def i1 Let_def MK_defs)
  qed
  let ?A = "Assign loc (UnresolvedIdent loc UnresolvedIdent_Local ?tn)
              (Send loc (Constant loc Symbols_Magic) Names_expandSplat
                 [rhs, Literal loc (LitInteger before), Literal loc (LitInteger after)] 0 None)"
  from t have t': "t = InsSeq loc (?A # stats) (UnresolvedIdent loc UnresolvedIdent_Local ?tn)"
    by (simp add: MK_defs)
  show ?thesis
    by (rule exI [of _ "?A # stats"], rule exI [of _ lh], rule exI [of _ ctx1], rule exI [of _ c1],
        rule exI [of _ ctx2], rule exI [of _ c2])
       (use t' lh main in simp)
qed

text \<open>
  The hypotheses hold of \<open>x, *y, z = expr\<close> (scenario 4 of the spec): \<open>left\<close> and \<open>right\<close>
  are both \<open>1\<close>, and the statement for \<open>y\<close> is \<open>y = t.slice(Range.new(1, -1, true))\<close>.
\<close>

theorem C5_mlhs_splat_witness:
  "desugarMlhs ctx0 (Loc 1 1)
     ([Some (parser_LVarLhs (Loc 1 1) (UTF8 ''x''))]
      @ Some (parser_SplatLhs (Loc 1 2) (Some (parser_LVarLhs (Loc 1 2) (UTF8 ''y''))))
      # [Some (parser_LVarLhs (Loc 1 3) (UTF8 ''z''))])
     (UnresolvedIdent (Loc 1 4) UnresolvedIdent_Local (UTF8 ''expr'')) 1
   = Inr (InsSeq (Loc 1 1)
            [Assign (Loc 1 1)
               (UnresolvedIdent (Loc 1 1) UnresolvedIdent_Local (UNIQUE Desugar Names_assignTemp 2))
               (Send (Loc 1 1) (Constant (Loc 1 1) Symbols_Magic) Names_expandSplat
                  [UnresolvedIdent (Loc 1 4) UnresolvedIdent_Local (UTF8 ''expr''),
                   Literal (Loc 1 1) (LitInteger 1), Literal (Loc 1 1) (LitInteger 1)] 0 None),
             Assign (Loc 1 1) (UnresolvedIdent (Loc 1 1) UnresolvedIdent_Local (UTF8 ''x''))
               (Send (Loc 1 1)
                  (UnresolvedIdent (Loc 1 1) UnresolvedIdent_Local (UNIQUE Desugar Names_assignTemp 2))
                  Names_squareBrackets [Literal (Loc 1 1) (LitInteger 0)] 0 None),
             Assign (Loc 1 2) (UnresolvedIdent (Loc 1 2) UnresolvedIdent_Local (UTF8 ''y''))
               (Send (Loc 1 1)
                  (UnresolvedIdent (Loc 1 1) UnresolvedIdent_Local (UNIQUE Desugar Names_assignTemp 2))
                  Names_slice
                  [Send (Loc 1 2) (Constant (Loc 1 2) Symbols_Range) Names_new
                     [Literal (Loc 1 2) (LitInteger 1), Literal (Loc 1 2) (LitInteger (- 1)),
                      Literal (Loc 1 2) LitTrue] 0 None] 0 None),
             Assign (Loc 1 3) (UnresolvedIdent (Loc 1 3) UnresolvedIdent_Local (UTF8 ''z''))
               (Send (Loc 1 1)
                  (UnresolvedIdent (Loc 1 1) UnresolvedIdent_Local (UNIQUE Desugar Names_assignTemp 2))
                  Names_squareBrackets [Literal (Loc 1 1) (LitInteger (- 1))] 0 None)]
            (UnresolvedIdent (Loc 1 1) UnresolvedIdent_Local (UNIQUE Desugar Names_assignTemp 2)),
          ctx0\<lparr>freshNames := [UNIQUE Desugar Names_assignTemp 2]\<rparr>, 2)
   \<and> cast_SplatLhs (Some (parser_LVarLhs (Loc 1 1) (UTF8 ''x''))) = None"
proof -
  have h1: "desugarMlhs ctx0 (Loc 1 1)
     ([Some (parser_LVarLhs (Loc 1 1) (UTF8 ''x''))]
      @ Some (parser_SplatLhs (Loc 1 2) (Some (parser_LVarLhs (Loc 1 2) (UTF8 ''y''))))
      # [Some (parser_LVarLhs (Loc 1 3) (UTF8 ''z''))])
     (UnresolvedIdent (Loc 1 4) UnresolvedIdent_Local (UTF8 ''expr'')) 1
   = Inr (InsSeq (Loc 1 1)
            [Assign (Loc 1 1)
               (UnresolvedIdent (Loc 1 1) UnresolvedIdent_Local (UNIQUE Desugar Names_assignTemp 2))
               (Send (Loc 1 1) (Constant (Loc 1 1) Symbols_Magic) Names_expandSplat
                  [UnresolvedIdent (Loc 1 4) UnresolvedIdent_Local (UTF8 ''expr''),
                   Literal (Loc 1 1) (LitInteger 1), Literal (Loc 1 1) (LitInteger 1)] 0 None),
             Assign (Loc 1 1) (UnresolvedIdent (Loc 1 1) UnresolvedIdent_Local (UTF8 ''x''))
               (Send (Loc 1 1)
                  (UnresolvedIdent (Loc 1 1) UnresolvedIdent_Local (UNIQUE Desugar Names_assignTemp 2))
                  Names_squareBrackets [Literal (Loc 1 1) (LitInteger 0)] 0 None),
             Assign (Loc 1 2) (UnresolvedIdent (Loc 1 2) UnresolvedIdent_Local (UTF8 ''y''))
               (Send (Loc 1 1)
                  (UnresolvedIdent (Loc 1 1) UnresolvedIdent_Local (UNIQUE Desugar Names_assignTemp 2))
                  Names_slice
                  [Send (Loc 1 2) (Constant (Loc 1 2) Symbols_Range) Names_new
                     [Literal (Loc 1 2) (LitInteger 1), Literal (Loc 1 2) (LitInteger (- 1)),
                      Literal (Loc 1 2) LitTrue] 0 None] 0 None),
             Assign (Loc 1 3) (UnresolvedIdent (Loc 1 3) UnresolvedIdent_Local (UTF8 ''z''))
               (Send (Loc 1 1)
                  (UnresolvedIdent (Loc 1 1) UnresolvedIdent_Local (UNIQUE Desugar Names_assignTemp 2))
                  Names_squareBrackets [Literal (Loc 1 1) (LitInteger (- 1))] 0 None)]
            (UnresolvedIdent (Loc 1 1) UnresolvedIdent_Local (UNIQUE Desugar Names_assignTemp 2)),
          ctx0\<lparr>freshNames := [UNIQUE Desugar Names_assignTemp 2]\<rparr>, 2)"
    by (simp add: desugarMlhs_loop mlhsStep_def mlhsSplat_def cast_SplatLhs_def cast_Mlhs_def
        node2TreeImpl_LVarLhs isa_EmptyTree_def loc_of_def ctx0_def eval_simps)
  have h2: "\<forall>b \<in> set [Some (parser_LVarLhs (Loc 1 1) (UTF8 ''x''))]. cast_SplatLhs b = None"
    by (simp add: cast_SplatLhs_def)
  from C5_mlhs_splat [OF h1 h2] h1 h2 show ?thesis by simp
qed

text \<open>
  The claim as stated fails when the splat comes last: in \<open>a, *b = x\<close> the count \<open>right\<close> is
  \<open>0\<close> and the statement for \<open>b\<close> is \<open>b = t.slice(Range.new(1, -1, false))\<close>, with the
  exclusive flag false, where the claim has \<open>Range.new(1, -0, true)\<close>.
\<close>

theorem C5_splat_last_counterexample:
  "node2TreeImpl ctx0
     (Some (parser_Masgn (Loc 1 1)
        (Some (parser_Mlhs (Loc 1 1)
           [Some (parser_LVarLhs (Loc 1 1) (UTF8 ''a'')),
            Some (parser_SplatLhs (Loc 1 2) (Some (parser_LVarLhs (Loc 1 2) (UTF8 ''b''))))]))
        (Some (parser_LVar (Loc 1 3) (UTF8 ''x''))))) 1
   = Inr (InsSeq (Loc 1 1)
            [Assign (Loc 1 1)
               (UnresolvedIdent (Loc 1 1) UnresolvedIdent_Local (UNIQUE Desugar Names_assignTemp 2))
               (Send (Loc 1 1) (Constant (Loc 1 1) Symbols_Magic) Names_expandSplat
                  [UnresolvedIdent (Loc 1 3) UnresolvedIdent_Local (UTF8 ''x''),
                   Literal (Loc 1 1) (LitInteger 1), Literal (Loc 1 1) (LitInteger 0)] 0 None),
             Assign (Loc 1 1) (UnresolvedIdent (Loc 1 1) UnresolvedIdent_Local (UTF8 ''a''))
               (Send (Loc 1 1)
                  (UnresolvedIdent (Loc 1 1) UnresolvedIdent_Local (UNIQUE Desugar Names_assignTemp 2))
                  Names_squareBrackets [Literal (Loc 1 1) (LitInteger 0)] 0 None),
             Assign (Loc 1 2) (UnresolvedIdent (Loc 1 2) UnresolvedIdent_Local (UTF8 ''b''))
               (Send (Loc 1 1)
                  (UnresolvedIdent (Loc 1 1) UnresolvedIdent_Local (UNIQUE Desugar Names_assignTemp 2))
                  Names_slice
                  [Send (Loc 1 2) (Constant (Loc 1 2) Symbols_Range) Names_new
                     [Literal (Loc 1 2) (LitInteger 1), Literal (Loc 1 2) (LitInteger (- 1)),
                      Literal (Loc 1 2) LitFalse] 0 None] 0 None)]
            (UnresolvedIdent (Loc 1 1) UnresolvedIdent_Local (UNIQUE Desugar Names_assignTemp 2)),
          ctx0\<lparr>freshNames := [UNIQUE Desugar Names_assignTemp 2]\<rparr>, 2)
   \<and> Literal (Loc 1 2) LitFalse \<noteq> Literal (Loc 1 2) LitTrue"
  by (simp add: node2TreeImpl_Masgn node2TreeImpl_LVar desugarMlhs_loop mlhsStep_def mlhsSplat_def
      cast_SplatLhs_def cast_Mlhs_def node2TreeImpl_LVarLhs isa_EmptyTree_def loc_of_def ctx0_def
      eval_simps)

section \<open>One counter per scope (C2)\<close>

text \<open>
  A parse tree with no construct that starts a counter of its own: no method definition
  (\<open>DefMethod\<close>, \<open>DefS\<close>) and no class, module or singleton-class body.
\<close>

definition obool :: "bool option \<Rightarrow> bool" where
  "obool x = (case x of None \<Rightarrow> True | Some b \<Rightarrow> b)"

definition lbool :: "bool option list \<Rightarrow> bool" where
  "lbool xs = list_all obool xs"

primrec noScope :: "Node \<Rightarrow> bool" where
  "noScope (parser_Send loc x1 x2 x3) = (obool (map_option noScope x1) \<and> lbool (map (map_option noScope) x3))"
| "noScope (parser_Const loc x1 x2) = (obool (map_option noScope x1))"
| "noScope (parser_String loc x1) = True"
| "noScope (parser_Symbol loc x1) = True"
| "noScope (parser_LVar loc x1) = True"
| "noScope (parser_DString loc x1) = (lbool (map (map_option noScope) x1))"
| "noScope (parser_Begin loc x1) = (lbool (map (map_option noScope) x1))"
| "noScope (parser_And loc x1 x2) = (obool (map_option noScope x1) \<and> obool (map_option noScope x2))"
| "noScope (parser_Or loc x1 x2) = (obool (map_option noScope x1) \<and> obool (map_option noScope x2))"
| "noScope (parser_AndAsgn loc x1 x2) = (obool (map_option noScope x1) \<and> obool (map_option noScope x2))"
| "noScope (parser_OrAsgn loc x1 x2) = (obool (map_option noScope x1) \<and> obool (map_option noScope x2))"
| "noScope (parser_OpAsgn loc x1 x2 x3) = (obool (map_option noScope x1) \<and> obool (map_option noScope x3))"
| "noScope (parser_CSend loc x1 x2 x3) = (obool (map_option noScope x1) \<and> lbool (map (map_option noScope) x3))"
| "noScope (parser_Self loc) = True"
| "noScope (parser_DSymbol loc x1) = (lbool (map (map_option noScope) x1))"
| "noScope (parser_FileLiteral loc) = True"
| "noScope (parser_ConstLhs loc x1 x2) = (obool (map_option noScope x1))"
| "noScope (parser_Cbase loc) = True"
| "noScope (parser_Kwbegin loc x1) = (lbool (map (map_option noScope) x1))"
| "noScope (parser_Module loc x1 x2 x3) = False"
| "noScope (parser_Class loc x1 x2 x3 x4) = False"
| "noScope (parser_Arg loc x1) = True"
| "noScope (parser_Restarg loc x1) = True"
| "noScope (parser_Kwrestarg loc x1) = True"
| "noScope (parser_Kwarg loc x1) = True"
| "noScope (parser_Blockarg loc x1) = True"
| "noScope (parser_Kwoptarg loc x1 x2) = (obool (map_option noScope x2))"
| "noScope (parser_Optarg loc x1 x2) = (obool (map_option noScope x2))"
| "noScope (parser_Shadowarg loc x1) = True"
| "noScope (parser_DefMethod loc x1 x2 x3 x4) = False"
| "noScope (parser_DefS loc x1 x2 x3 x4 x5) = False"
| "noScope (parser_SClass loc x1 x2 x3) = False"
| "noScope (parser_Block loc x1 x2 x3) = (obool (map_option noScope x1) \<and> obool (map_option noScope x2) \<and> obool (map_option noScope x3))"
| "noScope (parser_While loc x1 x2) = (obool (map_option noScope x1) \<and> obool (map_option noScope x2))"
| "noScope (parser_WhilePost loc x1 x2) = (obool (map_option noScope x1) \<and> obool (map_option noScope x2))"
| "noScope (parser_Until loc x1 x2) = (obool (map_option noScope x1) \<and> obool (map_option noScope x2))"
| "noScope (parser_UntilPost loc x1 x2) = (obool (map_option noScope x1) \<and> obool (map_option noScope x2))"
| "noScope (parser_Nil loc) = True"
| "noScope (parser_IVar loc x1) = True"
| "noScope (parser_GVar loc x1) = True"
| "noScope (parser_CVar loc x1) = True"
| "noScope (parser_LVarLhs loc x1) = True"
| "noScope (parser_GVarLhs loc x1) = True"
| "noScope (parser_CVarLhs loc x1) = True"
| "noScope (parser_IVarLhs loc x1) = True"
| "noScope (parser_NthRef loc x1) = True"
| "noScope (parser_Assign loc x1 x2) = (obool (map_option noScope x1) \<and> obool (map_option noScope x2))"
| "noScope (parser_Super loc x1) = (lbool (map (map_option noScope) x1))"
| "noScope (parser_ZSuper loc) = True"
| "noScope (parser_For loc x1 x2 x3) = (obool (map_option noScope x1) \<and> obool (map_option noScope x2) \<and> obool (map_option noScope x3))"
| "noScope (parser_Integer loc x1) = True"
| "noScope (parser_Float loc x1) = True"
| "noScope (parser_Complex loc x1) = True"
| "noScope (parser_Rational loc x1) = True"
| "noScope (parser_Array loc x1) = (lbool (map (map_option noScope) x1))"
| "noScope (parser_Hash loc x1) = (lbool (map (map_option noScope) x1))"
| "noScope (parser_Pair loc x1 x2) = (obool (map_option noScope x1) \<and> obool (map_option noScope x2))"
| "noScope (parser_Kwsplat loc x1) = (obool (map_option noScope x1))"
| "noScope (parser_IRange loc x1 x2) = (obool (map_option noScope x1) \<and> obool (map_option noScope x2))"
| "noScope (parser_ERange loc x1 x2) = (obool (map_option noScope x1) \<and> obool (map_option noScope x2))"
| "noScope (parser_Regexp loc x1 x2) = (lbool (map (map_option noScope) x1) \<and> obool (map_option noScope x2))"
| "noScope (parser_Regopt loc x1) = True"
| "noScope (parser_Return loc x1) = (lbool (map (map_option noScope) x1))"
| "noScope (parser_Break loc x1) = (lbool (map (map_option noScope) x1))"
| "noScope (parser_Next loc x1) = (lbool (map (map_option noScope) x1))"
| "noScope (parser_Retry loc) = True"
| "noScope (parser_Yield loc x1) = (lbool (map (map_option noScope) x1))"
| "noScope (parser_Rescue loc x1 x2 x3) = (obool (map_option noScope x1) \<and> lbool (map (map_option noScope) x2) \<and> obool (map_option noScope x3))"
| "noScope (parser_Resbody loc x1 x2 x3) = (obool (map_option noScope x1) \<and> obool (map_option noScope x2) \<and> obool (map_option noScope x3))"
| "noScope (parser_Ensure loc x1 x2) = (obool (map_option noScope x1) \<and> obool (map_option noScope x2))"
| "noScope (parser_If loc x1 x2 x3) = (obool (map_option noScope x1) \<and> obool (map_option noScope x2) \<and> obool (map_option noScope x3))"
| "noScope (parser_Masgn loc x1 x2) = (obool (map_option noScope x1) \<and> obool (map_option noScope x2))"
| "noScope (parser_Mlhs loc x1) = (lbool (map (map_option noScope) x1))"
| "noScope (parser_SplatLhs loc x1) = (obool (map_option noScope x1))"
| "noScope (parser_True loc) = True"
| "noScope (parser_False loc) = True"
| "noScope (parser_Case loc x1 x2 x3) = (obool (map_option noScope x1) \<and> lbool (map (map_option noScope) x2) \<and> obool (map_option noScope x3))"
| "noScope (parser_When loc x1 x2) = (lbool (map (map_option noScope) x1) \<and> obool (map_option noScope x2))"
| "noScope (parser_Splat loc x1) = (obool (map_option noScope x1))"
| "noScope (parser_Alias loc x1 x2) = (obool (map_option noScope x1) \<and> obool (map_option noScope x2))"
| "noScope (parser_Defined loc x1) = (obool (map_option noScope x1))"
| "noScope (parser_LineLiteral loc) = True"
| "noScope (parser_XString loc x1) = (lbool (map (map_option noScope) x1))"
| "noScope (parser_Preexe loc) = True"
| "noScope (parser_Postexe loc) = True"
| "noScope (parser_Undef loc) = True"
| "noScope (parser_Backref loc) = True"
| "noScope (parser_EFlipflop loc) = True"
| "noScope (parser_IFlipflop loc) = True"
| "noScope (parser_MatchCurLine loc) = True"
| "noScope (parser_Redo loc) = True"
| "noScope (parser_BlockPass loc x1) = (obool (map_option noScope x1))"
| "noScope (parser_Args loc x1) = (lbool (map (map_option noScope) x1))"
| "noScope (parser_Other loc x1) = True"

definition noScopeO :: "Node option \<Rightarrow> bool" where
  "noScopeO x = obool (map_option noScope x)"

definition noScopeV :: "Node option list \<Rightarrow> bool" where
  "noScopeV xs = lbool (map (map_option noScope) xs)"

lemma obool_simps [simp]: "obool None = True" "obool (Some b) = b"
  by (simp_all add: obool_def)

lemma lbool_simps [simp]: "lbool [] = True" "lbool (x # xs) = (obool x \<and> lbool xs)"
  by (simp_all add: lbool_def)

lemma noScopeO_simps [simp]: "noScopeO None = True" "noScopeO (Some n) = noScope n"
  by (simp_all add: noScopeO_def)

lemma noScopeV_simps [simp]: "noScopeV [] = True" "noScopeV (x # xs) = (noScopeO x \<and> noScopeV xs)"
  by (simp_all add: noScopeV_def noScopeO_def)

lemma noScope_fold [simp]:
  "obool (map_option noScope x) = noScopeO x" "lbool (map (map_option noScope) xs) = noScopeV xs"
  by (simp_all add: noScopeO_def noScopeV_def)

lemma noScopeV_all: "noScopeV xs = (\<forall>x \<in> set xs. noScopeO x)"
  by (induction xs) auto

lemma noScopeV_mem: "noScopeV xs \<Longrightarrow> x \<in> set xs \<Longrightarrow> noScopeO x"
  by (simp add: noScopeV_all)

lemma noScopeV_butlast: "noScopeV xs \<Longrightarrow> x \<in> set (butlast xs) \<Longrightarrow> noScopeO x"
  by (auto simp: noScopeV_all dest: in_set_butlastD)

lemma noScopeV_last: "noScopeV xs \<Longrightarrow> xs \<noteq> [] \<Longrightarrow> noScopeO (last xs)"
  by (simp add: noScopeV_all)

lemma noScopeV_hd: "noScopeV xs \<Longrightarrow> xs \<noteq> [] \<Longrightarrow> noScopeO (hd xs)"
  by (simp add: noScopeV_all)

lemma noScopeV_rev [simp]: "noScopeV (rev xs) = noScopeV xs"
  by (simp add: noScopeV_all)

lemma cast_Splat_noScope: "cast_Splat x = Some var \<Longrightarrow> noScopeO x \<Longrightarrow> noScopeO var"
  by (cases x; simp add: cast_Splat_def split: Node.splits)

lemma cast_BlockPass_noScope: "cast_BlockPass x = Some block \<Longrightarrow> noScopeO x \<Longrightarrow> noScopeO block"
  by (cases x; simp add: cast_BlockPass_def split: Node.splits)

lemma cast_SplatLhs_noScope: "cast_SplatLhs x = Some var \<Longrightarrow> noScopeO x \<Longrightarrow> noScopeO var"
  by (cases x; simp add: cast_SplatLhs_def split: Node.splits)

lemma cast_Mlhs_noScope: "cast_Mlhs x = Some m \<Longrightarrow> noScopeO x \<Longrightarrow> noScopeV (snd m)"
  by (cases x; auto simp: cast_Mlhs_def split: Node.splits)

lemma cast_Args_noScope: "cast_Args x = Some args \<Longrightarrow> noScopeO x \<Longrightarrow> noScopeV args"
  by (cases x; simp add: cast_Args_def split: Node.splits)

lemma cast_Pair_noScope:
  "cast_Pair x = Some p \<Longrightarrow> noScopeO x \<Longrightarrow> noScopeO (fst p) \<and> noScopeO (snd p)"
  by (cases x; auto simp: cast_Pair_def split: Node.splits)

lemma cast_Kwsplat_noScope: "cast_Kwsplat x = Some expr \<Longrightarrow> noScopeO x \<Longrightarrow> noScopeO expr"
  by (cases x; simp add: cast_Kwsplat_def split: Node.splits)

lemma cast_When_noScope:
  "cast_When x = Some w \<Longrightarrow> noScopeO x \<Longrightarrow> noScopeV (fst (snd w)) \<and> noScopeO (snd (snd w))"
  by (cases x; auto simp: cast_When_def split: Node.splits)

lemma isa_Mlhs_noScope: "noScopeO x \<Longrightarrow> noScopeO (if \<not> isa_Mlhs x then Some (parser_Mlhs loc [x]) else x)"
  by simp

lemma extractBlockPass_noScope:
  "noScopeV xs \<Longrightarrow> noScopeO (fst (extractBlockPass xs)) \<and> noScopeV (snd (extractBlockPass xs))"
  by (induction xs) (auto split: option.splits dest: cast_BlockPass_noScope)

lemma send_args_block_noScope:
  assumes "foldM (\<lambda>acc stat ctx uniqueCounter.
                   case cast_BlockPass stat of
                     Some bp_block \<Rightarrow>
                       (case snd acc of
                          Some b \<Rightarrow> raise msg ctx
                        | None \<Rightarrow> ret (fst acc, bp_block) ctx uniqueCounter)
                   | None \<Rightarrow>
                       bind (lower ctx stat uniqueCounter) (\<lambda>a ctx uniqueCounter.
                       ret (fst acc @ [a], snd acc) ctx uniqueCounter))
                args ([], None) ctx c = Inr (acc, ctx', c')"
    and "noScopeV args"
  shows "noScopeO (snd acc)"
  using assms(1)
  by (rule foldM_invariant [where I = "\<lambda>acc. noScopeO (snd acc)"])
     (use assms(2) in \<open>auto simp: bind_def ret_def raise_def split: option.splits sum.splits
           dest: cast_BlockPass_noScope noScopeV_mem\<close>)

text \<open>
  The number a unique name carries, and what it means for a call to draw its names from
  the counter it was handed: the names it enters are numbered \<open>c + 1\<close>, \<open>c + 2\<close>, ... in
  the order of the calls, and the counter it hands back has advanced by their number.
\<close>

definition uniqueNum :: "NameRef \<Rightarrow> u2" where
  "uniqueNum n = (case n of UNIQUE kind original num \<Rightarrow> num | _ \<Rightarrow> 0)"

definition numbered :: "u2 \<Rightarrow> NameRef list \<Rightarrow> bool" where
  "numbered c new = (map uniqueNum new = map (\<lambda>i. c + 1 + of_nat i) [0..<length new])"

definition counted :: "MutableContext \<Rightarrow> u2 \<Rightarrow> 'a result \<Rightarrow> bool" where
  "counted ctx c r =
     (case r of
        Inl e \<Rightarrow> True
      | Inr (x, ctx', c') \<Rightarrow>
          (\<exists>new. freshNames ctx' = freshNames ctx @ new \<and> numbered c new
                 \<and> c' = c + of_nat (length new)))"

lemma numbered_Nil [simp]: "numbered c []"
  by (simp add: numbered_def)

lemma numbered_append:
  assumes "numbered c xs" and "numbered (c + of_nat (length xs)) ys"
  shows "numbered c (xs @ ys)"
proof -
  have "[0..<length xs + length ys] = [0..<length xs] @ map (\<lambda>i. length xs + i) [0..<length ys]"
    by (induction ys rule: rev_induct) (simp_all add: add.assoc [symmetric])
  with assms show ?thesis
    by (simp add: numbered_def o_def add.assoc add.left_commute)
qed

lemma counted_Inl [simp]: "counted ctx c (Inl e)"
  by (simp add: counted_def)

lemma counted_ret [simp]: "counted ctx c (ret x ctx c)"
  by (simp add: counted_def ret_def)

lemma counted_ret_error [simp]: "counted ctx c (ret x (beginError ctx loc what) c)"
  by (simp add: counted_def ret_def beginError_def)

lemma counted_raise [simp]: "counted ctx c (raise msg ctx')" "counted ctx c (nullPointer ctx')"
  by (simp_all add: raise_def nullPointer_def)

lemma counted_bind:
  assumes "counted ctx c r"
    and "\<And>x ctx1 c1. r = Inr (x, ctx1, c1) \<Longrightarrow> counted ctx1 c1 (f x ctx1 c1)"
  shows "counted ctx c (bind r f)"
proof (cases r)
  case (Inl e)
  then show ?thesis by simp
next
  case (Inr v)
  obtain x ctx1 c1 where v: "v = (x, ctx1, c1)" by (cases v) auto
  from assms(1) Inr v obtain new1 where
    n1: "freshNames ctx1 = freshNames ctx @ new1" "numbered c new1" "c1 = c + of_nat (length new1)"
    by (auto simp: counted_def)
  from assms(2) [OF Inr [unfolded v]] have step: "counted ctx1 c1 (f x ctx1 c1)" .
  show ?thesis
  proof (cases "f x ctx1 c1")
    case (Inl e)
    with Inr v show ?thesis by simp
  next
    case (Inr w)
    obtain y ctx2 c2 where w: "w = (y, ctx2, c2)" by (cases w) auto
    from step Inr w obtain new2 where
      n2: "freshNames ctx2 = freshNames ctx1 @ new2" "numbered c1 new2" "c2 = c1 + of_nat (length new2)"
      by (auto simp: counted_def)
    have "numbered c (new1 @ new2)" using n1 n2 by (auto intro: numbered_append)
    with n1 n2 have "counted ctx c (Inr (y, ctx2, c2))"
      by (auto simp: counted_def add.assoc intro!: exI [of _ "new1 @ new2"])
    with \<open>r = Inr v\<close> v Inr w show ?thesis by simp
  qed
qed

lemma counted_catch: "counted ctx c r \<Longrightarrow> counted ctx c (catchSorbetException loc r)"
  by (auto simp: counted_def catchSorbetException_def split: sum.splits prod.splits Failure.splits)

lemma counted_freshName [simp]: "counted ctx c (freshName ctx original c)"
  by (simp add: counted_def freshName_def freshNameUnique_def ret_def numbered_def uniqueNum_def
      Let_def)

lemma counted_foldM:
  assumes "\<And>s x ctx c. x \<in> set xs \<Longrightarrow> counted ctx c (f s x ctx c)"
  shows "counted ctx c (foldM f xs s ctx c)"
  using assms
proof (induction xs arbitrary: s ctx c)
  case Nil
  show ?case by simp
next
  case (Cons x xs)
  have step: "counted ctx c (f s x ctx c)"
    by (rule Cons.prems) simp
  have rest: "counted ctx1 c1 (foldM f xs s1 ctx1 c1)" for s1 ctx1 c1
    by (rule Cons.IH) (simp add: Cons.prems)
  show ?case
    by (simp, rule counted_bind) (use step rest in auto)
qed

lemma counted_mapM:
  assumes "\<And>x ctx c. x \<in> set xs \<Longrightarrow> counted ctx c (f x ctx c)"
  shows "counted ctx c (mapM f xs ctx c)"
  unfolding mapM_def by (rule counted_foldM) (auto intro!: counted_bind assms)

text \<open>The parts of the clauses that do not recurse draw their names from the counter.\<close>

lemma counted_bindArgs: "counted ctx c (bindArgs ctx s_fun s_args c)"
  unfolding bindArgs_def by (rule counted_foldM) (auto simp: Let_def intro!: counted_bind)

lemma counted_andAsgn: "counted ctx c (andAsgn ctx loc recv arg c)"
  by (auto simp: andAsgn_def Let_def intro!: counted_bind counted_bindArgs
      split: option.splits prod.splits)

lemma counted_orAsgn: "counted ctx c (orAsgn ctx loc recv arg c)"
  by (auto simp: orAsgn_def Let_def intro!: counted_bind counted_bindArgs
      split: option.splits prod.splits)

lemma counted_opAsgn: "counted ctx c (opAsgn ctx loc op recv rhs c)"
  by (auto simp: opAsgn_def Let_def intro!: counted_bind counted_bindArgs
      split: option.splits prod.splits)

lemma counted_resbodyExceptions: "counted ctx c (resbodyExceptions e ctx c)"
  by (auto simp: resbodyExceptions_def split: option.splits prod.splits)

lemma counted_resbody: "counted ctx c (resbody ctx loc exceptions varExpr0 body c)"
  by (auto simp: resbody_def Let_def intro!: counted_bind)

lemma counted_findBlockSend: "counted ctx c (findBlockSend recv ctx c)"
  by (auto simp: findBlockSend_def split: option.splits Expression.splits)

lemma counted_unsupportedNode: "counted ctx c (unsupportedNode ctx node c)"
  by (simp add: unsupportedNode_def)

lemma counted_unimplementedNode: "counted ctx c (unimplementedNode ctx')"
  by (simp add: unimplementedNode_def)

text \<open>
  The loops, over a list of nodes that start no scope; the step is handed what the
  termination measure needs of the element.
\<close>

lemma counted_foldM_sized:
  assumes "noScopeV xs"
    and "\<And>s x ctx c. noScopeO x \<Longrightarrow> osize x \<le> vsize xs \<Longrightarrow> counted ctx c (f s x ctx c)"
  shows "counted ctx c (foldM f xs s ctx c)"
proof (rule counted_foldM)
  fix s x ctx c
  assume "x \<in> set xs"
  with assms(1) have "noScopeO x" "osize x \<le> vsize xs"
    by (auto dest: noScopeV_mem osize_le_vsize)
  then show "counted ctx c (f s x ctx c)" by (rule assms(2))
qed

lemma counted_mapM_sized:
  assumes "noScopeV xs"
    and "\<And>x ctx c. noScopeO x \<Longrightarrow> osize x \<le> vsize xs \<Longrightarrow> counted ctx c (f x ctx c)"
  shows "counted ctx c (mapM f xs ctx c)"
proof (rule counted_mapM)
  fix x ctx c
  assume "x \<in> set xs"
  with assms(1) have "noScopeO x" "osize x \<le> vsize xs"
    by (auto dest: noScopeV_mem osize_le_vsize)
  then show "counted ctx c (f x ctx c)" by (rule assms(2))
qed

lemma ret_eq_Inr [simp]: "ret x ctx c = Inr (y, ctx', c') \<longleftrightarrow> y = x \<and> ctx' = ctx \<and> c' = c"
  by (auto simp: ret_def)

lemma vsize_butlast [simp]: "vsize (butlast xs) = vsize xs - osize (last xs)"
  by (induction xs) (auto dest: last_size)

lemma noScopeV_butlast_simp [simp]: "noScopeV xs \<Longrightarrow> noScopeV (butlast xs)"
  by (auto simp: noScopeV_all dest: in_set_butlastD)

lemma last_facts: "xs \<noteq> [] \<Longrightarrow> osize (last xs) \<le> vsize xs \<and> (noScopeV xs \<longrightarrow> noScopeO (last xs))"
  by (simp add: last_size noScopeV_last)

lemma hd_facts:
  "length xs = Suc 0 \<Longrightarrow> osize (hd xs) \<le> vsize xs \<and> (noScopeV xs \<longrightarrow> noScopeO (hd xs))"
  by (cases xs) auto

lemma send_args_block_facts:
  assumes "foldM (\<lambda>acc stat ctx uniqueCounter.
                   case cast_BlockPass stat of
                     Some bp_block \<Rightarrow>
                       (case snd acc of
                          Some b \<Rightarrow> raise msg ctx
                        | None \<Rightarrow> ret (fst acc, bp_block) ctx uniqueCounter)
                   | None \<Rightarrow>
                       bind (lower ctx stat uniqueCounter) (\<lambda>a ctx uniqueCounter.
                       ret (fst acc @ [a], snd acc) ctx uniqueCounter))
                args ([], None) ctx c = Inr (acc, ctx', c')"
  shows "osize (snd acc) \<le> vsize args \<and> (noScopeV args \<longrightarrow> noScopeO (snd acc))"
  using assms by (auto dest: send_args_block_size send_args_block_noScope)

lemma extractBlockPass_noScope_simp [simp]:
  "noScopeV xs \<Longrightarrow> noScopeO (fst (extractBlockPass xs))"
  "noScopeV xs \<Longrightarrow> noScopeV (snd (extractBlockPass xs))"
  by (simp_all add: extractBlockPass_noScope)

lemmas counted_intros = counted_bind counted_catch counted_foldM_sized counted_mapM_sized
  counted_bindArgs counted_andAsgn counted_orAsgn counted_opAsgn counted_resbodyExceptions
  counted_resbody counted_findBlockSend counted_unsupportedNode counted_unimplementedNode

lemmas measure_dests = last_facts hd_facts extractBlockPass_sizes send_args_block_facts

text \<open>A cast that succeeds tells what the node is.\<close>

lemma cast_Splat_iff: "cast_Splat x = Some v \<longleftrightarrow> (\<exists>l. x = Some (parser_Splat l v))"
  by (cases x; simp add: cast_Splat_def split: Node.splits)

lemma cast_BlockPass_iff: "cast_BlockPass x = Some v \<longleftrightarrow> (\<exists>l. x = Some (parser_BlockPass l v))"
  by (cases x; simp add: cast_BlockPass_def split: Node.splits)

lemma cast_SplatLhs_iff: "cast_SplatLhs x = Some v \<longleftrightarrow> (\<exists>l. x = Some (parser_SplatLhs l v))"
  by (cases x; simp add: cast_SplatLhs_def split: Node.splits)

lemma cast_Mlhs_iff: "cast_Mlhs x = Some m \<longleftrightarrow> x = Some (parser_Mlhs (fst m) (snd m))"
  by (cases x; cases m; auto simp: cast_Mlhs_def split: Node.splits)

lemma cast_Args_iff: "cast_Args x = Some v \<longleftrightarrow> (\<exists>l. x = Some (parser_Args l v))"
  by (cases x; simp add: cast_Args_def split: Node.splits)

lemma cast_Pair_iff: "cast_Pair x = Some p \<longleftrightarrow> (\<exists>l. x = Some (parser_Pair l (fst p) (snd p)))"
  by (cases x; cases p; auto simp: cast_Pair_def split: Node.splits)

lemma cast_Kwsplat_iff: "cast_Kwsplat x = Some v \<longleftrightarrow> (\<exists>l. x = Some (parser_Kwsplat l v))"
  by (cases x; simp add: cast_Kwsplat_def split: Node.splits)

lemma cast_When_iff:
  "cast_When x = Some w \<longleftrightarrow> x = Some (parser_When (fst w) (fst (snd w)) (snd (snd w)))"
  by (cases x; cases w; auto simp: cast_When_def split: Node.splits)

lemmas cast_iffs = cast_Splat_iff cast_BlockPass_iff cast_SplatLhs_iff cast_Mlhs_iff cast_Args_iff
  cast_Pair_iff cast_Kwsplat_iff cast_When_iff

text \<open>
  Every call whose termination measure is below \<open>n\<close> and whose parse tree starts no scope
  draws its names from the counter it was handed.
\<close>

definition countedBelow :: "nat \<Rightarrow> bool" where
  "countedBelow n \<longleftrightarrow>
     (\<forall>ctx what c. 3 * osize what < n \<longrightarrow> noScopeO what \<longrightarrow>
        counted ctx c (node2TreeImpl ctx what c)) \<and>
     (\<forall>ctx loc argnode bodynode c. 3 * (osize argnode + osize bodynode) + 1 < n \<longrightarrow>
        noScopeO argnode \<longrightarrow> noScopeO bodynode \<longrightarrow>
        counted ctx c (desugarArgsAndBody ctx loc argnode bodynode c)) \<and>
     (\<forall>ctx loc nodes c. 3 * vsize nodes + 1 < n \<longrightarrow> noScopeV nodes \<longrightarrow>
        counted ctx c (desugarDString ctx loc nodes c)) \<and>
     (\<forall>ctx loc declLoc name argnode body c. 3 * (osize argnode + osize body) + 2 < n \<longrightarrow>
        noScopeO argnode \<longrightarrow> noScopeO body \<longrightarrow>
        counted ctx c (buildMethod ctx loc declLoc name argnode body c)) \<and>
     (\<forall>ctx node c. 3 * osize node + 1 < n \<longrightarrow> noScopeO node \<longrightarrow>
        counted ctx c (node2Proc ctx node c)) \<and>
     (\<forall>ctx loc exprs rhs c. 3 * vsize exprs + 1 < n \<longrightarrow> noScopeV exprs \<longrightarrow>
        counted ctx c (desugarMlhs ctx loc exprs rhs c))"

lemma countedBelowD:
  assumes "countedBelow n"
  shows "3 * osize what < n \<Longrightarrow> noScopeO what \<Longrightarrow> counted ctx c (node2TreeImpl ctx what c)"
    and "3 * (osize argnode + osize bodynode) + 1 < n \<Longrightarrow> noScopeO argnode \<Longrightarrow> noScopeO bodynode
         \<Longrightarrow> counted ctx c (desugarArgsAndBody ctx loc argnode bodynode c)"
    and "3 * vsize nodes + 1 < n \<Longrightarrow> noScopeV nodes \<Longrightarrow> counted ctx c (desugarDString ctx loc nodes c)"
    and "3 * (osize argnode + osize body) + 2 < n \<Longrightarrow> noScopeO argnode \<Longrightarrow> noScopeO body
         \<Longrightarrow> counted ctx c (buildMethod ctx loc declLoc name argnode body c)"
    and "3 * osize node + 1 < n \<Longrightarrow> noScopeO node \<Longrightarrow> counted ctx c (node2Proc ctx node c)"
    and "3 * vsize exprs + 1 < n \<Longrightarrow> noScopeV exprs \<Longrightarrow> counted ctx c (desugarMlhs ctx loc exprs rhs c)"
  using assms by (simp_all add: countedBelow_def)

lemma node2TreeImpl_step:
  assumes "countedBelow n" and "3 * osize what < Suc n" and "noScopeO what"
  shows "counted ctx c (node2TreeImpl ctx what c)"
proof (cases what)
  case None
  then show ?thesis by (subst node2TreeImpl.simps) simp
next
  case (Some node)
  note IH = countedBelowD [OF assms(1)]
  show ?thesis
    using assms(2,3) unfolding Some
    apply (subst node2TreeImpl.simps)
    apply (cases node;
        auto simp: Let_def cast_iffs unimplementedNode_def intro!: counted_intros IH dest!: measure_dests
          split: option.split list.split prod.split StolResult.split StodResult.split)
    done
qed

lemma desugarArgsAndBody_step:
  assumes "countedBelow n" and "3 * (osize argnode + osize bodynode) + 1 < Suc n"
    and "noScopeO argnode" and "noScopeO bodynode"
  shows "counted ctx c (desugarArgsAndBody ctx loc argnode bodynode c)"
proof -
  note IH = countedBelowD [OF assms(1)]
  show ?thesis
    using assms(2-)
    by (subst desugarArgsAndBody.simps)
       (auto simp: Let_def cast_iffs intro!: counted_intros IH split: option.split)
qed

lemma desugarDString_step:
  assumes "countedBelow n" and "3 * vsize nodes + 1 < Suc n" and "noScopeV nodes"
  shows "counted ctx c (desugarDString ctx loc nodes c)"
proof -
  note IH = countedBelowD [OF assms(1)]
  show ?thesis
    using assms(2-)
    by (subst desugarDString.simps)
       (auto simp: Let_def intro!: counted_intros IH split: list.split)
qed

lemma buildMethod_step:
  assumes "countedBelow n" and "3 * (osize argnode + osize body) + 2 < Suc n"
    and "noScopeO argnode" and "noScopeO body"
  shows "counted ctx c (buildMethod ctx loc declLoc name argnode body c)"
proof -
  note IH = countedBelowD [OF assms(1)]
  show ?thesis
    using assms(2-)
    by (subst buildMethod.simps) (auto intro!: counted_intros IH)
qed

lemma node2Proc_step:
  assumes "countedBelow n" and "3 * osize node + 1 < Suc n" and "noScopeO node"
  shows "counted ctx c (node2Proc ctx node c)"
proof -
  note IH = countedBelowD [OF assms(1)]
  show ?thesis
    using assms(2-)
    by (subst node2Proc.simps) (auto simp: Let_def intro!: counted_intros IH split: option.split)
qed

lemma desugarMlhs_step:
  assumes "countedBelow n" and "3 * vsize exprs + 1 < Suc n" and "noScopeV exprs"
  shows "counted ctx c (desugarMlhs ctx loc exprs rhs c)"
proof -
  note IH = countedBelowD [OF assms(1)]
  show ?thesis
    using assms(2-)
    by (subst desugarMlhs.simps)
       (auto simp: Let_def cast_iffs intro!: counted_intros IH split: option.split prod.split)
qed

lemma countedBelow_all: "countedBelow n"
proof (induction n)
  case 0
  show ?case by (simp add: countedBelow_def)
next
  case (Suc n)
  show ?case
    unfolding countedBelow_def
    apply (intro conjI allI impI)
         apply (rule node2TreeImpl_step [OF Suc]; assumption)
        apply (rule desugarArgsAndBody_step [OF Suc]; assumption)
       apply (rule desugarDString_step [OF Suc]; assumption)
      apply (rule buildMethod_step [OF Suc]; assumption)
     apply (rule node2Proc_step [OF Suc]; assumption)
    apply (rule desugarMlhs_step [OF Suc]; assumption)
    done
qed

lemma counted_node2TreeImpl: "noScopeO what \<Longrightarrow> counted ctx c (node2TreeImpl ctx what c)"
  by (rule countedBelowD(1) [OF countedBelow_all [of "Suc (3 * osize what)"]]) simp_all

lemma counted_buildMethod:
  "noScopeO argnode \<Longrightarrow> noScopeO body
   \<Longrightarrow> counted ctx c (buildMethod ctx loc declLoc name argnode body c)"
  by (rule countedBelowD(4) [OF countedBelow_all [of "Suc (3 * (osize argnode + osize body) + 2)"]])
     simp_all

text \<open>Fewer than \<open>2^16\<close> consecutive numbers of a \<open>u2\<close> are pairwise distinct.\<close>

lemma numbered_distinct:
  assumes "numbered c new" and "length new \<le> 2 ^ 16"
  shows "distinct new"
proof -
  have "inj_on (\<lambda>i. c + 1 + (word_of_nat i :: u2)) {0..<length new}"
  proof (rule inj_onI)
    fix i j
    assume i: "i \<in> {0..<length new}" and j: "j \<in> {0..<length new}"
      and eq: "c + 1 + (word_of_nat i :: u2) = c + 1 + word_of_nat j"
    from eq have "(word_of_nat i :: u2) = word_of_nat j" by simp
    then have "i mod 2 ^ 16 = j mod 2 ^ 16"
      by (simp add: word_of_nat_eq_iff take_bit_eq_mod)
    with i j assms(2) show "i = j" by simp
  qed
  then have "distinct (map (\<lambda>i. c + 1 + (word_of_nat i :: u2)) [0..<length new])"
    by (simp add: distinct_map)
  with assms(1) have "distinct (map uniqueNum new)"
    by (simp add: numbered_def)
  then show ?thesis by (simp add: distinct_map)
qed

subsection \<open>Scopes\<close>

text \<open>
  The calls of \<open>freshNameUnique\<close> made while a tree is lowered, grouped by the counter
  the name was drawn from: an entry is a name minted from the counter of the call at hand,
  or the trace of a scope that was opened meanwhile (a method definition, or the body of a
  class, module or singleton class) and drew its names from a counter of its own.
  \<open>allNames\<close> is the order in which the names were entered; \<open>ownNames\<close> are those of the
  counter at hand.
\<close>

datatype ScopeLog = Minted NameRef | Scope "ScopeLog list"

definition ownNames :: "ScopeLog list \<Rightarrow> NameRef list" where
  "ownNames trace = concat (map (\<lambda>e. case e of Minted n \<Rightarrow> [n] | Scope sub \<Rightarrow> []) trace)"

fun names1 :: "ScopeLog \<Rightarrow> NameRef list" where
  "names1 (Minted n) = [n]"
| "names1 (Scope sub) = concat (map names1 sub)"

definition allNames :: "ScopeLog list \<Rightarrow> NameRef list" where
  "allNames trace = concat (map names1 trace)"

text \<open>
  Every scope opened numbers its own names \<open>2\<close>, \<open>3\<close>, ... (its counter starts at \<open>1\<close>), and
  so do the scopes inside it; the names of the counter at hand are numbered from \<open>c + 1\<close>.
\<close>

fun wellNumbered :: "ScopeLog \<Rightarrow> bool" where
  "wellNumbered (Minted n) = True"
| "wellNumbered (Scope sub) = (numbered 1 (ownNames sub) \<and> (\<forall>e \<in> set sub. wellNumbered e))"

definition drawsFrom :: "u2 \<Rightarrow> ScopeLog list \<Rightarrow> bool" where
  "drawsFrom c trace = (numbered c (ownNames trace) \<and> (\<forall>e \<in> set trace. wellNumbered e))"

text \<open>No two names of one scope are the same.\<close>

fun distinctWithin :: "ScopeLog \<Rightarrow> bool" where
  "distinctWithin (Minted n) = True"
| "distinctWithin (Scope sub) = (distinct (ownNames sub) \<and> (\<forall>e \<in> set sub. distinctWithin e))"

definition distinctPerScope :: "ScopeLog list \<Rightarrow> bool" where
  "distinctPerScope trace = (distinct (ownNames trace) \<and> (\<forall>e \<in> set trace. distinctWithin e))"

definition scoped :: "MutableContext \<Rightarrow> u2 \<Rightarrow> 'a result \<Rightarrow> bool" where
  "scoped ctx c r =
     (case r of
        Inl e \<Rightarrow> True
      | Inr (x, ctx', c') \<Rightarrow>
          (\<exists>trace. freshNames ctx' = freshNames ctx @ allNames trace \<and> drawsFrom c trace
                 \<and> c' = c + of_nat (length (ownNames trace))))"

lemma ownNames_simps [simp]:
  "ownNames [] = []" "ownNames (Minted n # trace) = n # ownNames trace"
  "ownNames (Scope sub # trace) = ownNames trace" "ownNames (xs @ ys) = ownNames xs @ ownNames ys"
  by (simp_all add: ownNames_def)

lemma allNames_simps [simp]:
  "allNames [] = []" "allNames (Minted n # trace) = n # allNames trace"
  "allNames (Scope sub # trace) = allNames sub @ allNames trace"
  "allNames (xs @ ys) = allNames xs @ allNames ys"
  by (simp_all add: allNames_def)

lemma minted_names [simp]: "ownNames (map Minted new) = new" "allNames (map Minted new) = new"
  by (induction new) simp_all

lemma wellNumbered_Scope [simp]: "wellNumbered (Scope sub) = drawsFrom 1 sub"
  by (simp add: drawsFrom_def)

lemma drawsFrom_Nil [simp]: "drawsFrom c []"
  by (simp add: drawsFrom_def)

lemma drawsFrom_minted: "numbered c new \<Longrightarrow> drawsFrom c (map Minted new)"
  by (auto simp: drawsFrom_def)

lemma drawsFrom_Scope [simp]: "drawsFrom c (Scope sub # trace) = (drawsFrom 1 sub \<and> drawsFrom c trace)"
  by (auto simp: drawsFrom_def)

lemma drawsFrom_append:
  "drawsFrom c xs \<Longrightarrow> drawsFrom (c + of_nat (length (ownNames xs))) ys \<Longrightarrow> drawsFrom c (xs @ ys)"
  by (auto simp: drawsFrom_def intro: numbered_append)

lemma length_ownNames: "length (ownNames trace) \<le> length (allNames trace)"
  by (induction trace) (auto split: ScopeLog.splits simp: ownNames_def allNames_def)

lemma length_names1: "e \<in> set trace \<Longrightarrow> length (names1 e) \<le> length (allNames trace)"
  by (induction trace) (auto simp: allNames_def)

lemma wellNumbered_distinct:
  "wellNumbered e \<Longrightarrow> length (names1 e) \<le> 2 ^ 16 \<Longrightarrow> distinctWithin e"
proof (induction e)
  case (Minted n)
  show ?case by simp
next
  case (Scope sub)
  have all: "names1 (Scope sub) = allNames sub" by (simp add: allNames_def)
  from Scope.prems have num: "numbered 1 (ownNames sub)" and wn: "\<forall>e \<in> set sub. wellNumbered e"
    by (simp_all add: drawsFrom_def)
  from Scope.prems(2) all have len: "length (allNames sub) \<le> 2 ^ 16" by simp
  from len length_ownNames [of sub] have "length (ownNames sub) \<le> 2 ^ 16" by simp
  with num have own: "distinct (ownNames sub)" by (rule numbered_distinct)
  have "distinctWithin e" if "e \<in> set sub" for e
  proof (rule Scope.IH [OF that])
    from wn that show "wellNumbered e" by simp
    from length_names1 [OF that] len show "length (names1 e) \<le> 2 ^ 16" by simp
  qed
  with own show ?case by simp
qed

lemma drawsFrom_distinct:
  assumes "drawsFrom c trace" and "length (allNames trace) \<le> 2 ^ 16"
  shows "distinctPerScope trace"
proof -
  from assms(2) length_ownNames [of trace] have "length (ownNames trace) \<le> 2 ^ 16" by simp
  with assms(1) have "distinct (ownNames trace)"
    by (auto simp: drawsFrom_def intro: numbered_distinct)
  moreover have "distinctWithin e" if "e \<in> set trace" for e
  proof (rule wellNumbered_distinct)
    from assms(1) that show "wellNumbered e" by (simp add: drawsFrom_def)
    from length_names1 [OF that] assms(2) show "length (names1 e) \<le> 2 ^ 16" by simp
  qed
  ultimately show ?thesis by (simp add: distinctPerScope_def)
qed

text \<open>The rules of \<open>scoped\<close>: sequencing, the handler, the loops, and the opening of a scope.\<close>

lemma counted_scoped: "counted ctx c r \<Longrightarrow> scoped ctx c r"
  by (auto simp: counted_def scoped_def split: sum.splits
      intro!: exI [of _ "map Minted new" for new] drawsFrom_minted)

lemma scoped_Inl [simp]: "scoped ctx c (Inl e)"
  by (simp add: scoped_def)

lemma scoped_ret [simp]: "scoped ctx c (ret x ctx c)"
  by (rule counted_scoped) simp

lemma scoped_ret_error [simp]: "scoped ctx c (ret x (beginError ctx loc what) c)"
  by (rule counted_scoped) simp

lemma scoped_raise [simp]: "scoped ctx c (raise msg ctx')" "scoped ctx c (nullPointer ctx')"
  by (simp_all add: raise_def nullPointer_def)

lemma scoped_bind:
  assumes "scoped ctx c r"
    and "\<And>x ctx1 c1. r = Inr (x, ctx1, c1) \<Longrightarrow> scoped ctx1 c1 (f x ctx1 c1)"
  shows "scoped ctx c (bind r f)"
proof (cases r)
  case (Inl e)
  then show ?thesis by simp
next
  case (Inr v)
  obtain x ctx1 c1 where v: "v = (x, ctx1, c1)" by (cases v) auto
  from assms(1) Inr v obtain log1 where
    n1: "freshNames ctx1 = freshNames ctx @ allNames log1" "drawsFrom c log1"
      "c1 = c + of_nat (length (ownNames log1))"
    by (auto simp: scoped_def)
  from assms(2) [OF Inr [unfolded v]] have step: "scoped ctx1 c1 (f x ctx1 c1)" .
  show ?thesis
  proof (cases "f x ctx1 c1")
    case (Inl e)
    with Inr v show ?thesis by simp
  next
    case (Inr w)
    obtain y ctx2 c2 where w: "w = (y, ctx2, c2)" by (cases w) auto
    from step Inr w obtain log2 where
      n2: "freshNames ctx2 = freshNames ctx1 @ allNames log2" "drawsFrom c1 log2"
        "c2 = c1 + of_nat (length (ownNames log2))"
      by (auto simp: scoped_def)
    have "drawsFrom c (log1 @ log2)" using n1 n2 by (auto intro: drawsFrom_append)
    with n1 n2 have "scoped ctx c (Inr (y, ctx2, c2))"
      by (auto simp: scoped_def add.assoc intro!: exI [of _ "log1 @ log2"])
    with \<open>r = Inr v\<close> v Inr w show ?thesis by simp
  qed
qed

lemma scoped_scope:
  assumes "scoped ctx 1 r"
    and "\<And>x ctx1 c1. r = Inr (x, ctx1, c1) \<Longrightarrow> scoped ctx1 c (k x ctx1)"
  shows "scoped ctx c (bind r (\<lambda>x ctx1 c1. k x ctx1))"
proof (cases r)
  case (Inl e)
  then show ?thesis by simp
next
  case (Inr v)
  obtain x ctx1 c1 where v: "v = (x, ctx1, c1)" by (cases v) auto
  from assms(1) Inr v obtain sub where
    n1: "freshNames ctx1 = freshNames ctx @ allNames sub" "drawsFrom 1 sub"
    by (auto simp: scoped_def)
  from assms(2) [OF Inr [unfolded v]] have step: "scoped ctx1 c (k x ctx1)" .
  show ?thesis
  proof (cases "k x ctx1")
    case (Inl e)
    with Inr v show ?thesis by simp
  next
    case (Inr w)
    obtain y ctx2 c2 where w: "w = (y, ctx2, c2)" by (cases w) auto
    from step Inr w obtain rest where
      n2: "freshNames ctx2 = freshNames ctx1 @ allNames rest" "drawsFrom c rest"
        "c2 = c + of_nat (length (ownNames rest))"
      by (auto simp: scoped_def)
    from n1 n2 have "scoped ctx c (Inr (y, ctx2, c2))"
      by (auto simp: scoped_def intro!: exI [of _ "Scope sub # rest"])
    with \<open>r = Inr v\<close> v Inr w show ?thesis by simp
  qed
qed

lemma scoped_catch: "scoped ctx c r \<Longrightarrow> scoped ctx c (catchSorbetException loc r)"
  by (auto simp: scoped_def catchSorbetException_def split: sum.splits prod.splits Failure.splits)

lemma scoped_foldM:
  assumes "\<And>s x ctx c. x \<in> set xs \<Longrightarrow> scoped ctx c (f s x ctx c)"
  shows "scoped ctx c (foldM f xs s ctx c)"
  using assms
proof (induction xs arbitrary: s ctx c)
  case Nil
  show ?case by simp
next
  case (Cons x xs)
  have step: "scoped ctx c (f s x ctx c)"
    by (rule Cons.prems) simp
  have rest: "scoped ctx1 c1 (foldM f xs s1 ctx1 c1)" for s1 ctx1 c1
    by (rule Cons.IH) (simp add: Cons.prems)
  show ?case
    by (simp, rule scoped_bind) (use step rest in auto)
qed

lemma scoped_foldM_sized:
  assumes "\<And>s x ctx c. osize x \<le> vsize xs \<Longrightarrow> scoped ctx c (f s x ctx c)"
  shows "scoped ctx c (foldM f xs s ctx c)"
  by (rule scoped_foldM) (auto intro: assms dest: osize_le_vsize)

lemma scoped_mapM_sized:
  assumes "\<And>x ctx c. osize x \<le> vsize xs \<Longrightarrow> scoped ctx c (f x ctx c)"
  shows "scoped ctx c (mapM f xs ctx c)"
  unfolding mapM_def
  by (rule scoped_foldM) (auto intro!: scoped_bind assms dest: osize_le_vsize)

lemmas scoped_intros = scoped_bind scoped_catch scoped_foldM_sized scoped_mapM_sized
  counted_freshName [THEN counted_scoped]
  counted_bindArgs [THEN counted_scoped] counted_andAsgn [THEN counted_scoped]
  counted_orAsgn [THEN counted_scoped] counted_opAsgn [THEN counted_scoped]
  counted_resbodyExceptions [THEN counted_scoped] counted_resbody [THEN counted_scoped]
  counted_findBlockSend [THEN counted_scoped] counted_unsupportedNode [THEN counted_scoped]

lemmas size_dests = last_size hd_size extractBlockPass_sizes send_args_block_size

lemma cast_Begin_iff: "cast_Begin x = Some v \<longleftrightarrow> (\<exists>l. x = Some (parser_Begin l v))"
  by (cases x; simp add: cast_Begin_def split: Node.splits)

text \<open>
  Every call whose termination measure is below \<open>n\<close>, on any parse tree, numbers the names
  it enters scope by scope.
\<close>

definition scopedBelow :: "nat \<Rightarrow> bool" where
  "scopedBelow n \<longleftrightarrow>
     (\<forall>ctx what c. 3 * osize what < n \<longrightarrow> scoped ctx c (node2TreeImpl ctx what c)) \<and>
     (\<forall>ctx loc argnode bodynode c. 3 * (osize argnode + osize bodynode) + 1 < n \<longrightarrow>
        scoped ctx c (desugarArgsAndBody ctx loc argnode bodynode c)) \<and>
     (\<forall>ctx loc nodes c. 3 * vsize nodes + 1 < n \<longrightarrow>
        scoped ctx c (desugarDString ctx loc nodes c)) \<and>
     (\<forall>ctx loc declLoc name argnode body c. 3 * (osize argnode + osize body) + 2 < n \<longrightarrow>
        scoped ctx c (buildMethod ctx loc declLoc name argnode body c)) \<and>
     (\<forall>ctx node c. 3 * osize node + 1 < n \<longrightarrow> scoped ctx c (node2Proc ctx node c)) \<and>
     (\<forall>ctx loc exprs rhs c. 3 * vsize exprs + 1 < n \<longrightarrow>
        scoped ctx c (desugarMlhs ctx loc exprs rhs c)) \<and>
     (\<forall>ctx node. 3 * osize node + 1 < n \<longrightarrow> scoped ctx 1 (scopeNodeToBody ctx node))"

lemma scopedBelowD:
  assumes "scopedBelow n"
  shows "3 * osize what < n \<Longrightarrow> scoped ctx c (node2TreeImpl ctx what c)"
    and "3 * (osize argnode + osize bodynode) + 1 < n
         \<Longrightarrow> scoped ctx c (desugarArgsAndBody ctx loc argnode bodynode c)"
    and "3 * vsize nodes + 1 < n \<Longrightarrow> scoped ctx c (desugarDString ctx loc nodes c)"
    and "3 * (osize argnode + osize body) + 2 < n
         \<Longrightarrow> scoped ctx c (buildMethod ctx loc declLoc name argnode body c)"
    and "3 * osize node + 1 < n \<Longrightarrow> scoped ctx c (node2Proc ctx node c)"
    and "3 * vsize exprs + 1 < n \<Longrightarrow> scoped ctx c (desugarMlhs ctx loc exprs rhs c)"
    and "3 * osize node + 1 < n \<Longrightarrow> scoped ctx 1 (scopeNodeToBody ctx node)"
  using assms by (simp_all add: scopedBelow_def)

text \<open>
  The five clauses that open a scope. A method definition lowers its parameters and body
  from a fresh counter and hands back the counter it was given; a class, module or
  singleton class lowers its body through \<open>scopeNodeToBody\<close>, which starts a counter of its
  own, and its name and superclass from the counter it was given.
\<close>

lemma scoped_DefMethod:
  assumes "scopedBelow n" and "node = parser_DefMethod loc declLoc name args body"
    and "3 * osize (Some node) < Suc n"
  shows "scoped ctx c (node2TreeImpl ctx (Some node) c)"
proof -
  have m: "scoped ctx' 1 (buildMethod ctx' loc declLoc name args body 1)" for ctx'
    using assms(2,3) by (intro scopedBelowD [OF assms(1)]) simp
  show ?thesis
    unfolding assms(2) node2TreeImpl_DefMethod
    by (auto simp: Let_def intro!: scoped_catch scoped_scope m)
qed

lemma scoped_DefS:
  assumes "scopedBelow n" and "node = parser_DefS loc declLoc singleton name args body"
    and "3 * osize (Some node) < Suc n"
  shows "scoped ctx c (node2TreeImpl ctx (Some node) c)"
proof -
  have m: "scoped ctx' 1 (buildMethod ctx' loc declLoc name args body 1)" for ctx'
    using assms(2,3) by (intro scopedBelowD [OF assms(1)]) simp
  show ?thesis
    unfolding assms(2) node2TreeImpl_DefS
    by (auto simp: Let_def intro!: scoped_catch scoped_scope m split: option.split)
qed

lemma scoped_SClass:
  assumes "scopedBelow n" and "node = parser_SClass loc declLoc expr body"
    and "3 * osize (Some node) < Suc n"
  shows "scoped ctx c (node2TreeImpl ctx (Some node) c)"
proof -
  have m: "scoped ctx' 1 (scopeNodeToBody ctx' body)" for ctx'
    using assms(2,3) by (intro scopedBelowD [OF assms(1)]) simp
  show ?thesis
    unfolding assms(2) node2TreeImpl_SClass
    by (auto simp: Let_def intro!: scoped_catch scoped_scope m split: option.split)
qed

lemma scoped_Module:
  assumes "scopedBelow n" and "node = parser_Module loc declLoc name body"
    and "3 * osize (Some node) < Suc n"
  shows "scoped ctx c (node2TreeImpl ctx (Some node) c)"
proof -
  note IH = scopedBelowD [OF assms(1)]
  have m: "scoped ctx' 1 (scopeNodeToBody ctx' body)" for ctx'
    using assms(2,3) by (intro IH) simp
  have name: "scoped ctx' c' (node2TreeImpl ctx' name c')" for ctx' c'
    using assms(2,3) by (intro IH) simp
  show ?thesis
    unfolding assms(2) node2TreeImpl_Module
    apply (rule scoped_catch)
    apply (auto intro!: scoped_scope m)
    apply (auto intro!: scoped_bind name)
    done
qed

lemma scoped_Class:
  assumes "scopedBelow n" and "node = parser_Class loc declLoc name superclass body"
    and "3 * osize (Some node) < Suc n"
  shows "scoped ctx c (node2TreeImpl ctx (Some node) c)"
proof -
  note IH = scopedBelowD [OF assms(1)]
  have m: "scoped ctx' 1 (scopeNodeToBody ctx' body)" for ctx'
    using assms(2,3) by (intro IH) simp
  have name: "scoped ctx' c' (node2TreeImpl ctx' name c')" for ctx' c'
    using assms(2,3) by (intro IH) simp
  have super: "superclass = Some s \<Longrightarrow> scoped ctx' c' (node2TreeImpl ctx' (Some s) c')" for ctx' c' s
    using assms(2,3) by (intro IH) simp
  show ?thesis
    unfolding assms(2) node2TreeImpl_Class
    apply (rule scoped_catch)
    apply (auto intro!: scoped_scope m)
    apply (auto intro!: scoped_bind name super split: option.split)
    done
qed

lemma node2TreeImpl_scoped_step:
  assumes "scopedBelow n" and "3 * osize what < Suc n"
  shows "scoped ctx c (node2TreeImpl ctx what c)"
proof (cases what)
  case None
  then show ?thesis by (subst node2TreeImpl.simps) simp
next
  case (Some node)
  note IH = scopedBelowD [OF assms(1)]
  note scopes = scoped_DefMethod [OF assms(1)] scoped_DefS [OF assms(1)] scoped_SClass [OF assms(1)]
    scoped_Module [OF assms(1)] scoped_Class [OF assms(1)]
  show ?thesis
    unfolding Some
    apply (insert assms(2) [unfolded Some])
    apply (cases node;
        ((erule scopes, assumption) |
         (subst node2TreeImpl.simps,
          auto simp: Let_def cast_iffs unimplementedNode_def intro!: scoped_intros IH dest!: size_dests
            split: option.split list.split prod.split StolResult.split StodResult.split)))
    done
qed

lemma desugarArgsAndBody_scoped_step:
  assumes "scopedBelow n" and "3 * (osize argnode + osize bodynode) + 1 < Suc n"
  shows "scoped ctx c (desugarArgsAndBody ctx loc argnode bodynode c)"
proof -
  note IH = scopedBelowD [OF assms(1)]
  show ?thesis
    using assms(2)
    by (subst desugarArgsAndBody.simps)
       (auto simp: Let_def cast_iffs intro!: scoped_intros IH split: option.split)
qed

lemma desugarDString_scoped_step:
  assumes "scopedBelow n" and "3 * vsize nodes + 1 < Suc n"
  shows "scoped ctx c (desugarDString ctx loc nodes c)"
proof -
  note IH = scopedBelowD [OF assms(1)]
  show ?thesis
    using assms(2)
    by (subst desugarDString.simps)
       (auto simp: Let_def intro!: scoped_intros IH split: list.split)
qed

lemma buildMethod_scoped_step:
  assumes "scopedBelow n" and "3 * (osize argnode + osize body) + 2 < Suc n"
  shows "scoped ctx c (buildMethod ctx loc declLoc name argnode body c)"
proof -
  note IH = scopedBelowD [OF assms(1)]
  show ?thesis
    using assms(2)
    by (subst buildMethod.simps) (auto intro!: scoped_intros IH)
qed

lemma node2Proc_scoped_step:
  assumes "scopedBelow n" and "3 * osize node + 1 < Suc n"
  shows "scoped ctx c (node2Proc ctx node c)"
proof -
  note IH = scopedBelowD [OF assms(1)]
  show ?thesis
    using assms(2)
    by (subst node2Proc.simps) (auto simp: Let_def intro!: scoped_intros IH split: option.split)
qed

lemma desugarMlhs_scoped_step:
  assumes "scopedBelow n" and "3 * vsize exprs + 1 < Suc n"
  shows "scoped ctx c (desugarMlhs ctx loc exprs rhs c)"
proof -
  note IH = scopedBelowD [OF assms(1)]
  show ?thesis
    using assms(2)
    by (subst desugarMlhs.simps)
       (auto simp: Let_def cast_iffs intro!: scoped_intros IH split: option.split prod.split)
qed

lemma scopeNodeToBody_scoped_step:
  assumes "scopedBelow n" and "3 * osize node + 1 < Suc n"
  shows "scoped ctx 1 (scopeNodeToBody ctx node)"
proof -
  note IH = scopedBelowD [OF assms(1)]
  show ?thesis
    using assms(2)
    by (subst scopeNodeToBody.simps)
       (auto simp: Let_def cast_Begin_iff intro!: scoped_intros IH split: option.split)
qed

lemma scopedBelow_all: "scopedBelow n"
proof (induction n)
  case 0
  show ?case by (simp add: scopedBelow_def)
next
  case (Suc n)
  show ?case
    unfolding scopedBelow_def
    apply (intro conjI allI impI)
          apply (rule node2TreeImpl_scoped_step [OF Suc]; assumption)
         apply (rule desugarArgsAndBody_scoped_step [OF Suc]; assumption)
        apply (rule desugarDString_scoped_step [OF Suc]; assumption)
       apply (rule buildMethod_scoped_step [OF Suc]; assumption)
      apply (rule node2Proc_scoped_step [OF Suc]; assumption)
     apply (rule desugarMlhs_scoped_step [OF Suc]; assumption)
    apply (rule scopeNodeToBody_scoped_step [OF Suc]; assumption)
    done
qed

lemma scoped_node2TreeImpl: "scoped ctx c (node2TreeImpl ctx what c)"
  by (rule scopedBelowD(1) [OF scopedBelow_all [of "Suc (3 * osize what)"]]) simp

lemma scoped_buildMethod: "scoped ctx c (buildMethod ctx loc declLoc name argnode body c)"
  by (rule scopedBelowD(4) [OF scopedBelow_all [of "Suc (3 * (osize argnode + osize body) + 2)"]]) simp

lemma scoped_scopeNodeToBody: "scoped ctx 1 (scopeNodeToBody ctx node)"
  by (rule scopedBelowD(7) [OF scopedBelow_all [of "Suc (3 * osize node + 1)"]]) simp

subsection \<open>The claim\<close>

lemma scoped_InrD:
  "scoped ctx c r \<Longrightarrow> r = Inr (x, ctx', c')
   \<Longrightarrow> \<exists>trace. freshNames ctx' = freshNames ctx @ allNames trace \<and> drawsFrom c trace
              \<and> c' = c + of_nat (length (ownNames trace))"
  by (simp add: scoped_def)

lemma scope_then_names:
  assumes "bind r (\<lambda>x ctx1 c1. k x ctx1) = Inr (t, ctx', c')"
    and "scoped ctx 1 r"
    and "\<And>x ctx1. scoped ctx1 c (k x ctx1)"
  shows "\<exists>sub rest. freshNames ctx' = freshNames ctx @ allNames sub @ allNames rest
           \<and> drawsFrom 1 sub \<and> drawsFrom c rest \<and> c' = c + of_nat (length (ownNames rest))"
proof -
  from assms(1) obtain x ctx1 c1 where r: "r = Inr (x, ctx1, c1)" and k: "k x ctx1 = Inr (t, ctx', c')"
    by (auto simp: bind_eq_Inr)
  from scoped_InrD [OF assms(2) r] obtain sub where
    sub: "freshNames ctx1 = freshNames ctx @ allNames sub" "drawsFrom 1 sub" by blast
  from scoped_InrD [OF assms(3) k] obtain rest where
    rest: "freshNames ctx' = freshNames ctx1 @ allNames rest" "drawsFrom c rest"
      "c' = c + of_nat (length (ownNames rest))" by blast
  from sub rest show ?thesis by auto
qed

lemma clearLocReported_eq_Inr: "clearLocReported r = Inr v \<longleftrightarrow> r = Inr v"
  by (auto simp: clearLocReported_def split: sum.splits prod.splits Failure.splits)


text \<open>
  Examples: \<open>nil && nil\<close>, which binds its left operand to a temporary named \<open>&&\<close>; the
  method \<open>def f; nil && nil; end\<close>; and the class \<open>class C; nil && nil; end\<close>.
\<close>

definition andTemp :: "u2 \<Rightarrow> NameRef" where
  "andTemp k = UNIQUE Desugar Names_andAnd k"

definition nilAndNil :: "Node option" where
  "nilAndNil = Some (parser_And (Loc 1 1) (Some (parser_Nil (Loc 1 1))) (Some (parser_Nil (Loc 1 1))))"

definition loweredAnd :: "u2 \<Rightarrow> Expression" where
  "loweredAnd k =
     InsSeq (Loc 1 1)
       [Assign (Loc 1 1) (UnresolvedIdent (Loc 1 1) UnresolvedIdent_Local (andTemp k))
          (Literal (Loc 1 1) LitNil)]
       (ast_If (Loc 1 1) (UnresolvedIdent (Loc 1 1) UnresolvedIdent_Local (andTemp k))
          (Literal (Loc 1 1) LitNil)
          (UnresolvedIdent (Loc 1 1) UnresolvedIdent_Local (andTemp k)))"

definition defF :: "Node option" where
  "defF = Some (parser_DefMethod (Loc 1 1) (Loc 1 1) (UTF8 ''f'') None nilAndNil)"

definition classC :: "Node option" where
  "classC = Some (parser_Class (Loc 1 1) (Loc 1 1) (Some (parser_Const (Loc 1 1) None (UTF8 ''C'')))
                    None nilAndNil)"

lemma lower_nilAndNil:
  "node2TreeImpl ctx nilAndNil c
     = Inr (loweredAnd (c + 1), ctx\<lparr>freshNames := freshNames ctx @ [andTemp (c + 1)]\<rparr>, c + 1)"
  by (simp add: nilAndNil_def loweredAnd_def andTemp_def node2TreeImpl_And node2TreeImpl_Nil
      isa_Reference_def eval_simps)

lemma lower_defF:
  "node2TreeImpl ctx defF c
     = Inr (MethodDef (Loc 1 1) (Loc 1 1) Symbols_todo (UTF8 ''f'') [] (loweredAnd 2) 0,
            ctx\<lparr>freshNames := freshNames ctx @ [andTemp 2]\<rparr>, c)"
  by (simp add: defF_def node2TreeImpl_DefMethod buildMethod.simps desugarArgsAndBody.simps
      cast_Args_def lower_nilAndNil eval_simps)

lemma lower_classC:
  "node2TreeImpl ctx classC c
     = Inr (ClassDef (Loc 1 1) (Loc 1 1) Symbols_todo
              (UnresolvedConstantLit (Loc 1 1) EmptyTree (UTF8 ''C''))
              [Constant (Loc 1 1) Symbols_todo] [loweredAnd 2] ClassDefKind_Class,
            ctx\<lparr>freshNames := freshNames ctx @ [andTemp 2]\<rparr>, c)"
proof -
  have "cast_Begin nilAndNil = None" by (simp add: nilAndNil_def cast_Begin_def)
  then show ?thesis
    by (simp add: classC_def node2TreeImpl_Class node2TreeImpl_Const node2TreeImpl_None
        scopeNodeToBody.simps lower_nilAndNil eval_simps)
qed



end
